theory Spec2Isabelle
  imports Complex_Main "HOL-Library.Sublist" "HOL-Library.AList"
begin

section \<open>Python strings\<close>

text \<open>
  A Python \<open>str\<close> is a sequence of Unicode code points: a list of integers here, whose
  length is \<open>len\<close>. The character classes and the case mappings are those of CPython
  3.11 (Unicode 14.0.0), written out as tables of what \<open>isspace\<close>, \<open>isalnum\<close>,
  \<open>isalpha\<close>, \<open>lower\<close>, \<open>upper\<close> and \<open>title\<close> answer on each code point. An integer
  outside 0 to 0x10FFFF stands for no character, and no table lists it.
\<close>

type_synonym pystr = "int list"

text \<open>An ASCII literal of the source as a Python string.\<close>

abbreviation py :: "string \<Rightarrow> pystr" where
  "py s \<equiv> map of_char s"

text \<open>A single character is written as its code point: 0x20 is the space, 0x27 the
  apostrophe, 0x2E the full stop, 0x2F the slash, 0x5F the underscore.\<close>

subsection \<open>Tables of code points\<close>

text \<open>A set of code points is a table of ranges \<open>(first, last)\<close> in ascending order, kept in
  pages; a page carries the last code point it covers.\<close>

type_synonym range_table = "(int \<times> (int \<times> int) list) list"

fun in_ranges :: "int \<Rightarrow> (int \<times> int) list \<Rightarrow> bool" where
  "in_ranges c [] = False"
| "in_ranges c ((lo, hi) # rows) =
     (if c < lo then False else if c \<le> hi then True else in_ranges c rows)"

fun in_pages :: "int \<Rightarrow> range_table \<Rightarrow> bool" where
  "in_pages c [] = False"
| "in_pages c ((bound, rows) # pages) =
     (if c \<le> bound then in_ranges c rows else in_pages c pages)"

text \<open>A case mapping to single code points is a table of rows \<open>(first, last, step, target)\<close>:
  the code points \<open>first\<close>, \<open>first + step\<close>, ... up to \<open>last\<close> go to \<open>target\<close>,
  \<open>target + step\<close>, ... in turn. The code points that map to several are listed apart, and
  a code point in neither list maps to itself.\<close>

type_synonym case_table = "(int \<times> (int \<times> int \<times> int \<times> int) list) list"

fun find_row :: "int \<Rightarrow> (int \<times> int \<times> int \<times> int) list \<Rightarrow> int option" where
  "find_row c [] = None"
| "find_row c ((lo, hi, step, target) # rows) =
     (if c < lo then None
      else if c \<le> hi then (if (c - lo) mod step = 0 then Some (target + (c - lo)) else None)
      else find_row c rows)"

fun find_in_pages :: "int \<Rightarrow> case_table \<Rightarrow> int option" where
  "find_in_pages c [] = None"
| "find_in_pages c ((bound, rows) # pages) =
     (if c \<le> bound then find_row c rows else find_in_pages c pages)"

definition case_map :: "(int \<times> int list) list \<Rightarrow> case_table \<Rightarrow> int \<Rightarrow> int list" where
  "case_map special pages c =
     (case map_of special c of
        Some out \<Rightarrow> out
      | None \<Rightarrow> (case find_in_pages c pages of Some t \<Rightarrow> [t] | None \<Rightarrow> [c]))"

text \<open>The code points \<open>c\<close> with \<open>chr(c).isspace()\<close>.\<close>

definition space_chars :: "int list" where
  "space_chars =
    [0x9, 0xA, 0xB, 0xC, 0xD, 0x1C, 0x1D, 0x1E, 0x1F, 0x20,
     0x85, 0xA0, 0x1680, 0x2000, 0x2001, 0x2002, 0x2003, 0x2004, 0x2005, 0x2006,
     0x2007, 0x2008, 0x2009, 0x200A, 0x2028, 0x2029, 0x202F, 0x205F, 0x3000]"

text \<open>The code points \<open>c\<close> with \<open>chr(c).isalnum()\<close>.\<close>

definition alnum_pages :: range_table where
  "alnum_pages =
    [(0x5EA,
      [(0x30, 0x39), (0x41, 0x5A), (0x61, 0x7A), (0xAA, 0xAA), (0xB2, 0xB3), (0xB5, 0xB5),
       (0xB9, 0xBA), (0xBC, 0xBE), (0xC0, 0xD6), (0xD8, 0xF6), (0xF8, 0x2C1), (0x2C6, 0x2D1),
       (0x2E0, 0x2E4), (0x2EC, 0x2EC), (0x2EE, 0x2EE), (0x370, 0x374), (0x376, 0x377), (0x37A, 0x37D),
       (0x37F, 0x37F), (0x386, 0x386), (0x388, 0x38A), (0x38C, 0x38C), (0x38E, 0x3A1), (0x3A3, 0x3F5),
       (0x3F7, 0x481), (0x48A, 0x52F), (0x531, 0x556), (0x559, 0x559), (0x560, 0x588), (0x5D0, 0x5EA)]),
     (0x96F,
      [(0x5EF, 0x5F2), (0x620, 0x64A), (0x660, 0x669), (0x66E, 0x66F), (0x671, 0x6D3), (0x6D5, 0x6D5),
       (0x6E5, 0x6E6), (0x6EE, 0x6FC), (0x6FF, 0x6FF), (0x710, 0x710), (0x712, 0x72F), (0x74D, 0x7A5),
       (0x7B1, 0x7B1), (0x7C0, 0x7EA), (0x7F4, 0x7F5), (0x7FA, 0x7FA), (0x800, 0x815), (0x81A, 0x81A),
       (0x824, 0x824), (0x828, 0x828), (0x840, 0x858), (0x860, 0x86A), (0x870, 0x887), (0x889, 0x88E),
       (0x8A0, 0x8C9), (0x904, 0x939), (0x93D, 0x93D), (0x950, 0x950), (0x958, 0x961), (0x966, 0x96F)]),
     (0xAB3,
      [(0x971, 0x980), (0x985, 0x98C), (0x98F, 0x990), (0x993, 0x9A8), (0x9AA, 0x9B0), (0x9B2, 0x9B2),
       (0x9B6, 0x9B9), (0x9BD, 0x9BD), (0x9CE, 0x9CE), (0x9DC, 0x9DD), (0x9DF, 0x9E1), (0x9E6, 0x9F1),
       (0x9F4, 0x9F9), (0x9FC, 0x9FC), (0xA05, 0xA0A), (0xA0F, 0xA10), (0xA13, 0xA28), (0xA2A, 0xA30),
       (0xA32, 0xA33), (0xA35, 0xA36), (0xA38, 0xA39), (0xA59, 0xA5C), (0xA5E, 0xA5E), (0xA66, 0xA6F),
       (0xA72, 0xA74), (0xA85, 0xA8D), (0xA8F, 0xA91), (0xA93, 0xAA8), (0xAAA, 0xAB0), (0xAB2, 0xAB3)]),
     (0xC0C,
      [(0xAB5, 0xAB9), (0xABD, 0xABD), (0xAD0, 0xAD0), (0xAE0, 0xAE1), (0xAE6, 0xAEF), (0xAF9, 0xAF9),
       (0xB05, 0xB0C), (0xB0F, 0xB10), (0xB13, 0xB28), (0xB2A, 0xB30), (0xB32, 0xB33), (0xB35, 0xB39),
       (0xB3D, 0xB3D), (0xB5C, 0xB5D), (0xB5F, 0xB61), (0xB66, 0xB6F), (0xB71, 0xB77), (0xB83, 0xB83),
       (0xB85, 0xB8A), (0xB8E, 0xB90), (0xB92, 0xB95), (0xB99, 0xB9A), (0xB9C, 0xB9C), (0xB9E, 0xB9F),
       (0xBA3, 0xBA4), (0xBA8, 0xBAA), (0xBAE, 0xBB9), (0xBD0, 0xBD0), (0xBE6, 0xBF2), (0xC05, 0xC0C)]),
     (0xD96,
      [(0xC0E, 0xC10), (0xC12, 0xC28), (0xC2A, 0xC39), (0xC3D, 0xC3D), (0xC58, 0xC5A), (0xC5D, 0xC5D),
       (0xC60, 0xC61), (0xC66, 0xC6F), (0xC78, 0xC7E), (0xC80, 0xC80), (0xC85, 0xC8C), (0xC8E, 0xC90),
       (0xC92, 0xCA8), (0xCAA, 0xCB3), (0xCB5, 0xCB9), (0xCBD, 0xCBD), (0xCDD, 0xCDE), (0xCE0, 0xCE1),
       (0xCE6, 0xCEF), (0xCF1, 0xCF2), (0xD04, 0xD0C), (0xD0E, 0xD10), (0xD12, 0xD3A), (0xD3D, 0xD3D),
       (0xD4E, 0xD4E), (0xD54, 0xD56), (0xD58, 0xD61), (0xD66, 0xD78), (0xD7A, 0xD7F), (0xD85, 0xD96)]),
     (0x105D,
      [(0xD9A, 0xDB1), (0xDB3, 0xDBB), (0xDBD, 0xDBD), (0xDC0, 0xDC6), (0xDE6, 0xDEF), (0xE01, 0xE30),
       (0xE32, 0xE33), (0xE40, 0xE46), (0xE50, 0xE59), (0xE81, 0xE82), (0xE84, 0xE84), (0xE86, 0xE8A),
       (0xE8C, 0xEA3), (0xEA5, 0xEA5), (0xEA7, 0xEB0), (0xEB2, 0xEB3), (0xEBD, 0xEBD), (0xEC0, 0xEC4),
       (0xEC6, 0xEC6), (0xED0, 0xED9), (0xEDC, 0xEDF), (0xF00, 0xF00), (0xF20, 0xF33), (0xF40, 0xF47),
       (0xF49, 0xF6C), (0xF88, 0xF8C), (0x1000, 0x102A), (0x103F, 0x1049), (0x1050, 0x1055), (0x105A, 0x105D)]),
     (0x13FD,
      [(0x1061, 0x1061), (0x1065, 0x1066), (0x106E, 0x1070), (0x1075, 0x1081), (0x108E, 0x108E), (0x1090, 0x1099),
       (0x10A0, 0x10C5), (0x10C7, 0x10C7), (0x10CD, 0x10CD), (0x10D0, 0x10FA), (0x10FC, 0x1248), (0x124A, 0x124D),
       (0x1250, 0x1256), (0x1258, 0x1258), (0x125A, 0x125D), (0x1260, 0x1288), (0x128A, 0x128D), (0x1290, 0x12B0),
       (0x12B2, 0x12B5), (0x12B8, 0x12BE), (0x12C0, 0x12C0), (0x12C2, 0x12C5), (0x12C8, 0x12D6), (0x12D8, 0x1310),
       (0x1312, 0x1315), (0x1318, 0x135A), (0x1369, 0x137C), (0x1380, 0x138F), (0x13A0, 0x13F5), (0x13F8, 0x13FD)]),
     (0x1A89,
      [(0x1401, 0x166C), (0x166F, 0x167F), (0x1681, 0x169A), (0x16A0, 0x16EA), (0x16EE, 0x16F8), (0x1700, 0x1711),
       (0x171F, 0x1731), (0x1740, 0x1751), (0x1760, 0x176C), (0x176E, 0x1770), (0x1780, 0x17B3), (0x17D7, 0x17D7),
       (0x17DC, 0x17DC), (0x17E0, 0x17E9), (0x17F0, 0x17F9), (0x1810, 0x1819), (0x1820, 0x1878), (0x1880, 0x1884),
       (0x1887, 0x18A8), (0x18AA, 0x18AA), (0x18B0, 0x18F5), (0x1900, 0x191E), (0x1946, 0x196D), (0x1970, 0x1974),
       (0x1980, 0x19AB), (0x19B0, 0x19C9), (0x19D0, 0x19DA), (0x1A00, 0x1A16), (0x1A20, 0x1A54), (0x1A80, 0x1A89)]),
     (0x1FBE,
      [(0x1A90, 0x1A99), (0x1AA7, 0x1AA7), (0x1B05, 0x1B33), (0x1B45, 0x1B4C), (0x1B50, 0x1B59), (0x1B83, 0x1BA0),
       (0x1BAE, 0x1BE5), (0x1C00, 0x1C23), (0x1C40, 0x1C49), (0x1C4D, 0x1C7D), (0x1C80, 0x1C88), (0x1C90, 0x1CBA),
       (0x1CBD, 0x1CBF), (0x1CE9, 0x1CEC), (0x1CEE, 0x1CF3), (0x1CF5, 0x1CF6), (0x1CFA, 0x1CFA), (0x1D00, 0x1DBF),
       (0x1E00, 0x1F15), (0x1F18, 0x1F1D), (0x1F20, 0x1F45), (0x1F48, 0x1F4D), (0x1F50, 0x1F57), (0x1F59, 0x1F59),
       (0x1F5B, 0x1F5B), (0x1F5D, 0x1F5D), (0x1F5F, 0x1F7D), (0x1F80, 0x1FB4), (0x1FB6, 0x1FBC), (0x1FBE, 0x1FBE)]),
     (0x2CEE,
      [(0x1FC2, 0x1FC4), (0x1FC6, 0x1FCC), (0x1FD0, 0x1FD3), (0x1FD6, 0x1FDB), (0x1FE0, 0x1FEC), (0x1FF2, 0x1FF4),
       (0x1FF6, 0x1FFC), (0x2070, 0x2071), (0x2074, 0x2079), (0x207F, 0x2089), (0x2090, 0x209C), (0x2102, 0x2102),
       (0x2107, 0x2107), (0x210A, 0x2113), (0x2115, 0x2115), (0x2119, 0x211D), (0x2124, 0x2124), (0x2126, 0x2126),
       (0x2128, 0x2128), (0x212A, 0x212D), (0x212F, 0x2139), (0x213C, 0x213F), (0x2145, 0x2149), (0x214E, 0x214E),
       (0x2150, 0x2189), (0x2460, 0x249B), (0x24EA, 0x24FF), (0x2776, 0x2793), (0x2C00, 0x2CE4), (0x2CEB, 0x2CEE)]),
     (0x31FF,
      [(0x2CF2, 0x2CF3), (0x2CFD, 0x2CFD), (0x2D00, 0x2D25), (0x2D27, 0x2D27), (0x2D2D, 0x2D2D), (0x2D30, 0x2D67),
       (0x2D6F, 0x2D6F), (0x2D80, 0x2D96), (0x2DA0, 0x2DA6), (0x2DA8, 0x2DAE), (0x2DB0, 0x2DB6), (0x2DB8, 0x2DBE),
       (0x2DC0, 0x2DC6), (0x2DC8, 0x2DCE), (0x2DD0, 0x2DD6), (0x2DD8, 0x2DDE), (0x2E2F, 0x2E2F), (0x3005, 0x3007),
       (0x3021, 0x3029), (0x3031, 0x3035), (0x3038, 0x303C), (0x3041, 0x3096), (0x309D, 0x309F), (0x30A1, 0x30FA),
       (0x30FC, 0x30FF), (0x3105, 0x312F), (0x3131, 0x318E), (0x3192, 0x3195), (0x31A0, 0x31BF), (0x31F0, 0x31FF)]),
     (0xA8FE,
      [(0x3220, 0x3229), (0x3248, 0x324F), (0x3251, 0x325F), (0x3280, 0x3289), (0x32B1, 0x32BF), (0x3400, 0x4DBF),
       (0x4E00, 0xA48C), (0xA4D0, 0xA4FD), (0xA500, 0xA60C), (0xA610, 0xA62B), (0xA640, 0xA66E), (0xA67F, 0xA69D),
       (0xA6A0, 0xA6EF), (0xA717, 0xA71F), (0xA722, 0xA788), (0xA78B, 0xA7CA), (0xA7D0, 0xA7D1), (0xA7D3, 0xA7D3),
       (0xA7D5, 0xA7D9), (0xA7F2, 0xA801), (0xA803, 0xA805), (0xA807, 0xA80A), (0xA80C, 0xA822), (0xA830, 0xA835),
       (0xA840, 0xA873), (0xA882, 0xA8B3), (0xA8D0, 0xA8D9), (0xA8F2, 0xA8F7), (0xA8FB, 0xA8FB), (0xA8FD, 0xA8FE)]),
     (0xABE2,
      [(0xA900, 0xA925), (0xA930, 0xA946), (0xA960, 0xA97C), (0xA984, 0xA9B2), (0xA9CF, 0xA9D9), (0xA9E0, 0xA9E4),
       (0xA9E6, 0xA9FE), (0xAA00, 0xAA28), (0xAA40, 0xAA42), (0xAA44, 0xAA4B), (0xAA50, 0xAA59), (0xAA60, 0xAA76),
       (0xAA7A, 0xAA7A), (0xAA7E, 0xAAAF), (0xAAB1, 0xAAB1), (0xAAB5, 0xAAB6), (0xAAB9, 0xAABD), (0xAAC0, 0xAAC0),
       (0xAAC2, 0xAAC2), (0xAADB, 0xAADD), (0xAAE0, 0xAAEA), (0xAAF2, 0xAAF4), (0xAB01, 0xAB06), (0xAB09, 0xAB0E),
       (0xAB11, 0xAB16), (0xAB20, 0xAB26), (0xAB28, 0xAB2E), (0xAB30, 0xAB5A), (0xAB5C, 0xAB69), (0xAB70, 0xABE2)]),
     (0xFFDC,
      [(0xABF0, 0xABF9), (0xAC00, 0xD7A3), (0xD7B0, 0xD7C6), (0xD7CB, 0xD7FB), (0xF900, 0xFA6D), (0xFA70, 0xFAD9),
       (0xFB00, 0xFB06), (0xFB13, 0xFB17), (0xFB1D, 0xFB1D), (0xFB1F, 0xFB28), (0xFB2A, 0xFB36), (0xFB38, 0xFB3C),
       (0xFB3E, 0xFB3E), (0xFB40, 0xFB41), (0xFB43, 0xFB44), (0xFB46, 0xFBB1), (0xFBD3, 0xFD3D), (0xFD50, 0xFD8F),
       (0xFD92, 0xFDC7), (0xFDF0, 0xFDFB), (0xFE70, 0xFE74), (0xFE76, 0xFEFC), (0xFF10, 0xFF19), (0xFF21, 0xFF3A),
       (0xFF41, 0xFF5A), (0xFF66, 0xFFBE), (0xFFC2, 0xFFC7), (0xFFCA, 0xFFCF), (0xFFD2, 0xFFD7), (0xFFDA, 0xFFDC)]),
     (0x10595,
      [(0x10000, 0x1000B), (0x1000D, 0x10026), (0x10028, 0x1003A), (0x1003C, 0x1003D), (0x1003F, 0x1004D), (0x10050, 0x1005D),
       (0x10080, 0x100FA), (0x10107, 0x10133), (0x10140, 0x10178), (0x1018A, 0x1018B), (0x10280, 0x1029C), (0x102A0, 0x102D0),
       (0x102E1, 0x102FB), (0x10300, 0x10323), (0x1032D, 0x1034A), (0x10350, 0x10375), (0x10380, 0x1039D), (0x103A0, 0x103C3),
       (0x103C8, 0x103CF), (0x103D1, 0x103D5), (0x10400, 0x1049D), (0x104A0, 0x104A9), (0x104B0, 0x104D3), (0x104D8, 0x104FB),
       (0x10500, 0x10527), (0x10530, 0x10563), (0x10570, 0x1057A), (0x1057C, 0x1058A), (0x1058C, 0x10592), (0x10594, 0x10595)]),
     (0x10A48,
      [(0x10597, 0x105A1), (0x105A3, 0x105B1), (0x105B3, 0x105B9), (0x105BB, 0x105BC), (0x10600, 0x10736), (0x10740, 0x10755),
       (0x10760, 0x10767), (0x10780, 0x10785), (0x10787, 0x107B0), (0x107B2, 0x107BA), (0x10800, 0x10805), (0x10808, 0x10808),
       (0x1080A, 0x10835), (0x10837, 0x10838), (0x1083C, 0x1083C), (0x1083F, 0x10855), (0x10858, 0x10876), (0x10879, 0x1089E),
       (0x108A7, 0x108AF), (0x108E0, 0x108F2), (0x108F4, 0x108F5), (0x108FB, 0x1091B), (0x10920, 0x10939), (0x10980, 0x109B7),
       (0x109BC, 0x109CF), (0x109D2, 0x10A00), (0x10A10, 0x10A13), (0x10A15, 0x10A17), (0x10A19, 0x10A35), (0x10A40, 0x10A48)]),
     (0x110E8,
      [(0x10A60, 0x10A7E), (0x10A80, 0x10A9F), (0x10AC0, 0x10AC7), (0x10AC9, 0x10AE4), (0x10AEB, 0x10AEF), (0x10B00, 0x10B35),
       (0x10B40, 0x10B55), (0x10B58, 0x10B72), (0x10B78, 0x10B91), (0x10BA9, 0x10BAF), (0x10C00, 0x10C48), (0x10C80, 0x10CB2),
       (0x10CC0, 0x10CF2), (0x10CFA, 0x10D23), (0x10D30, 0x10D39), (0x10E60, 0x10E7E), (0x10E80, 0x10EA9), (0x10EB0, 0x10EB1),
       (0x10F00, 0x10F27), (0x10F30, 0x10F45), (0x10F51, 0x10F54), (0x10F70, 0x10F81), (0x10FB0, 0x10FCB), (0x10FE0, 0x10FF6),
       (0x11003, 0x11037), (0x11052, 0x1106F), (0x11071, 0x11072), (0x11075, 0x11075), (0x11083, 0x110AF), (0x110D0, 0x110E8)]),
     (0x11361,
      [(0x110F0, 0x110F9), (0x11103, 0x11126), (0x11136, 0x1113F), (0x11144, 0x11144), (0x11147, 0x11147), (0x11150, 0x11172),
       (0x11176, 0x11176), (0x11183, 0x111B2), (0x111C1, 0x111C4), (0x111D0, 0x111DA), (0x111DC, 0x111DC), (0x111E1, 0x111F4),
       (0x11200, 0x11211), (0x11213, 0x1122B), (0x11280, 0x11286), (0x11288, 0x11288), (0x1128A, 0x1128D), (0x1128F, 0x1129D),
       (0x1129F, 0x112A8), (0x112B0, 0x112DE), (0x112F0, 0x112F9), (0x11305, 0x1130C), (0x1130F, 0x11310), (0x11313, 0x11328),
       (0x1132A, 0x11330), (0x11332, 0x11333), (0x11335, 0x11339), (0x1133D, 0x1133D), (0x11350, 0x11350), (0x1135D, 0x11361)]),
     (0x119A7,
      [(0x11400, 0x11434), (0x11447, 0x1144A), (0x11450, 0x11459), (0x1145F, 0x11461), (0x11480, 0x114AF), (0x114C4, 0x114C5),
       (0x114C7, 0x114C7), (0x114D0, 0x114D9), (0x11580, 0x115AE), (0x115D8, 0x115DB), (0x11600, 0x1162F), (0x11644, 0x11644),
       (0x11650, 0x11659), (0x11680, 0x116AA), (0x116B8, 0x116B8), (0x116C0, 0x116C9), (0x11700, 0x1171A), (0x11730, 0x1173B),
       (0x11740, 0x11746), (0x11800, 0x1182B), (0x118A0, 0x118F2), (0x118FF, 0x11906), (0x11909, 0x11909), (0x1190C, 0x11913),
       (0x11915, 0x11916), (0x11918, 0x1192F), (0x1193F, 0x1193F), (0x11941, 0x11941), (0x11950, 0x11959), (0x119A0, 0x119A7)]),
     (0x1246E,
      [(0x119AA, 0x119D0), (0x119E1, 0x119E1), (0x119E3, 0x119E3), (0x11A00, 0x11A00), (0x11A0B, 0x11A32), (0x11A3A, 0x11A3A),
       (0x11A50, 0x11A50), (0x11A5C, 0x11A89), (0x11A9D, 0x11A9D), (0x11AB0, 0x11AF8), (0x11C00, 0x11C08), (0x11C0A, 0x11C2E),
       (0x11C40, 0x11C40), (0x11C50, 0x11C6C), (0x11C72, 0x11C8F), (0x11D00, 0x11D06), (0x11D08, 0x11D09), (0x11D0B, 0x11D30),
       (0x11D46, 0x11D46), (0x11D50, 0x11D59), (0x11D60, 0x11D65), (0x11D67, 0x11D68), (0x11D6A, 0x11D89), (0x11D98, 0x11D98),
       (0x11DA0, 0x11DA9), (0x11EE0, 0x11EF2), (0x11FB0, 0x11FB0), (0x11FC0, 0x11FD4), (0x12000, 0x12399), (0x12400, 0x1246E)]),
     (0x1B152,
      [(0x12480, 0x12543), (0x12F90, 0x12FF0), (0x13000, 0x1342E), (0x14400, 0x14646), (0x16800, 0x16A38), (0x16A40, 0x16A5E),
       (0x16A60, 0x16A69), (0x16A70, 0x16ABE), (0x16AC0, 0x16AC9), (0x16AD0, 0x16AED), (0x16B00, 0x16B2F), (0x16B40, 0x16B43),
       (0x16B50, 0x16B59), (0x16B5B, 0x16B61), (0x16B63, 0x16B77), (0x16B7D, 0x16B8F), (0x16E40, 0x16E96), (0x16F00, 0x16F4A),
       (0x16F50, 0x16F50), (0x16F93, 0x16F9F), (0x16FE0, 0x16FE1), (0x16FE3, 0x16FE3), (0x17000, 0x187F7), (0x18800, 0x18CD5),
       (0x18D00, 0x18D08), (0x1AFF0, 0x1AFF3), (0x1AFF5, 0x1AFFB), (0x1AFFD, 0x1AFFE), (0x1B000, 0x1B122), (0x1B150, 0x1B152)]),
     (0x1D6FA,
      [(0x1B164, 0x1B167), (0x1B170, 0x1B2FB), (0x1BC00, 0x1BC6A), (0x1BC70, 0x1BC7C), (0x1BC80, 0x1BC88), (0x1BC90, 0x1BC99),
       (0x1D2E0, 0x1D2F3), (0x1D360, 0x1D378), (0x1D400, 0x1D454), (0x1D456, 0x1D49C), (0x1D49E, 0x1D49F), (0x1D4A2, 0x1D4A2),
       (0x1D4A5, 0x1D4A6), (0x1D4A9, 0x1D4AC), (0x1D4AE, 0x1D4B9), (0x1D4BB, 0x1D4BB), (0x1D4BD, 0x1D4C3), (0x1D4C5, 0x1D505),
       (0x1D507, 0x1D50A), (0x1D50D, 0x1D514), (0x1D516, 0x1D51C), (0x1D51E, 0x1D539), (0x1D53B, 0x1D53E), (0x1D540, 0x1D544),
       (0x1D546, 0x1D546), (0x1D54A, 0x1D550), (0x1D552, 0x1D6A5), (0x1D6A8, 0x1D6C0), (0x1D6C2, 0x1D6DA), (0x1D6DC, 0x1D6FA)]),
     (0x1ED2D,
      [(0x1D6FC, 0x1D714), (0x1D716, 0x1D734), (0x1D736, 0x1D74E), (0x1D750, 0x1D76E), (0x1D770, 0x1D788), (0x1D78A, 0x1D7A8),
       (0x1D7AA, 0x1D7C2), (0x1D7C4, 0x1D7CB), (0x1D7CE, 0x1D7FF), (0x1DF00, 0x1DF1E), (0x1E100, 0x1E12C), (0x1E137, 0x1E13D),
       (0x1E140, 0x1E149), (0x1E14E, 0x1E14E), (0x1E290, 0x1E2AD), (0x1E2C0, 0x1E2EB), (0x1E2F0, 0x1E2F9), (0x1E7E0, 0x1E7E6),
       (0x1E7E8, 0x1E7EB), (0x1E7ED, 0x1E7EE), (0x1E7F0, 0x1E7FE), (0x1E800, 0x1E8C4), (0x1E8C7, 0x1E8CF), (0x1E900, 0x1E943),
       (0x1E94B, 0x1E94B), (0x1E950, 0x1E959), (0x1EC71, 0x1ECAB), (0x1ECAD, 0x1ECAF), (0x1ECB1, 0x1ECB4), (0x1ED01, 0x1ED2D)]),
     (0x1EE89,
      [(0x1ED2F, 0x1ED3D), (0x1EE00, 0x1EE03), (0x1EE05, 0x1EE1F), (0x1EE21, 0x1EE22), (0x1EE24, 0x1EE24), (0x1EE27, 0x1EE27),
       (0x1EE29, 0x1EE32), (0x1EE34, 0x1EE37), (0x1EE39, 0x1EE39), (0x1EE3B, 0x1EE3B), (0x1EE42, 0x1EE42), (0x1EE47, 0x1EE47),
       (0x1EE49, 0x1EE49), (0x1EE4B, 0x1EE4B), (0x1EE4D, 0x1EE4F), (0x1EE51, 0x1EE52), (0x1EE54, 0x1EE54), (0x1EE57, 0x1EE57),
       (0x1EE59, 0x1EE59), (0x1EE5B, 0x1EE5B), (0x1EE5D, 0x1EE5D), (0x1EE5F, 0x1EE5F), (0x1EE61, 0x1EE62), (0x1EE64, 0x1EE64),
       (0x1EE67, 0x1EE6A), (0x1EE6C, 0x1EE72), (0x1EE74, 0x1EE77), (0x1EE79, 0x1EE7C), (0x1EE7E, 0x1EE7E), (0x1EE80, 0x1EE89)]),
     (0x3134A,
      [(0x1EE8B, 0x1EE9B), (0x1EEA1, 0x1EEA3), (0x1EEA5, 0x1EEA9), (0x1EEAB, 0x1EEBB), (0x1F100, 0x1F10C), (0x1FBF0, 0x1FBF9),
       (0x20000, 0x2A6DF), (0x2A700, 0x2B738), (0x2B740, 0x2B81D), (0x2B820, 0x2CEA1), (0x2CEB0, 0x2EBE0), (0x2F800, 0x2FA1D),
       (0x30000, 0x3134A)])]"

text \<open>The code points \<open>c\<close> with \<open>chr(c).isalpha()\<close>.\<close>

definition alpha_pages :: range_table where
  "alpha_pages =
    [(0x66F,
      [(0x41, 0x5A), (0x61, 0x7A), (0xAA, 0xAA), (0xB5, 0xB5), (0xBA, 0xBA), (0xC0, 0xD6),
       (0xD8, 0xF6), (0xF8, 0x2C1), (0x2C6, 0x2D1), (0x2E0, 0x2E4), (0x2EC, 0x2EC), (0x2EE, 0x2EE),
       (0x370, 0x374), (0x376, 0x377), (0x37A, 0x37D), (0x37F, 0x37F), (0x386, 0x386), (0x388, 0x38A),
       (0x38C, 0x38C), (0x38E, 0x3A1), (0x3A3, 0x3F5), (0x3F7, 0x481), (0x48A, 0x52F), (0x531, 0x556),
       (0x559, 0x559), (0x560, 0x588), (0x5D0, 0x5EA), (0x5EF, 0x5F2), (0x620, 0x64A), (0x66E, 0x66F)]),
     (0x9A8,
      [(0x671, 0x6D3), (0x6D5, 0x6D5), (0x6E5, 0x6E6), (0x6EE, 0x6EF), (0x6FA, 0x6FC), (0x6FF, 0x6FF),
       (0x710, 0x710), (0x712, 0x72F), (0x74D, 0x7A5), (0x7B1, 0x7B1), (0x7CA, 0x7EA), (0x7F4, 0x7F5),
       (0x7FA, 0x7FA), (0x800, 0x815), (0x81A, 0x81A), (0x824, 0x824), (0x828, 0x828), (0x840, 0x858),
       (0x860, 0x86A), (0x870, 0x887), (0x889, 0x88E), (0x8A0, 0x8C9), (0x904, 0x939), (0x93D, 0x93D),
       (0x950, 0x950), (0x958, 0x961), (0x971, 0x980), (0x985, 0x98C), (0x98F, 0x990), (0x993, 0x9A8)]),
     (0xB0C,
      [(0x9AA, 0x9B0), (0x9B2, 0x9B2), (0x9B6, 0x9B9), (0x9BD, 0x9BD), (0x9CE, 0x9CE), (0x9DC, 0x9DD),
       (0x9DF, 0x9E1), (0x9F0, 0x9F1), (0x9FC, 0x9FC), (0xA05, 0xA0A), (0xA0F, 0xA10), (0xA13, 0xA28),
       (0xA2A, 0xA30), (0xA32, 0xA33), (0xA35, 0xA36), (0xA38, 0xA39), (0xA59, 0xA5C), (0xA5E, 0xA5E),
       (0xA72, 0xA74), (0xA85, 0xA8D), (0xA8F, 0xA91), (0xA93, 0xAA8), (0xAAA, 0xAB0), (0xAB2, 0xAB3),
       (0xAB5, 0xAB9), (0xABD, 0xABD), (0xAD0, 0xAD0), (0xAE0, 0xAE1), (0xAF9, 0xAF9), (0xB05, 0xB0C)]),
     (0xC8C,
      [(0xB0F, 0xB10), (0xB13, 0xB28), (0xB2A, 0xB30), (0xB32, 0xB33), (0xB35, 0xB39), (0xB3D, 0xB3D),
       (0xB5C, 0xB5D), (0xB5F, 0xB61), (0xB71, 0xB71), (0xB83, 0xB83), (0xB85, 0xB8A), (0xB8E, 0xB90),
       (0xB92, 0xB95), (0xB99, 0xB9A), (0xB9C, 0xB9C), (0xB9E, 0xB9F), (0xBA3, 0xBA4), (0xBA8, 0xBAA),
       (0xBAE, 0xBB9), (0xBD0, 0xBD0), (0xC05, 0xC0C), (0xC0E, 0xC10), (0xC12, 0xC28), (0xC2A, 0xC39),
       (0xC3D, 0xC3D), (0xC58, 0xC5A), (0xC5D, 0xC5D), (0xC60, 0xC61), (0xC80, 0xC80), (0xC85, 0xC8C)]),
     (0xEB0,
      [(0xC8E, 0xC90), (0xC92, 0xCA8), (0xCAA, 0xCB3), (0xCB5, 0xCB9), (0xCBD, 0xCBD), (0xCDD, 0xCDE),
       (0xCE0, 0xCE1), (0xCF1, 0xCF2), (0xD04, 0xD0C), (0xD0E, 0xD10), (0xD12, 0xD3A), (0xD3D, 0xD3D),
       (0xD4E, 0xD4E), (0xD54, 0xD56), (0xD5F, 0xD61), (0xD7A, 0xD7F), (0xD85, 0xD96), (0xD9A, 0xDB1),
       (0xDB3, 0xDBB), (0xDBD, 0xDBD), (0xDC0, 0xDC6), (0xE01, 0xE30), (0xE32, 0xE33), (0xE40, 0xE46),
       (0xE81, 0xE82), (0xE84, 0xE84), (0xE86, 0xE8A), (0xE8C, 0xEA3), (0xEA5, 0xEA5), (0xEA7, 0xEB0)]),
     (0x12B0,
      [(0xEB2, 0xEB3), (0xEBD, 0xEBD), (0xEC0, 0xEC4), (0xEC6, 0xEC6), (0xEDC, 0xEDF), (0xF00, 0xF00),
       (0xF40, 0xF47), (0xF49, 0xF6C), (0xF88, 0xF8C), (0x1000, 0x102A), (0x103F, 0x103F), (0x1050, 0x1055),
       (0x105A, 0x105D), (0x1061, 0x1061), (0x1065, 0x1066), (0x106E, 0x1070), (0x1075, 0x1081), (0x108E, 0x108E),
       (0x10A0, 0x10C5), (0x10C7, 0x10C7), (0x10CD, 0x10CD), (0x10D0, 0x10FA), (0x10FC, 0x1248), (0x124A, 0x124D),
       (0x1250, 0x1256), (0x1258, 0x1258), (0x125A, 0x125D), (0x1260, 0x1288), (0x128A, 0x128D), (0x1290, 0x12B0)]),
     (0x191E,
      [(0x12B2, 0x12B5), (0x12B8, 0x12BE), (0x12C0, 0x12C0), (0x12C2, 0x12C5), (0x12C8, 0x12D6), (0x12D8, 0x1310),
       (0x1312, 0x1315), (0x1318, 0x135A), (0x1380, 0x138F), (0x13A0, 0x13F5), (0x13F8, 0x13FD), (0x1401, 0x166C),
       (0x166F, 0x167F), (0x1681, 0x169A), (0x16A0, 0x16EA), (0x16F1, 0x16F8), (0x1700, 0x1711), (0x171F, 0x1731),
       (0x1740, 0x1751), (0x1760, 0x176C), (0x176E, 0x1770), (0x1780, 0x17B3), (0x17D7, 0x17D7), (0x17DC, 0x17DC),
       (0x1820, 0x1878), (0x1880, 0x1884), (0x1887, 0x18A8), (0x18AA, 0x18AA), (0x18B0, 0x18F5), (0x1900, 0x191E)]),
     (0x1F5B,
      [(0x1950, 0x196D), (0x1970, 0x1974), (0x1980, 0x19AB), (0x19B0, 0x19C9), (0x1A00, 0x1A16), (0x1A20, 0x1A54),
       (0x1AA7, 0x1AA7), (0x1B05, 0x1B33), (0x1B45, 0x1B4C), (0x1B83, 0x1BA0), (0x1BAE, 0x1BAF), (0x1BBA, 0x1BE5),
       (0x1C00, 0x1C23), (0x1C4D, 0x1C4F), (0x1C5A, 0x1C7D), (0x1C80, 0x1C88), (0x1C90, 0x1CBA), (0x1CBD, 0x1CBF),
       (0x1CE9, 0x1CEC), (0x1CEE, 0x1CF3), (0x1CF5, 0x1CF6), (0x1CFA, 0x1CFA), (0x1D00, 0x1DBF), (0x1E00, 0x1F15),
       (0x1F18, 0x1F1D), (0x1F20, 0x1F45), (0x1F48, 0x1F4D), (0x1F50, 0x1F57), (0x1F59, 0x1F59), (0x1F5B, 0x1F5B)]),
     (0x2CE4,
      [(0x1F5D, 0x1F5D), (0x1F5F, 0x1F7D), (0x1F80, 0x1FB4), (0x1FB6, 0x1FBC), (0x1FBE, 0x1FBE), (0x1FC2, 0x1FC4),
       (0x1FC6, 0x1FCC), (0x1FD0, 0x1FD3), (0x1FD6, 0x1FDB), (0x1FE0, 0x1FEC), (0x1FF2, 0x1FF4), (0x1FF6, 0x1FFC),
       (0x2071, 0x2071), (0x207F, 0x207F), (0x2090, 0x209C), (0x2102, 0x2102), (0x2107, 0x2107), (0x210A, 0x2113),
       (0x2115, 0x2115), (0x2119, 0x211D), (0x2124, 0x2124), (0x2126, 0x2126), (0x2128, 0x2128), (0x212A, 0x212D),
       (0x212F, 0x2139), (0x213C, 0x213F), (0x2145, 0x2149), (0x214E, 0x214E), (0x2183, 0x2184), (0x2C00, 0x2CE4)]),
     (0xA48C,
      [(0x2CEB, 0x2CEE), (0x2CF2, 0x2CF3), (0x2D00, 0x2D25), (0x2D27, 0x2D27), (0x2D2D, 0x2D2D), (0x2D30, 0x2D67),
       (0x2D6F, 0x2D6F), (0x2D80, 0x2D96), (0x2DA0, 0x2DA6), (0x2DA8, 0x2DAE), (0x2DB0, 0x2DB6), (0x2DB8, 0x2DBE),
       (0x2DC0, 0x2DC6), (0x2DC8, 0x2DCE), (0x2DD0, 0x2DD6), (0x2DD8, 0x2DDE), (0x2E2F, 0x2E2F), (0x3005, 0x3006),
       (0x3031, 0x3035), (0x303B, 0x303C), (0x3041, 0x3096), (0x309D, 0x309F), (0x30A1, 0x30FA), (0x30FC, 0x30FF),
       (0x3105, 0x312F), (0x3131, 0x318E), (0x31A0, 0x31BF), (0x31F0, 0x31FF), (0x3400, 0x4DBF), (0x4E00, 0xA48C)]),
     (0xA9FE,
      [(0xA4D0, 0xA4FD), (0xA500, 0xA60C), (0xA610, 0xA61F), (0xA62A, 0xA62B), (0xA640, 0xA66E), (0xA67F, 0xA69D),
       (0xA6A0, 0xA6E5), (0xA717, 0xA71F), (0xA722, 0xA788), (0xA78B, 0xA7CA), (0xA7D0, 0xA7D1), (0xA7D3, 0xA7D3),
       (0xA7D5, 0xA7D9), (0xA7F2, 0xA801), (0xA803, 0xA805), (0xA807, 0xA80A), (0xA80C, 0xA822), (0xA840, 0xA873),
       (0xA882, 0xA8B3), (0xA8F2, 0xA8F7), (0xA8FB, 0xA8FB), (0xA8FD, 0xA8FE), (0xA90A, 0xA925), (0xA930, 0xA946),
       (0xA960, 0xA97C), (0xA984, 0xA9B2), (0xA9CF, 0xA9CF), (0xA9E0, 0xA9E4), (0xA9E6, 0xA9EF), (0xA9FA, 0xA9FE)]),
     (0xFB1D,
      [(0xAA00, 0xAA28), (0xAA40, 0xAA42), (0xAA44, 0xAA4B), (0xAA60, 0xAA76), (0xAA7A, 0xAA7A), (0xAA7E, 0xAAAF),
       (0xAAB1, 0xAAB1), (0xAAB5, 0xAAB6), (0xAAB9, 0xAABD), (0xAAC0, 0xAAC0), (0xAAC2, 0xAAC2), (0xAADB, 0xAADD),
       (0xAAE0, 0xAAEA), (0xAAF2, 0xAAF4), (0xAB01, 0xAB06), (0xAB09, 0xAB0E), (0xAB11, 0xAB16), (0xAB20, 0xAB26),
       (0xAB28, 0xAB2E), (0xAB30, 0xAB5A), (0xAB5C, 0xAB69), (0xAB70, 0xABE2), (0xAC00, 0xD7A3), (0xD7B0, 0xD7C6),
       (0xD7CB, 0xD7FB), (0xF900, 0xFA6D), (0xFA70, 0xFAD9), (0xFB00, 0xFB06), (0xFB13, 0xFB17), (0xFB1D, 0xFB1D)]),
     (0x1031F,
      [(0xFB1F, 0xFB28), (0xFB2A, 0xFB36), (0xFB38, 0xFB3C), (0xFB3E, 0xFB3E), (0xFB40, 0xFB41), (0xFB43, 0xFB44),
       (0xFB46, 0xFBB1), (0xFBD3, 0xFD3D), (0xFD50, 0xFD8F), (0xFD92, 0xFDC7), (0xFDF0, 0xFDFB), (0xFE70, 0xFE74),
       (0xFE76, 0xFEFC), (0xFF21, 0xFF3A), (0xFF41, 0xFF5A), (0xFF66, 0xFFBE), (0xFFC2, 0xFFC7), (0xFFCA, 0xFFCF),
       (0xFFD2, 0xFFD7), (0xFFDA, 0xFFDC), (0x10000, 0x1000B), (0x1000D, 0x10026), (0x10028, 0x1003A), (0x1003C, 0x1003D),
       (0x1003F, 0x1004D), (0x10050, 0x1005D), (0x10080, 0x100FA), (0x10280, 0x1029C), (0x102A0, 0x102D0), (0x10300, 0x1031F)]),
     (0x1083C,
      [(0x1032D, 0x10340), (0x10342, 0x10349), (0x10350, 0x10375), (0x10380, 0x1039D), (0x103A0, 0x103C3), (0x103C8, 0x103CF),
       (0x10400, 0x1049D), (0x104B0, 0x104D3), (0x104D8, 0x104FB), (0x10500, 0x10527), (0x10530, 0x10563), (0x10570, 0x1057A),
       (0x1057C, 0x1058A), (0x1058C, 0x10592), (0x10594, 0x10595), (0x10597, 0x105A1), (0x105A3, 0x105B1), (0x105B3, 0x105B9),
       (0x105BB, 0x105BC), (0x10600, 0x10736), (0x10740, 0x10755), (0x10760, 0x10767), (0x10780, 0x10785), (0x10787, 0x107B0),
       (0x107B2, 0x107BA), (0x10800, 0x10805), (0x10808, 0x10808), (0x1080A, 0x10835), (0x10837, 0x10838), (0x1083C, 0x1083C)]),
     (0x10F45,
      [(0x1083F, 0x10855), (0x10860, 0x10876), (0x10880, 0x1089E), (0x108E0, 0x108F2), (0x108F4, 0x108F5), (0x10900, 0x10915),
       (0x10920, 0x10939), (0x10980, 0x109B7), (0x109BE, 0x109BF), (0x10A00, 0x10A00), (0x10A10, 0x10A13), (0x10A15, 0x10A17),
       (0x10A19, 0x10A35), (0x10A60, 0x10A7C), (0x10A80, 0x10A9C), (0x10AC0, 0x10AC7), (0x10AC9, 0x10AE4), (0x10B00, 0x10B35),
       (0x10B40, 0x10B55), (0x10B60, 0x10B72), (0x10B80, 0x10B91), (0x10C00, 0x10C48), (0x10C80, 0x10CB2), (0x10CC0, 0x10CF2),
       (0x10D00, 0x10D23), (0x10E80, 0x10EA9), (0x10EB0, 0x10EB1), (0x10F00, 0x10F1C), (0x10F27, 0x10F27), (0x10F30, 0x10F45)]),
     (0x11333,
      [(0x10F70, 0x10F81), (0x10FB0, 0x10FC4), (0x10FE0, 0x10FF6), (0x11003, 0x11037), (0x11071, 0x11072), (0x11075, 0x11075),
       (0x11083, 0x110AF), (0x110D0, 0x110E8), (0x11103, 0x11126), (0x11144, 0x11144), (0x11147, 0x11147), (0x11150, 0x11172),
       (0x11176, 0x11176), (0x11183, 0x111B2), (0x111C1, 0x111C4), (0x111DA, 0x111DA), (0x111DC, 0x111DC), (0x11200, 0x11211),
       (0x11213, 0x1122B), (0x11280, 0x11286), (0x11288, 0x11288), (0x1128A, 0x1128D), (0x1128F, 0x1129D), (0x1129F, 0x112A8),
       (0x112B0, 0x112DE), (0x11305, 0x1130C), (0x1130F, 0x11310), (0x11313, 0x11328), (0x1132A, 0x11330), (0x11332, 0x11333)]),
     (0x119E1,
      [(0x11335, 0x11339), (0x1133D, 0x1133D), (0x11350, 0x11350), (0x1135D, 0x11361), (0x11400, 0x11434), (0x11447, 0x1144A),
       (0x1145F, 0x11461), (0x11480, 0x114AF), (0x114C4, 0x114C5), (0x114C7, 0x114C7), (0x11580, 0x115AE), (0x115D8, 0x115DB),
       (0x11600, 0x1162F), (0x11644, 0x11644), (0x11680, 0x116AA), (0x116B8, 0x116B8), (0x11700, 0x1171A), (0x11740, 0x11746),
       (0x11800, 0x1182B), (0x118A0, 0x118DF), (0x118FF, 0x11906), (0x11909, 0x11909), (0x1190C, 0x11913), (0x11915, 0x11916),
       (0x11918, 0x1192F), (0x1193F, 0x1193F), (0x11941, 0x11941), (0x119A0, 0x119A7), (0x119AA, 0x119D0), (0x119E1, 0x119E1)]),
     (0x16ABE,
      [(0x119E3, 0x119E3), (0x11A00, 0x11A00), (0x11A0B, 0x11A32), (0x11A3A, 0x11A3A), (0x11A50, 0x11A50), (0x11A5C, 0x11A89),
       (0x11A9D, 0x11A9D), (0x11AB0, 0x11AF8), (0x11C00, 0x11C08), (0x11C0A, 0x11C2E), (0x11C40, 0x11C40), (0x11C72, 0x11C8F),
       (0x11D00, 0x11D06), (0x11D08, 0x11D09), (0x11D0B, 0x11D30), (0x11D46, 0x11D46), (0x11D60, 0x11D65), (0x11D67, 0x11D68),
       (0x11D6A, 0x11D89), (0x11D98, 0x11D98), (0x11EE0, 0x11EF2), (0x11FB0, 0x11FB0), (0x12000, 0x12399), (0x12480, 0x12543),
       (0x12F90, 0x12FF0), (0x13000, 0x1342E), (0x14400, 0x14646), (0x16800, 0x16A38), (0x16A40, 0x16A5E), (0x16A70, 0x16ABE)]),
     (0x1D4A6,
      [(0x16AD0, 0x16AED), (0x16B00, 0x16B2F), (0x16B40, 0x16B43), (0x16B63, 0x16B77), (0x16B7D, 0x16B8F), (0x16E40, 0x16E7F),
       (0x16F00, 0x16F4A), (0x16F50, 0x16F50), (0x16F93, 0x16F9F), (0x16FE0, 0x16FE1), (0x16FE3, 0x16FE3), (0x17000, 0x187F7),
       (0x18800, 0x18CD5), (0x18D00, 0x18D08), (0x1AFF0, 0x1AFF3), (0x1AFF5, 0x1AFFB), (0x1AFFD, 0x1AFFE), (0x1B000, 0x1B122),
       (0x1B150, 0x1B152), (0x1B164, 0x1B167), (0x1B170, 0x1B2FB), (0x1BC00, 0x1BC6A), (0x1BC70, 0x1BC7C), (0x1BC80, 0x1BC88),
       (0x1BC90, 0x1BC99), (0x1D400, 0x1D454), (0x1D456, 0x1D49C), (0x1D49E, 0x1D49F), (0x1D4A2, 0x1D4A2), (0x1D4A5, 0x1D4A6)]),
     (0x1E2AD,
      [(0x1D4A9, 0x1D4AC), (0x1D4AE, 0x1D4B9), (0x1D4BB, 0x1D4BB), (0x1D4BD, 0x1D4C3), (0x1D4C5, 0x1D505), (0x1D507, 0x1D50A),
       (0x1D50D, 0x1D514), (0x1D516, 0x1D51C), (0x1D51E, 0x1D539), (0x1D53B, 0x1D53E), (0x1D540, 0x1D544), (0x1D546, 0x1D546),
       (0x1D54A, 0x1D550), (0x1D552, 0x1D6A5), (0x1D6A8, 0x1D6C0), (0x1D6C2, 0x1D6DA), (0x1D6DC, 0x1D6FA), (0x1D6FC, 0x1D714),
       (0x1D716, 0x1D734), (0x1D736, 0x1D74E), (0x1D750, 0x1D76E), (0x1D770, 0x1D788), (0x1D78A, 0x1D7A8), (0x1D7AA, 0x1D7C2),
       (0x1D7C4, 0x1D7CB), (0x1DF00, 0x1DF1E), (0x1E100, 0x1E12C), (0x1E137, 0x1E13D), (0x1E14E, 0x1E14E), (0x1E290, 0x1E2AD)]),
     (0x1EE62,
      [(0x1E2C0, 0x1E2EB), (0x1E7E0, 0x1E7E6), (0x1E7E8, 0x1E7EB), (0x1E7ED, 0x1E7EE), (0x1E7F0, 0x1E7FE), (0x1E800, 0x1E8C4),
       (0x1E900, 0x1E943), (0x1E94B, 0x1E94B), (0x1EE00, 0x1EE03), (0x1EE05, 0x1EE1F), (0x1EE21, 0x1EE22), (0x1EE24, 0x1EE24),
       (0x1EE27, 0x1EE27), (0x1EE29, 0x1EE32), (0x1EE34, 0x1EE37), (0x1EE39, 0x1EE39), (0x1EE3B, 0x1EE3B), (0x1EE42, 0x1EE42),
       (0x1EE47, 0x1EE47), (0x1EE49, 0x1EE49), (0x1EE4B, 0x1EE4B), (0x1EE4D, 0x1EE4F), (0x1EE51, 0x1EE52), (0x1EE54, 0x1EE54),
       (0x1EE57, 0x1EE57), (0x1EE59, 0x1EE59), (0x1EE5B, 0x1EE5B), (0x1EE5D, 0x1EE5D), (0x1EE5F, 0x1EE5F), (0x1EE61, 0x1EE62)]),
     (0x3134A,
      [(0x1EE64, 0x1EE64), (0x1EE67, 0x1EE6A), (0x1EE6C, 0x1EE72), (0x1EE74, 0x1EE77), (0x1EE79, 0x1EE7C), (0x1EE7E, 0x1EE7E),
       (0x1EE80, 0x1EE89), (0x1EE8B, 0x1EE9B), (0x1EEA1, 0x1EEA3), (0x1EEA5, 0x1EEA9), (0x1EEAB, 0x1EEBB), (0x20000, 0x2A6DF),
       (0x2A700, 0x2B738), (0x2B740, 0x2B81D), (0x2B820, 0x2CEA1), (0x2CEB0, 0x2EBE0), (0x2F800, 0x2FA1D), (0x30000, 0x3134A)])]"

text \<open>The cased code points (lowercase, uppercase or titlecase).\<close>

definition cased_pages :: range_table where
  "cased_pages =
    [(0x10CD,
      [(0x41, 0x5A), (0x61, 0x7A), (0xAA, 0xAA), (0xB5, 0xB5), (0xBA, 0xBA), (0xC0, 0xD6),
       (0xD8, 0xF6), (0xF8, 0x1BA), (0x1BC, 0x1BF), (0x1C4, 0x293), (0x295, 0x2B8), (0x2C0, 0x2C1),
       (0x2E0, 0x2E4), (0x345, 0x345), (0x370, 0x373), (0x376, 0x377), (0x37A, 0x37D), (0x37F, 0x37F),
       (0x386, 0x386), (0x388, 0x38A), (0x38C, 0x38C), (0x38E, 0x3A1), (0x3A3, 0x3F5), (0x3F7, 0x481),
       (0x48A, 0x52F), (0x531, 0x556), (0x560, 0x588), (0x10A0, 0x10C5), (0x10C7, 0x10C7), (0x10CD, 0x10CD)]),
     (0x209C,
      [(0x10D0, 0x10FA), (0x10FD, 0x10FF), (0x13A0, 0x13F5), (0x13F8, 0x13FD), (0x1C80, 0x1C88), (0x1C90, 0x1CBA),
       (0x1CBD, 0x1CBF), (0x1D00, 0x1DBF), (0x1E00, 0x1F15), (0x1F18, 0x1F1D), (0x1F20, 0x1F45), (0x1F48, 0x1F4D),
       (0x1F50, 0x1F57), (0x1F59, 0x1F59), (0x1F5B, 0x1F5B), (0x1F5D, 0x1F5D), (0x1F5F, 0x1F7D), (0x1F80, 0x1FB4),
       (0x1FB6, 0x1FBC), (0x1FBE, 0x1FBE), (0x1FC2, 0x1FC4), (0x1FC6, 0x1FCC), (0x1FD0, 0x1FD3), (0x1FD6, 0x1FDB),
       (0x1FE0, 0x1FEC), (0x1FF2, 0x1FF4), (0x1FF6, 0x1FFC), (0x2071, 0x2071), (0x207F, 0x207F), (0x2090, 0x209C)]),
     (0xA7D3,
      [(0x2102, 0x2102), (0x2107, 0x2107), (0x210A, 0x2113), (0x2115, 0x2115), (0x2119, 0x211D), (0x2124, 0x2124),
       (0x2126, 0x2126), (0x2128, 0x2128), (0x212A, 0x212D), (0x212F, 0x2134), (0x2139, 0x2139), (0x213C, 0x213F),
       (0x2145, 0x2149), (0x214E, 0x214E), (0x2160, 0x217F), (0x2183, 0x2184), (0x24B6, 0x24E9), (0x2C00, 0x2CE4),
       (0x2CEB, 0x2CEE), (0x2CF2, 0x2CF3), (0x2D00, 0x2D25), (0x2D27, 0x2D27), (0x2D2D, 0x2D2D), (0xA640, 0xA66D),
       (0xA680, 0xA69D), (0xA722, 0xA787), (0xA78B, 0xA78E), (0xA790, 0xA7CA), (0xA7D0, 0xA7D1), (0xA7D3, 0xA7D3)]),
     (0x1D454,
      [(0xA7D5, 0xA7D9), (0xA7F5, 0xA7F6), (0xA7F8, 0xA7FA), (0xAB30, 0xAB5A), (0xAB5C, 0xAB68), (0xAB70, 0xABBF),
       (0xFB00, 0xFB06), (0xFB13, 0xFB17), (0xFF21, 0xFF3A), (0xFF41, 0xFF5A), (0x10400, 0x1044F), (0x104B0, 0x104D3),
       (0x104D8, 0x104FB), (0x10570, 0x1057A), (0x1057C, 0x1058A), (0x1058C, 0x10592), (0x10594, 0x10595), (0x10597, 0x105A1),
       (0x105A3, 0x105B1), (0x105B3, 0x105B9), (0x105BB, 0x105BC), (0x10780, 0x10780), (0x10783, 0x10785), (0x10787, 0x107B0),
       (0x107B2, 0x107BA), (0x10C80, 0x10CB2), (0x10CC0, 0x10CF2), (0x118A0, 0x118DF), (0x16E40, 0x16E7F), (0x1D400, 0x1D454)]),
     (0x1DF09,
      [(0x1D456, 0x1D49C), (0x1D49E, 0x1D49F), (0x1D4A2, 0x1D4A2), (0x1D4A5, 0x1D4A6), (0x1D4A9, 0x1D4AC), (0x1D4AE, 0x1D4B9),
       (0x1D4BB, 0x1D4BB), (0x1D4BD, 0x1D4C3), (0x1D4C5, 0x1D505), (0x1D507, 0x1D50A), (0x1D50D, 0x1D514), (0x1D516, 0x1D51C),
       (0x1D51E, 0x1D539), (0x1D53B, 0x1D53E), (0x1D540, 0x1D544), (0x1D546, 0x1D546), (0x1D54A, 0x1D550), (0x1D552, 0x1D6A5),
       (0x1D6A8, 0x1D6C0), (0x1D6C2, 0x1D6DA), (0x1D6DC, 0x1D6FA), (0x1D6FC, 0x1D714), (0x1D716, 0x1D734), (0x1D736, 0x1D74E),
       (0x1D750, 0x1D76E), (0x1D770, 0x1D788), (0x1D78A, 0x1D7A8), (0x1D7AA, 0x1D7C2), (0x1D7C4, 0x1D7CB), (0x1DF00, 0x1DF09)]),
     (0x1F189,
      [(0x1DF0B, 0x1DF1E), (0x1E900, 0x1E943), (0x1F130, 0x1F149), (0x1F150, 0x1F169), (0x1F170, 0x1F189)])]"

text \<open>The case-ignorable code points.\<close>

definition ignorable_pages :: range_table where
  "ignorable_pages =
    [(0x670,
      [(0x27, 0x27), (0x2E, 0x2E), (0x3A, 0x3A), (0x5E, 0x5E), (0x60, 0x60), (0xA8, 0xA8),
       (0xAD, 0xAD), (0xAF, 0xAF), (0xB4, 0xB4), (0xB7, 0xB8), (0x2B0, 0x36F), (0x374, 0x375),
       (0x37A, 0x37A), (0x384, 0x385), (0x387, 0x387), (0x483, 0x489), (0x559, 0x559), (0x55F, 0x55F),
       (0x591, 0x5BD), (0x5BF, 0x5BF), (0x5C1, 0x5C2), (0x5C4, 0x5C5), (0x5C7, 0x5C7), (0x5F4, 0x5F4),
       (0x600, 0x605), (0x610, 0x61A), (0x61C, 0x61C), (0x640, 0x640), (0x64B, 0x65F), (0x670, 0x670)]),
     (0xA02,
      [(0x6D6, 0x6DD), (0x6DF, 0x6E8), (0x6EA, 0x6ED), (0x70F, 0x70F), (0x711, 0x711), (0x730, 0x74A),
       (0x7A6, 0x7B0), (0x7EB, 0x7F5), (0x7FA, 0x7FA), (0x7FD, 0x7FD), (0x816, 0x82D), (0x859, 0x85B),
       (0x888, 0x888), (0x890, 0x891), (0x898, 0x89F), (0x8C9, 0x902), (0x93A, 0x93A), (0x93C, 0x93C),
       (0x941, 0x948), (0x94D, 0x94D), (0x951, 0x957), (0x962, 0x963), (0x971, 0x971), (0x981, 0x981),
       (0x9BC, 0x9BC), (0x9C1, 0x9C4), (0x9CD, 0x9CD), (0x9E2, 0x9E3), (0x9FE, 0x9FE), (0xA01, 0xA02)]),
     (0xC4D,
      [(0xA3C, 0xA3C), (0xA41, 0xA42), (0xA47, 0xA48), (0xA4B, 0xA4D), (0xA51, 0xA51), (0xA70, 0xA71),
       (0xA75, 0xA75), (0xA81, 0xA82), (0xABC, 0xABC), (0xAC1, 0xAC5), (0xAC7, 0xAC8), (0xACD, 0xACD),
       (0xAE2, 0xAE3), (0xAFA, 0xAFF), (0xB01, 0xB01), (0xB3C, 0xB3C), (0xB3F, 0xB3F), (0xB41, 0xB44),
       (0xB4D, 0xB4D), (0xB55, 0xB56), (0xB62, 0xB63), (0xB82, 0xB82), (0xBC0, 0xBC0), (0xBCD, 0xBCD),
       (0xC00, 0xC00), (0xC04, 0xC04), (0xC3C, 0xC3C), (0xC3E, 0xC40), (0xC46, 0xC48), (0xC4A, 0xC4D)]),
     (0xF84,
      [(0xC55, 0xC56), (0xC62, 0xC63), (0xC81, 0xC81), (0xCBC, 0xCBC), (0xCBF, 0xCBF), (0xCC6, 0xCC6),
       (0xCCC, 0xCCD), (0xCE2, 0xCE3), (0xD00, 0xD01), (0xD3B, 0xD3C), (0xD41, 0xD44), (0xD4D, 0xD4D),
       (0xD62, 0xD63), (0xD81, 0xD81), (0xDCA, 0xDCA), (0xDD2, 0xDD4), (0xDD6, 0xDD6), (0xE31, 0xE31),
       (0xE34, 0xE3A), (0xE46, 0xE4E), (0xEB1, 0xEB1), (0xEB4, 0xEBC), (0xEC6, 0xEC6), (0xEC8, 0xECD),
       (0xF18, 0xF19), (0xF35, 0xF35), (0xF37, 0xF37), (0xF39, 0xF39), (0xF71, 0xF7E), (0xF80, 0xF84)]),
     (0x1886,
      [(0xF86, 0xF87), (0xF8D, 0xF97), (0xF99, 0xFBC), (0xFC6, 0xFC6), (0x102D, 0x1030), (0x1032, 0x1037),
       (0x1039, 0x103A), (0x103D, 0x103E), (0x1058, 0x1059), (0x105E, 0x1060), (0x1071, 0x1074), (0x1082, 0x1082),
       (0x1085, 0x1086), (0x108D, 0x108D), (0x109D, 0x109D), (0x10FC, 0x10FC), (0x135D, 0x135F), (0x1712, 0x1714),
       (0x1732, 0x1733), (0x1752, 0x1753), (0x1772, 0x1773), (0x17B4, 0x17B5), (0x17B7, 0x17BD), (0x17C6, 0x17C6),
       (0x17C9, 0x17D3), (0x17D7, 0x17D7), (0x17DD, 0x17DD), (0x180B, 0x180F), (0x1843, 0x1843), (0x1885, 0x1886)]),
     (0x1BF1,
      [(0x18A9, 0x18A9), (0x1920, 0x1922), (0x1927, 0x1928), (0x1932, 0x1932), (0x1939, 0x193B), (0x1A17, 0x1A18),
       (0x1A1B, 0x1A1B), (0x1A56, 0x1A56), (0x1A58, 0x1A5E), (0x1A60, 0x1A60), (0x1A62, 0x1A62), (0x1A65, 0x1A6C),
       (0x1A73, 0x1A7C), (0x1A7F, 0x1A7F), (0x1AA7, 0x1AA7), (0x1AB0, 0x1ACE), (0x1B00, 0x1B03), (0x1B34, 0x1B34),
       (0x1B36, 0x1B3A), (0x1B3C, 0x1B3C), (0x1B42, 0x1B42), (0x1B6B, 0x1B73), (0x1B80, 0x1B81), (0x1BA2, 0x1BA5),
       (0x1BA8, 0x1BA9), (0x1BAB, 0x1BAD), (0x1BE6, 0x1BE6), (0x1BE8, 0x1BE9), (0x1BED, 0x1BED), (0x1BEF, 0x1BF1)]),
     (0x2C7D,
      [(0x1C2C, 0x1C33), (0x1C36, 0x1C37), (0x1C78, 0x1C7D), (0x1CD0, 0x1CD2), (0x1CD4, 0x1CE0), (0x1CE2, 0x1CE8),
       (0x1CED, 0x1CED), (0x1CF4, 0x1CF4), (0x1CF8, 0x1CF9), (0x1D2C, 0x1D6A), (0x1D78, 0x1D78), (0x1D9B, 0x1DFF),
       (0x1FBD, 0x1FBD), (0x1FBF, 0x1FC1), (0x1FCD, 0x1FCF), (0x1FDD, 0x1FDF), (0x1FED, 0x1FEF), (0x1FFD, 0x1FFE),
       (0x200B, 0x200F), (0x2018, 0x2019), (0x2024, 0x2024), (0x2027, 0x2027), (0x202A, 0x202E), (0x2060, 0x2064),
       (0x2066, 0x206F), (0x2071, 0x2071), (0x207F, 0x207F), (0x2090, 0x209C), (0x20D0, 0x20F0), (0x2C7C, 0x2C7D)]),
     (0xA8C5,
      [(0x2CEF, 0x2CF1), (0x2D6F, 0x2D6F), (0x2D7F, 0x2D7F), (0x2DE0, 0x2DFF), (0x2E2F, 0x2E2F), (0x3005, 0x3005),
       (0x302A, 0x302D), (0x3031, 0x3035), (0x303B, 0x303B), (0x3099, 0x309E), (0x30FC, 0x30FE), (0xA015, 0xA015),
       (0xA4F8, 0xA4FD), (0xA60C, 0xA60C), (0xA66F, 0xA672), (0xA674, 0xA67D), (0xA67F, 0xA67F), (0xA69C, 0xA69F),
       (0xA6F0, 0xA6F1), (0xA700, 0xA721), (0xA770, 0xA770), (0xA788, 0xA78A), (0xA7F2, 0xA7F4), (0xA7F8, 0xA7F9),
       (0xA802, 0xA802), (0xA806, 0xA806), (0xA80B, 0xA80B), (0xA825, 0xA826), (0xA82C, 0xA82C), (0xA8C4, 0xA8C5)]),
     (0xABE8,
      [(0xA8E0, 0xA8F1), (0xA8FF, 0xA8FF), (0xA926, 0xA92D), (0xA947, 0xA951), (0xA980, 0xA982), (0xA9B3, 0xA9B3),
       (0xA9B6, 0xA9B9), (0xA9BC, 0xA9BD), (0xA9CF, 0xA9CF), (0xA9E5, 0xA9E6), (0xAA29, 0xAA2E), (0xAA31, 0xAA32),
       (0xAA35, 0xAA36), (0xAA43, 0xAA43), (0xAA4C, 0xAA4C), (0xAA70, 0xAA70), (0xAA7C, 0xAA7C), (0xAAB0, 0xAAB0),
       (0xAAB2, 0xAAB4), (0xAAB7, 0xAAB8), (0xAABE, 0xAABF), (0xAAC1, 0xAAC1), (0xAADD, 0xAADD), (0xAAEC, 0xAAED),
       (0xAAF3, 0xAAF4), (0xAAF6, 0xAAF6), (0xAB5B, 0xAB5F), (0xAB69, 0xAB6B), (0xABE5, 0xABE5), (0xABE8, 0xABE8)]),
     (0x10AE6,
      [(0xABED, 0xABED), (0xFB1E, 0xFB1E), (0xFBB2, 0xFBC2), (0xFE00, 0xFE0F), (0xFE13, 0xFE13), (0xFE20, 0xFE2F),
       (0xFE52, 0xFE52), (0xFE55, 0xFE55), (0xFEFF, 0xFEFF), (0xFF07, 0xFF07), (0xFF0E, 0xFF0E), (0xFF1A, 0xFF1A),
       (0xFF3E, 0xFF3E), (0xFF40, 0xFF40), (0xFF70, 0xFF70), (0xFF9E, 0xFF9F), (0xFFE3, 0xFFE3), (0xFFF9, 0xFFFB),
       (0x101FD, 0x101FD), (0x102E0, 0x102E0), (0x10376, 0x1037A), (0x10780, 0x10785), (0x10787, 0x107B0), (0x107B2, 0x107BA),
       (0x10A01, 0x10A03), (0x10A05, 0x10A06), (0x10A0C, 0x10A0F), (0x10A38, 0x10A3A), (0x10A3F, 0x10A3F), (0x10AE5, 0x10AE6)]),
     (0x1133C,
      [(0x10D24, 0x10D27), (0x10EAB, 0x10EAC), (0x10F46, 0x10F50), (0x10F82, 0x10F85), (0x11001, 0x11001), (0x11038, 0x11046),
       (0x11070, 0x11070), (0x11073, 0x11074), (0x1107F, 0x11081), (0x110B3, 0x110B6), (0x110B9, 0x110BA), (0x110BD, 0x110BD),
       (0x110C2, 0x110C2), (0x110CD, 0x110CD), (0x11100, 0x11102), (0x11127, 0x1112B), (0x1112D, 0x11134), (0x11173, 0x11173),
       (0x11180, 0x11181), (0x111B6, 0x111BE), (0x111C9, 0x111CC), (0x111CF, 0x111CF), (0x1122F, 0x11231), (0x11234, 0x11234),
       (0x11236, 0x11237), (0x1123E, 0x1123E), (0x112DF, 0x112DF), (0x112E3, 0x112EA), (0x11300, 0x11301), (0x1133B, 0x1133C)]),
     (0x11943,
      [(0x11340, 0x11340), (0x11366, 0x1136C), (0x11370, 0x11374), (0x11438, 0x1143F), (0x11442, 0x11444), (0x11446, 0x11446),
       (0x1145E, 0x1145E), (0x114B3, 0x114B8), (0x114BA, 0x114BA), (0x114BF, 0x114C0), (0x114C2, 0x114C3), (0x115B2, 0x115B5),
       (0x115BC, 0x115BD), (0x115BF, 0x115C0), (0x115DC, 0x115DD), (0x11633, 0x1163A), (0x1163D, 0x1163D), (0x1163F, 0x11640),
       (0x116AB, 0x116AB), (0x116AD, 0x116AD), (0x116B0, 0x116B5), (0x116B7, 0x116B7), (0x1171D, 0x1171F), (0x11722, 0x11725),
       (0x11727, 0x1172B), (0x1182F, 0x11837), (0x11839, 0x1183A), (0x1193B, 0x1193C), (0x1193E, 0x1193E), (0x11943, 0x11943)]),
     (0x16B36,
      [(0x119D4, 0x119D7), (0x119DA, 0x119DB), (0x119E0, 0x119E0), (0x11A01, 0x11A0A), (0x11A33, 0x11A38), (0x11A3B, 0x11A3E),
       (0x11A47, 0x11A47), (0x11A51, 0x11A56), (0x11A59, 0x11A5B), (0x11A8A, 0x11A96), (0x11A98, 0x11A99), (0x11C30, 0x11C36),
       (0x11C38, 0x11C3D), (0x11C3F, 0x11C3F), (0x11C92, 0x11CA7), (0x11CAA, 0x11CB0), (0x11CB2, 0x11CB3), (0x11CB5, 0x11CB6),
       (0x11D31, 0x11D36), (0x11D3A, 0x11D3A), (0x11D3C, 0x11D3D), (0x11D3F, 0x11D45), (0x11D47, 0x11D47), (0x11D90, 0x11D91),
       (0x11D95, 0x11D95), (0x11D97, 0x11D97), (0x11EF3, 0x11EF4), (0x13430, 0x13438), (0x16AF0, 0x16AF4), (0x16B30, 0x16B36)]),
     (0x1E2AE,
      [(0x16B40, 0x16B43), (0x16F4F, 0x16F4F), (0x16F8F, 0x16F9F), (0x16FE0, 0x16FE1), (0x16FE3, 0x16FE4), (0x1AFF0, 0x1AFF3),
       (0x1AFF5, 0x1AFFB), (0x1AFFD, 0x1AFFE), (0x1BC9D, 0x1BC9E), (0x1BCA0, 0x1BCA3), (0x1CF00, 0x1CF2D), (0x1CF30, 0x1CF46),
       (0x1D167, 0x1D169), (0x1D173, 0x1D182), (0x1D185, 0x1D18B), (0x1D1AA, 0x1D1AD), (0x1D242, 0x1D244), (0x1DA00, 0x1DA36),
       (0x1DA3B, 0x1DA6C), (0x1DA75, 0x1DA75), (0x1DA84, 0x1DA84), (0x1DA9B, 0x1DA9F), (0x1DAA1, 0x1DAAF), (0x1E000, 0x1E006),
       (0x1E008, 0x1E018), (0x1E01B, 0x1E021), (0x1E023, 0x1E024), (0x1E026, 0x1E02A), (0x1E130, 0x1E13D), (0x1E2AE, 0x1E2AE)]),
     (0xE01EF,
      [(0x1E2EC, 0x1E2EF), (0x1E8D0, 0x1E8D6), (0x1E944, 0x1E94B), (0x1F3FB, 0x1F3FF), (0xE0001, 0xE0001), (0xE0020, 0xE007F),
       (0xE0100, 0xE01EF)])]"

text \<open>Lowercase: the code points \<open>c\<close> with \<open>chr(c).lower() != chr(c)\<close>.\<close>

definition lower_special :: "(int \<times> int list) list" where
  "lower_special =
    [(0x130, [0x69, 0x307])]"

definition lower_pages :: case_table where
  "lower_pages =
    [(0x1A7,
      [(0x41, 0x5A, 1, 0x61), (0xC0, 0xD6, 1, 0xE0), (0xD8, 0xDE, 1, 0xF8),
       (0x100, 0x12E, 2, 0x101), (0x132, 0x136, 2, 0x133), (0x139, 0x147, 2, 0x13A),
       (0x14A, 0x176, 2, 0x14B), (0x178, 0x178, 1, 0xFF), (0x179, 0x17D, 2, 0x17A),
       (0x181, 0x181, 1, 0x253), (0x182, 0x184, 2, 0x183), (0x186, 0x186, 1, 0x254),
       (0x187, 0x187, 1, 0x188), (0x189, 0x18A, 1, 0x256), (0x18B, 0x18B, 1, 0x18C),
       (0x18E, 0x18E, 1, 0x1DD), (0x18F, 0x18F, 1, 0x259), (0x190, 0x190, 1, 0x25B),
       (0x191, 0x191, 1, 0x192), (0x193, 0x193, 1, 0x260), (0x194, 0x194, 1, 0x263),
       (0x196, 0x196, 1, 0x269), (0x197, 0x197, 1, 0x268), (0x198, 0x198, 1, 0x199),
       (0x19C, 0x19C, 1, 0x26F), (0x19D, 0x19D, 1, 0x272), (0x19F, 0x19F, 1, 0x275),
       (0x1A0, 0x1A4, 2, 0x1A1), (0x1A6, 0x1A6, 1, 0x280), (0x1A7, 0x1A7, 1, 0x1A8)]),
     (0x244,
      [(0x1A9, 0x1A9, 1, 0x283), (0x1AC, 0x1AC, 1, 0x1AD), (0x1AE, 0x1AE, 1, 0x288),
       (0x1AF, 0x1AF, 1, 0x1B0), (0x1B1, 0x1B2, 1, 0x28A), (0x1B3, 0x1B5, 2, 0x1B4),
       (0x1B7, 0x1B7, 1, 0x292), (0x1B8, 0x1B8, 1, 0x1B9), (0x1BC, 0x1BC, 1, 0x1BD),
       (0x1C4, 0x1C4, 1, 0x1C6), (0x1C5, 0x1C5, 1, 0x1C6), (0x1C7, 0x1C7, 1, 0x1C9),
       (0x1C8, 0x1C8, 1, 0x1C9), (0x1CA, 0x1CA, 1, 0x1CC), (0x1CB, 0x1DB, 2, 0x1CC),
       (0x1DE, 0x1EE, 2, 0x1DF), (0x1F1, 0x1F1, 1, 0x1F3), (0x1F2, 0x1F4, 2, 0x1F3),
       (0x1F6, 0x1F6, 1, 0x195), (0x1F7, 0x1F7, 1, 0x1BF), (0x1F8, 0x21E, 2, 0x1F9),
       (0x220, 0x220, 1, 0x19E), (0x222, 0x232, 2, 0x223), (0x23A, 0x23A, 1, 0x2C65),
       (0x23B, 0x23B, 1, 0x23C), (0x23D, 0x23D, 1, 0x19A), (0x23E, 0x23E, 1, 0x2C66),
       (0x241, 0x241, 1, 0x242), (0x243, 0x243, 1, 0x180), (0x244, 0x244, 1, 0x289)]),
     (0x13EF,
      [(0x245, 0x245, 1, 0x28C), (0x246, 0x24E, 2, 0x247), (0x370, 0x372, 2, 0x371),
       (0x376, 0x376, 1, 0x377), (0x37F, 0x37F, 1, 0x3F3), (0x386, 0x386, 1, 0x3AC),
       (0x388, 0x38A, 1, 0x3AD), (0x38C, 0x38C, 1, 0x3CC), (0x38E, 0x38F, 1, 0x3CD),
       (0x391, 0x3A1, 1, 0x3B1), (0x3A3, 0x3AB, 1, 0x3C3), (0x3CF, 0x3CF, 1, 0x3D7),
       (0x3D8, 0x3EE, 2, 0x3D9), (0x3F4, 0x3F4, 1, 0x3B8), (0x3F7, 0x3F7, 1, 0x3F8),
       (0x3F9, 0x3F9, 1, 0x3F2), (0x3FA, 0x3FA, 1, 0x3FB), (0x3FD, 0x3FF, 1, 0x37B),
       (0x400, 0x40F, 1, 0x450), (0x410, 0x42F, 1, 0x430), (0x460, 0x480, 2, 0x461),
       (0x48A, 0x4BE, 2, 0x48B), (0x4C0, 0x4C0, 1, 0x4CF), (0x4C1, 0x4CD, 2, 0x4C2),
       (0x4D0, 0x52E, 2, 0x4D1), (0x531, 0x556, 1, 0x561), (0x10A0, 0x10C5, 1, 0x2D00),
       (0x10C7, 0x10C7, 1, 0x2D27), (0x10CD, 0x10CD, 1, 0x2D2D), (0x13A0, 0x13EF, 1, 0xAB70)]),
     (0x2126,
      [(0x13F0, 0x13F5, 1, 0x13F8), (0x1C90, 0x1CBA, 1, 0x10D0), (0x1CBD, 0x1CBF, 1, 0x10FD),
       (0x1E00, 0x1E94, 2, 0x1E01), (0x1E9E, 0x1E9E, 1, 0xDF), (0x1EA0, 0x1EFE, 2, 0x1EA1),
       (0x1F08, 0x1F0F, 1, 0x1F00), (0x1F18, 0x1F1D, 1, 0x1F10), (0x1F28, 0x1F2F, 1, 0x1F20),
       (0x1F38, 0x1F3F, 1, 0x1F30), (0x1F48, 0x1F4D, 1, 0x1F40), (0x1F59, 0x1F5F, 2, 0x1F51),
       (0x1F68, 0x1F6F, 1, 0x1F60), (0x1F88, 0x1F8F, 1, 0x1F80), (0x1F98, 0x1F9F, 1, 0x1F90),
       (0x1FA8, 0x1FAF, 1, 0x1FA0), (0x1FB8, 0x1FB9, 1, 0x1FB0), (0x1FBA, 0x1FBB, 1, 0x1F70),
       (0x1FBC, 0x1FBC, 1, 0x1FB3), (0x1FC8, 0x1FCB, 1, 0x1F72), (0x1FCC, 0x1FCC, 1, 0x1FC3),
       (0x1FD8, 0x1FD9, 1, 0x1FD0), (0x1FDA, 0x1FDB, 1, 0x1F76), (0x1FE8, 0x1FE9, 1, 0x1FE0),
       (0x1FEA, 0x1FEB, 1, 0x1F7A), (0x1FEC, 0x1FEC, 1, 0x1FE5), (0x1FF8, 0x1FF9, 1, 0x1F78),
       (0x1FFA, 0x1FFB, 1, 0x1F7C), (0x1FFC, 0x1FFC, 1, 0x1FF3), (0x2126, 0x2126, 1, 0x3C9)]),
     (0xA78B,
      [(0x212A, 0x212A, 1, 0x6B), (0x212B, 0x212B, 1, 0xE5), (0x2132, 0x2132, 1, 0x214E),
       (0x2160, 0x216F, 1, 0x2170), (0x2183, 0x2183, 1, 0x2184), (0x24B6, 0x24CF, 1, 0x24D0),
       (0x2C00, 0x2C2F, 1, 0x2C30), (0x2C60, 0x2C60, 1, 0x2C61), (0x2C62, 0x2C62, 1, 0x26B),
       (0x2C63, 0x2C63, 1, 0x1D7D), (0x2C64, 0x2C64, 1, 0x27D), (0x2C67, 0x2C6B, 2, 0x2C68),
       (0x2C6D, 0x2C6D, 1, 0x251), (0x2C6E, 0x2C6E, 1, 0x271), (0x2C6F, 0x2C6F, 1, 0x250),
       (0x2C70, 0x2C70, 1, 0x252), (0x2C72, 0x2C72, 1, 0x2C73), (0x2C75, 0x2C75, 1, 0x2C76),
       (0x2C7E, 0x2C7F, 1, 0x23F), (0x2C80, 0x2CE2, 2, 0x2C81), (0x2CEB, 0x2CED, 2, 0x2CEC),
       (0x2CF2, 0x2CF2, 1, 0x2CF3), (0xA640, 0xA66C, 2, 0xA641), (0xA680, 0xA69A, 2, 0xA681),
       (0xA722, 0xA72E, 2, 0xA723), (0xA732, 0xA76E, 2, 0xA733), (0xA779, 0xA77B, 2, 0xA77A),
       (0xA77D, 0xA77D, 1, 0x1D79), (0xA77E, 0xA786, 2, 0xA77F), (0xA78B, 0xA78B, 1, 0xA78C)]),
     (0x16E5F,
      [(0xA78D, 0xA78D, 1, 0x265), (0xA790, 0xA792, 2, 0xA791), (0xA796, 0xA7A8, 2, 0xA797),
       (0xA7AA, 0xA7AA, 1, 0x266), (0xA7AB, 0xA7AB, 1, 0x25C), (0xA7AC, 0xA7AC, 1, 0x261),
       (0xA7AD, 0xA7AD, 1, 0x26C), (0xA7AE, 0xA7AE, 1, 0x26A), (0xA7B0, 0xA7B0, 1, 0x29E),
       (0xA7B1, 0xA7B1, 1, 0x287), (0xA7B2, 0xA7B2, 1, 0x29D), (0xA7B3, 0xA7B3, 1, 0xAB53),
       (0xA7B4, 0xA7C2, 2, 0xA7B5), (0xA7C4, 0xA7C4, 1, 0xA794), (0xA7C5, 0xA7C5, 1, 0x282),
       (0xA7C6, 0xA7C6, 1, 0x1D8E), (0xA7C7, 0xA7C9, 2, 0xA7C8), (0xA7D0, 0xA7D0, 1, 0xA7D1),
       (0xA7D6, 0xA7D8, 2, 0xA7D7), (0xA7F5, 0xA7F5, 1, 0xA7F6), (0xFF21, 0xFF3A, 1, 0xFF41),
       (0x10400, 0x10427, 1, 0x10428), (0x104B0, 0x104D3, 1, 0x104D8), (0x10570, 0x1057A, 1, 0x10597),
       (0x1057C, 0x1058A, 1, 0x105A3), (0x1058C, 0x10592, 1, 0x105B3), (0x10594, 0x10595, 1, 0x105BB),
       (0x10C80, 0x10CB2, 1, 0x10CC0), (0x118A0, 0x118BF, 1, 0x118C0), (0x16E40, 0x16E5F, 1, 0x16E60)]),
     (0x1E921,
      [(0x1E900, 0x1E921, 1, 0x1E922)])]"

text \<open>Uppercase: the code points \<open>c\<close> with \<open>chr(c).upper() != chr(c)\<close>.\<close>

definition upper_special :: "(int \<times> int list) list" where
  "upper_special =
    [(0xDF, [0x53, 0x53]), (0x149, [0x2BC, 0x4E]), (0x1F0, [0x4A, 0x30C]),
     (0x390, [0x399, 0x308, 0x301]), (0x3B0, [0x3A5, 0x308, 0x301]), (0x587, [0x535, 0x552]),
     (0x1E96, [0x48, 0x331]), (0x1E97, [0x54, 0x308]), (0x1E98, [0x57, 0x30A]),
     (0x1E99, [0x59, 0x30A]), (0x1E9A, [0x41, 0x2BE]), (0x1F50, [0x3A5, 0x313]),
     (0x1F52, [0x3A5, 0x313, 0x300]), (0x1F54, [0x3A5, 0x313, 0x301]), (0x1F56, [0x3A5, 0x313, 0x342]),
     (0x1F80, [0x1F08, 0x399]), (0x1F81, [0x1F09, 0x399]), (0x1F82, [0x1F0A, 0x399]),
     (0x1F83, [0x1F0B, 0x399]), (0x1F84, [0x1F0C, 0x399]), (0x1F85, [0x1F0D, 0x399]),
     (0x1F86, [0x1F0E, 0x399]), (0x1F87, [0x1F0F, 0x399]), (0x1F88, [0x1F08, 0x399]),
     (0x1F89, [0x1F09, 0x399]), (0x1F8A, [0x1F0A, 0x399]), (0x1F8B, [0x1F0B, 0x399]),
     (0x1F8C, [0x1F0C, 0x399]), (0x1F8D, [0x1F0D, 0x399]), (0x1F8E, [0x1F0E, 0x399]),
     (0x1F8F, [0x1F0F, 0x399]), (0x1F90, [0x1F28, 0x399]), (0x1F91, [0x1F29, 0x399]),
     (0x1F92, [0x1F2A, 0x399]), (0x1F93, [0x1F2B, 0x399]), (0x1F94, [0x1F2C, 0x399]),
     (0x1F95, [0x1F2D, 0x399]), (0x1F96, [0x1F2E, 0x399]), (0x1F97, [0x1F2F, 0x399]),
     (0x1F98, [0x1F28, 0x399]), (0x1F99, [0x1F29, 0x399]), (0x1F9A, [0x1F2A, 0x399]),
     (0x1F9B, [0x1F2B, 0x399]), (0x1F9C, [0x1F2C, 0x399]), (0x1F9D, [0x1F2D, 0x399]),
     (0x1F9E, [0x1F2E, 0x399]), (0x1F9F, [0x1F2F, 0x399]), (0x1FA0, [0x1F68, 0x399]),
     (0x1FA1, [0x1F69, 0x399]), (0x1FA2, [0x1F6A, 0x399]), (0x1FA3, [0x1F6B, 0x399]),
     (0x1FA4, [0x1F6C, 0x399]), (0x1FA5, [0x1F6D, 0x399]), (0x1FA6, [0x1F6E, 0x399]),
     (0x1FA7, [0x1F6F, 0x399]), (0x1FA8, [0x1F68, 0x399]), (0x1FA9, [0x1F69, 0x399]),
     (0x1FAA, [0x1F6A, 0x399]), (0x1FAB, [0x1F6B, 0x399]), (0x1FAC, [0x1F6C, 0x399]),
     (0x1FAD, [0x1F6D, 0x399]), (0x1FAE, [0x1F6E, 0x399]), (0x1FAF, [0x1F6F, 0x399]),
     (0x1FB2, [0x1FBA, 0x399]), (0x1FB3, [0x391, 0x399]), (0x1FB4, [0x386, 0x399]),
     (0x1FB6, [0x391, 0x342]), (0x1FB7, [0x391, 0x342, 0x399]), (0x1FBC, [0x391, 0x399]),
     (0x1FC2, [0x1FCA, 0x399]), (0x1FC3, [0x397, 0x399]), (0x1FC4, [0x389, 0x399]),
     (0x1FC6, [0x397, 0x342]), (0x1FC7, [0x397, 0x342, 0x399]), (0x1FCC, [0x397, 0x399]),
     (0x1FD2, [0x399, 0x308, 0x300]), (0x1FD3, [0x399, 0x308, 0x301]), (0x1FD6, [0x399, 0x342]),
     (0x1FD7, [0x399, 0x308, 0x342]), (0x1FE2, [0x3A5, 0x308, 0x300]), (0x1FE3, [0x3A5, 0x308, 0x301]),
     (0x1FE4, [0x3A1, 0x313]), (0x1FE6, [0x3A5, 0x342]), (0x1FE7, [0x3A5, 0x308, 0x342]),
     (0x1FF2, [0x1FFA, 0x399]), (0x1FF3, [0x3A9, 0x399]), (0x1FF4, [0x38F, 0x399]),
     (0x1FF6, [0x3A9, 0x342]), (0x1FF7, [0x3A9, 0x342, 0x399]), (0x1FFC, [0x3A9, 0x399]),
     (0xFB00, [0x46, 0x46]), (0xFB01, [0x46, 0x49]), (0xFB02, [0x46, 0x4C]),
     (0xFB03, [0x46, 0x46, 0x49]), (0xFB04, [0x46, 0x46, 0x4C]), (0xFB05, [0x53, 0x54]),
     (0xFB06, [0x53, 0x54]), (0xFB13, [0x544, 0x546]), (0xFB14, [0x544, 0x535]),
     (0xFB15, [0x544, 0x53B]), (0xFB16, [0x54E, 0x546]), (0xFB17, [0x544, 0x53D])]"

definition upper_pages :: case_table where
  "upper_pages =
    [(0x1C5,
      [(0x61, 0x7A, 1, 0x41), (0xB5, 0xB5, 1, 0x39C), (0xE0, 0xF6, 1, 0xC0),
       (0xF8, 0xFE, 1, 0xD8), (0xFF, 0xFF, 1, 0x178), (0x101, 0x12F, 2, 0x100),
       (0x131, 0x131, 1, 0x49), (0x133, 0x137, 2, 0x132), (0x13A, 0x148, 2, 0x139),
       (0x14B, 0x177, 2, 0x14A), (0x17A, 0x17E, 2, 0x179), (0x17F, 0x17F, 1, 0x53),
       (0x180, 0x180, 1, 0x243), (0x183, 0x185, 2, 0x182), (0x188, 0x188, 1, 0x187),
       (0x18C, 0x18C, 1, 0x18B), (0x192, 0x192, 1, 0x191), (0x195, 0x195, 1, 0x1F6),
       (0x199, 0x199, 1, 0x198), (0x19A, 0x19A, 1, 0x23D), (0x19E, 0x19E, 1, 0x220),
       (0x1A1, 0x1A5, 2, 0x1A0), (0x1A8, 0x1A8, 1, 0x1A7), (0x1AD, 0x1AD, 1, 0x1AC),
       (0x1B0, 0x1B0, 1, 0x1AF), (0x1B4, 0x1B6, 2, 0x1B3), (0x1B9, 0x1B9, 1, 0x1B8),
       (0x1BD, 0x1BD, 1, 0x1BC), (0x1BF, 0x1BF, 1, 0x1F7), (0x1C5, 0x1C5, 1, 0x1C4)]),
     (0x265,
      [(0x1C6, 0x1C6, 1, 0x1C4), (0x1C8, 0x1C8, 1, 0x1C7), (0x1C9, 0x1C9, 1, 0x1C7),
       (0x1CB, 0x1CB, 1, 0x1CA), (0x1CC, 0x1CC, 1, 0x1CA), (0x1CE, 0x1DC, 2, 0x1CD),
       (0x1DD, 0x1DD, 1, 0x18E), (0x1DF, 0x1EF, 2, 0x1DE), (0x1F2, 0x1F2, 1, 0x1F1),
       (0x1F3, 0x1F3, 1, 0x1F1), (0x1F5, 0x1F5, 1, 0x1F4), (0x1F9, 0x21F, 2, 0x1F8),
       (0x223, 0x233, 2, 0x222), (0x23C, 0x23C, 1, 0x23B), (0x23F, 0x240, 1, 0x2C7E),
       (0x242, 0x242, 1, 0x241), (0x247, 0x24F, 2, 0x246), (0x250, 0x250, 1, 0x2C6F),
       (0x251, 0x251, 1, 0x2C6D), (0x252, 0x252, 1, 0x2C70), (0x253, 0x253, 1, 0x181),
       (0x254, 0x254, 1, 0x186), (0x256, 0x257, 1, 0x189), (0x259, 0x259, 1, 0x18F),
       (0x25B, 0x25B, 1, 0x190), (0x25C, 0x25C, 1, 0xA7AB), (0x260, 0x260, 1, 0x193),
       (0x261, 0x261, 1, 0xA7AC), (0x263, 0x263, 1, 0x194), (0x265, 0x265, 1, 0xA78D)]),
     (0x3C2,
      [(0x266, 0x266, 1, 0xA7AA), (0x268, 0x268, 1, 0x197), (0x269, 0x269, 1, 0x196),
       (0x26A, 0x26A, 1, 0xA7AE), (0x26B, 0x26B, 1, 0x2C62), (0x26C, 0x26C, 1, 0xA7AD),
       (0x26F, 0x26F, 1, 0x19C), (0x271, 0x271, 1, 0x2C6E), (0x272, 0x272, 1, 0x19D),
       (0x275, 0x275, 1, 0x19F), (0x27D, 0x27D, 1, 0x2C64), (0x280, 0x280, 1, 0x1A6),
       (0x282, 0x282, 1, 0xA7C5), (0x283, 0x283, 1, 0x1A9), (0x287, 0x287, 1, 0xA7B1),
       (0x288, 0x288, 1, 0x1AE), (0x289, 0x289, 1, 0x244), (0x28A, 0x28B, 1, 0x1B1),
       (0x28C, 0x28C, 1, 0x245), (0x292, 0x292, 1, 0x1B7), (0x29D, 0x29D, 1, 0xA7B2),
       (0x29E, 0x29E, 1, 0xA7B0), (0x345, 0x345, 1, 0x399), (0x371, 0x373, 2, 0x370),
       (0x377, 0x377, 1, 0x376), (0x37B, 0x37D, 1, 0x3FD), (0x3AC, 0x3AC, 1, 0x386),
       (0x3AD, 0x3AF, 1, 0x388), (0x3B1, 0x3C1, 1, 0x391), (0x3C2, 0x3C2, 1, 0x3A3)]),
     (0x1C82,
      [(0x3C3, 0x3CB, 1, 0x3A3), (0x3CC, 0x3CC, 1, 0x38C), (0x3CD, 0x3CE, 1, 0x38E),
       (0x3D0, 0x3D0, 1, 0x392), (0x3D1, 0x3D1, 1, 0x398), (0x3D5, 0x3D5, 1, 0x3A6),
       (0x3D6, 0x3D6, 1, 0x3A0), (0x3D7, 0x3D7, 1, 0x3CF), (0x3D9, 0x3EF, 2, 0x3D8),
       (0x3F0, 0x3F0, 1, 0x39A), (0x3F1, 0x3F1, 1, 0x3A1), (0x3F2, 0x3F2, 1, 0x3F9),
       (0x3F3, 0x3F3, 1, 0x37F), (0x3F5, 0x3F5, 1, 0x395), (0x3F8, 0x3F8, 1, 0x3F7),
       (0x3FB, 0x3FB, 1, 0x3FA), (0x430, 0x44F, 1, 0x410), (0x450, 0x45F, 1, 0x400),
       (0x461, 0x481, 2, 0x460), (0x48B, 0x4BF, 2, 0x48A), (0x4C2, 0x4CE, 2, 0x4C1),
       (0x4CF, 0x4CF, 1, 0x4C0), (0x4D1, 0x52F, 2, 0x4D0), (0x561, 0x586, 1, 0x531),
       (0x10D0, 0x10FA, 1, 0x1C90), (0x10FD, 0x10FF, 1, 0x1CBD), (0x13F8, 0x13FD, 1, 0x13F0),
       (0x1C80, 0x1C80, 1, 0x412), (0x1C81, 0x1C81, 1, 0x414), (0x1C82, 0x1C82, 1, 0x41E)]),
     (0x214E,
      [(0x1C83, 0x1C84, 1, 0x421), (0x1C85, 0x1C85, 1, 0x422), (0x1C86, 0x1C86, 1, 0x42A),
       (0x1C87, 0x1C87, 1, 0x462), (0x1C88, 0x1C88, 1, 0xA64A), (0x1D79, 0x1D79, 1, 0xA77D),
       (0x1D7D, 0x1D7D, 1, 0x2C63), (0x1D8E, 0x1D8E, 1, 0xA7C6), (0x1E01, 0x1E95, 2, 0x1E00),
       (0x1E9B, 0x1E9B, 1, 0x1E60), (0x1EA1, 0x1EFF, 2, 0x1EA0), (0x1F00, 0x1F07, 1, 0x1F08),
       (0x1F10, 0x1F15, 1, 0x1F18), (0x1F20, 0x1F27, 1, 0x1F28), (0x1F30, 0x1F37, 1, 0x1F38),
       (0x1F40, 0x1F45, 1, 0x1F48), (0x1F51, 0x1F57, 2, 0x1F59), (0x1F60, 0x1F67, 1, 0x1F68),
       (0x1F70, 0x1F71, 1, 0x1FBA), (0x1F72, 0x1F75, 1, 0x1FC8), (0x1F76, 0x1F77, 1, 0x1FDA),
       (0x1F78, 0x1F79, 1, 0x1FF8), (0x1F7A, 0x1F7B, 1, 0x1FEA), (0x1F7C, 0x1F7D, 1, 0x1FFA),
       (0x1FB0, 0x1FB1, 1, 0x1FB8), (0x1FBE, 0x1FBE, 1, 0x399), (0x1FD0, 0x1FD1, 1, 0x1FD8),
       (0x1FE0, 0x1FE1, 1, 0x1FE8), (0x1FE5, 0x1FE5, 1, 0x1FEC), (0x214E, 0x214E, 1, 0x2132)]),
     (0xA7D9,
      [(0x2170, 0x217F, 1, 0x2160), (0x2184, 0x2184, 1, 0x2183), (0x24D0, 0x24E9, 1, 0x24B6),
       (0x2C30, 0x2C5F, 1, 0x2C00), (0x2C61, 0x2C61, 1, 0x2C60), (0x2C65, 0x2C65, 1, 0x23A),
       (0x2C66, 0x2C66, 1, 0x23E), (0x2C68, 0x2C6C, 2, 0x2C67), (0x2C73, 0x2C73, 1, 0x2C72),
       (0x2C76, 0x2C76, 1, 0x2C75), (0x2C81, 0x2CE3, 2, 0x2C80), (0x2CEC, 0x2CEE, 2, 0x2CEB),
       (0x2CF3, 0x2CF3, 1, 0x2CF2), (0x2D00, 0x2D25, 1, 0x10A0), (0x2D27, 0x2D27, 1, 0x10C7),
       (0x2D2D, 0x2D2D, 1, 0x10CD), (0xA641, 0xA66D, 2, 0xA640), (0xA681, 0xA69B, 2, 0xA680),
       (0xA723, 0xA72F, 2, 0xA722), (0xA733, 0xA76F, 2, 0xA732), (0xA77A, 0xA77C, 2, 0xA779),
       (0xA77F, 0xA787, 2, 0xA77E), (0xA78C, 0xA78C, 1, 0xA78B), (0xA791, 0xA793, 2, 0xA790),
       (0xA794, 0xA794, 1, 0xA7C4), (0xA797, 0xA7A9, 2, 0xA796), (0xA7B5, 0xA7C3, 2, 0xA7B4),
       (0xA7C8, 0xA7CA, 2, 0xA7C7), (0xA7D1, 0xA7D1, 1, 0xA7D0), (0xA7D7, 0xA7D9, 2, 0xA7D6)]),
     (0x1E943,
      [(0xA7F6, 0xA7F6, 1, 0xA7F5), (0xAB53, 0xAB53, 1, 0xA7B3), (0xAB70, 0xABBF, 1, 0x13A0),
       (0xFF41, 0xFF5A, 1, 0xFF21), (0x10428, 0x1044F, 1, 0x10400), (0x104D8, 0x104FB, 1, 0x104B0),
       (0x10597, 0x105A1, 1, 0x10570), (0x105A3, 0x105B1, 1, 0x1057C), (0x105B3, 0x105B9, 1, 0x1058C),
       (0x105BB, 0x105BC, 1, 0x10594), (0x10CC0, 0x10CF2, 1, 0x10C80), (0x118C0, 0x118DF, 1, 0x118A0),
       (0x16E60, 0x16E7F, 1, 0x16E40), (0x1E922, 0x1E943, 1, 0x1E900)])]"

text \<open>Titlecase: the code points \<open>c\<close> with \<open>chr(c).title() != chr(c)\<close>.\<close>

definition title_special :: "(int \<times> int list) list" where
  "title_special =
    [(0xDF, [0x53, 0x73]), (0x149, [0x2BC, 0x4E]), (0x1F0, [0x4A, 0x30C]),
     (0x390, [0x399, 0x308, 0x301]), (0x3B0, [0x3A5, 0x308, 0x301]), (0x587, [0x535, 0x582]),
     (0x1E96, [0x48, 0x331]), (0x1E97, [0x54, 0x308]), (0x1E98, [0x57, 0x30A]),
     (0x1E99, [0x59, 0x30A]), (0x1E9A, [0x41, 0x2BE]), (0x1F50, [0x3A5, 0x313]),
     (0x1F52, [0x3A5, 0x313, 0x300]), (0x1F54, [0x3A5, 0x313, 0x301]), (0x1F56, [0x3A5, 0x313, 0x342]),
     (0x1FB2, [0x1FBA, 0x345]), (0x1FB4, [0x386, 0x345]), (0x1FB6, [0x391, 0x342]),
     (0x1FB7, [0x391, 0x342, 0x345]), (0x1FC2, [0x1FCA, 0x345]), (0x1FC4, [0x389, 0x345]),
     (0x1FC6, [0x397, 0x342]), (0x1FC7, [0x397, 0x342, 0x345]), (0x1FD2, [0x399, 0x308, 0x300]),
     (0x1FD3, [0x399, 0x308, 0x301]), (0x1FD6, [0x399, 0x342]), (0x1FD7, [0x399, 0x308, 0x342]),
     (0x1FE2, [0x3A5, 0x308, 0x300]), (0x1FE3, [0x3A5, 0x308, 0x301]), (0x1FE4, [0x3A1, 0x313]),
     (0x1FE6, [0x3A5, 0x342]), (0x1FE7, [0x3A5, 0x308, 0x342]), (0x1FF2, [0x1FFA, 0x345]),
     (0x1FF4, [0x38F, 0x345]), (0x1FF6, [0x3A9, 0x342]), (0x1FF7, [0x3A9, 0x342, 0x345]),
     (0xFB00, [0x46, 0x66]), (0xFB01, [0x46, 0x69]), (0xFB02, [0x46, 0x6C]),
     (0xFB03, [0x46, 0x66, 0x69]), (0xFB04, [0x46, 0x66, 0x6C]), (0xFB05, [0x53, 0x74]),
     (0xFB06, [0x53, 0x74]), (0xFB13, [0x544, 0x576]), (0xFB14, [0x544, 0x565]),
     (0xFB15, [0x544, 0x56B]), (0xFB16, [0x54E, 0x576]), (0xFB17, [0x544, 0x56D])]"

definition title_pages :: case_table where
  "title_pages =
    [(0x1C4,
      [(0x61, 0x7A, 1, 0x41), (0xB5, 0xB5, 1, 0x39C), (0xE0, 0xF6, 1, 0xC0),
       (0xF8, 0xFE, 1, 0xD8), (0xFF, 0xFF, 1, 0x178), (0x101, 0x12F, 2, 0x100),
       (0x131, 0x131, 1, 0x49), (0x133, 0x137, 2, 0x132), (0x13A, 0x148, 2, 0x139),
       (0x14B, 0x177, 2, 0x14A), (0x17A, 0x17E, 2, 0x179), (0x17F, 0x17F, 1, 0x53),
       (0x180, 0x180, 1, 0x243), (0x183, 0x185, 2, 0x182), (0x188, 0x188, 1, 0x187),
       (0x18C, 0x18C, 1, 0x18B), (0x192, 0x192, 1, 0x191), (0x195, 0x195, 1, 0x1F6),
       (0x199, 0x199, 1, 0x198), (0x19A, 0x19A, 1, 0x23D), (0x19E, 0x19E, 1, 0x220),
       (0x1A1, 0x1A5, 2, 0x1A0), (0x1A8, 0x1A8, 1, 0x1A7), (0x1AD, 0x1AD, 1, 0x1AC),
       (0x1B0, 0x1B0, 1, 0x1AF), (0x1B4, 0x1B6, 2, 0x1B3), (0x1B9, 0x1B9, 1, 0x1B8),
       (0x1BD, 0x1BD, 1, 0x1BC), (0x1BF, 0x1BF, 1, 0x1F7), (0x1C4, 0x1C4, 1, 0x1C5)]),
     (0x268,
      [(0x1C6, 0x1C6, 1, 0x1C5), (0x1C7, 0x1C7, 1, 0x1C8), (0x1C9, 0x1C9, 1, 0x1C8),
       (0x1CA, 0x1CA, 1, 0x1CB), (0x1CC, 0x1DC, 2, 0x1CB), (0x1DD, 0x1DD, 1, 0x18E),
       (0x1DF, 0x1EF, 2, 0x1DE), (0x1F1, 0x1F1, 1, 0x1F2), (0x1F3, 0x1F5, 2, 0x1F2),
       (0x1F9, 0x21F, 2, 0x1F8), (0x223, 0x233, 2, 0x222), (0x23C, 0x23C, 1, 0x23B),
       (0x23F, 0x240, 1, 0x2C7E), (0x242, 0x242, 1, 0x241), (0x247, 0x24F, 2, 0x246),
       (0x250, 0x250, 1, 0x2C6F), (0x251, 0x251, 1, 0x2C6D), (0x252, 0x252, 1, 0x2C70),
       (0x253, 0x253, 1, 0x181), (0x254, 0x254, 1, 0x186), (0x256, 0x257, 1, 0x189),
       (0x259, 0x259, 1, 0x18F), (0x25B, 0x25B, 1, 0x190), (0x25C, 0x25C, 1, 0xA7AB),
       (0x260, 0x260, 1, 0x193), (0x261, 0x261, 1, 0xA7AC), (0x263, 0x263, 1, 0x194),
       (0x265, 0x265, 1, 0xA78D), (0x266, 0x266, 1, 0xA7AA), (0x268, 0x268, 1, 0x197)]),
     (0x3CC,
      [(0x269, 0x269, 1, 0x196), (0x26A, 0x26A, 1, 0xA7AE), (0x26B, 0x26B, 1, 0x2C62),
       (0x26C, 0x26C, 1, 0xA7AD), (0x26F, 0x26F, 1, 0x19C), (0x271, 0x271, 1, 0x2C6E),
       (0x272, 0x272, 1, 0x19D), (0x275, 0x275, 1, 0x19F), (0x27D, 0x27D, 1, 0x2C64),
       (0x280, 0x280, 1, 0x1A6), (0x282, 0x282, 1, 0xA7C5), (0x283, 0x283, 1, 0x1A9),
       (0x287, 0x287, 1, 0xA7B1), (0x288, 0x288, 1, 0x1AE), (0x289, 0x289, 1, 0x244),
       (0x28A, 0x28B, 1, 0x1B1), (0x28C, 0x28C, 1, 0x245), (0x292, 0x292, 1, 0x1B7),
       (0x29D, 0x29D, 1, 0xA7B2), (0x29E, 0x29E, 1, 0xA7B0), (0x345, 0x345, 1, 0x399),
       (0x371, 0x373, 2, 0x370), (0x377, 0x377, 1, 0x376), (0x37B, 0x37D, 1, 0x3FD),
       (0x3AC, 0x3AC, 1, 0x386), (0x3AD, 0x3AF, 1, 0x388), (0x3B1, 0x3C1, 1, 0x391),
       (0x3C2, 0x3C2, 1, 0x3A3), (0x3C3, 0x3CB, 1, 0x3A3), (0x3CC, 0x3CC, 1, 0x38C)]),
     (0x1C87,
      [(0x3CD, 0x3CE, 1, 0x38E), (0x3D0, 0x3D0, 1, 0x392), (0x3D1, 0x3D1, 1, 0x398),
       (0x3D5, 0x3D5, 1, 0x3A6), (0x3D6, 0x3D6, 1, 0x3A0), (0x3D7, 0x3D7, 1, 0x3CF),
       (0x3D9, 0x3EF, 2, 0x3D8), (0x3F0, 0x3F0, 1, 0x39A), (0x3F1, 0x3F1, 1, 0x3A1),
       (0x3F2, 0x3F2, 1, 0x3F9), (0x3F3, 0x3F3, 1, 0x37F), (0x3F5, 0x3F5, 1, 0x395),
       (0x3F8, 0x3F8, 1, 0x3F7), (0x3FB, 0x3FB, 1, 0x3FA), (0x430, 0x44F, 1, 0x410),
       (0x450, 0x45F, 1, 0x400), (0x461, 0x481, 2, 0x460), (0x48B, 0x4BF, 2, 0x48A),
       (0x4C2, 0x4CE, 2, 0x4C1), (0x4CF, 0x4CF, 1, 0x4C0), (0x4D1, 0x52F, 2, 0x4D0),
       (0x561, 0x586, 1, 0x531), (0x13F8, 0x13FD, 1, 0x13F0), (0x1C80, 0x1C80, 1, 0x412),
       (0x1C81, 0x1C81, 1, 0x414), (0x1C82, 0x1C82, 1, 0x41E), (0x1C83, 0x1C84, 1, 0x421),
       (0x1C85, 0x1C85, 1, 0x422), (0x1C86, 0x1C86, 1, 0x42A), (0x1C87, 0x1C87, 1, 0x462)]),
     (0x1FE5,
      [(0x1C88, 0x1C88, 1, 0xA64A), (0x1D79, 0x1D79, 1, 0xA77D), (0x1D7D, 0x1D7D, 1, 0x2C63),
       (0x1D8E, 0x1D8E, 1, 0xA7C6), (0x1E01, 0x1E95, 2, 0x1E00), (0x1E9B, 0x1E9B, 1, 0x1E60),
       (0x1EA1, 0x1EFF, 2, 0x1EA0), (0x1F00, 0x1F07, 1, 0x1F08), (0x1F10, 0x1F15, 1, 0x1F18),
       (0x1F20, 0x1F27, 1, 0x1F28), (0x1F30, 0x1F37, 1, 0x1F38), (0x1F40, 0x1F45, 1, 0x1F48),
       (0x1F51, 0x1F57, 2, 0x1F59), (0x1F60, 0x1F67, 1, 0x1F68), (0x1F70, 0x1F71, 1, 0x1FBA),
       (0x1F72, 0x1F75, 1, 0x1FC8), (0x1F76, 0x1F77, 1, 0x1FDA), (0x1F78, 0x1F79, 1, 0x1FF8),
       (0x1F7A, 0x1F7B, 1, 0x1FEA), (0x1F7C, 0x1F7D, 1, 0x1FFA), (0x1F80, 0x1F87, 1, 0x1F88),
       (0x1F90, 0x1F97, 1, 0x1F98), (0x1FA0, 0x1FA7, 1, 0x1FA8), (0x1FB0, 0x1FB1, 1, 0x1FB8),
       (0x1FB3, 0x1FB3, 1, 0x1FBC), (0x1FBE, 0x1FBE, 1, 0x399), (0x1FC3, 0x1FC3, 1, 0x1FCC),
       (0x1FD0, 0x1FD1, 1, 0x1FD8), (0x1FE0, 0x1FE1, 1, 0x1FE8), (0x1FE5, 0x1FE5, 1, 0x1FEC)]),
     (0xA7CA,
      [(0x1FF3, 0x1FF3, 1, 0x1FFC), (0x214E, 0x214E, 1, 0x2132), (0x2170, 0x217F, 1, 0x2160),
       (0x2184, 0x2184, 1, 0x2183), (0x24D0, 0x24E9, 1, 0x24B6), (0x2C30, 0x2C5F, 1, 0x2C00),
       (0x2C61, 0x2C61, 1, 0x2C60), (0x2C65, 0x2C65, 1, 0x23A), (0x2C66, 0x2C66, 1, 0x23E),
       (0x2C68, 0x2C6C, 2, 0x2C67), (0x2C73, 0x2C73, 1, 0x2C72), (0x2C76, 0x2C76, 1, 0x2C75),
       (0x2C81, 0x2CE3, 2, 0x2C80), (0x2CEC, 0x2CEE, 2, 0x2CEB), (0x2CF3, 0x2CF3, 1, 0x2CF2),
       (0x2D00, 0x2D25, 1, 0x10A0), (0x2D27, 0x2D27, 1, 0x10C7), (0x2D2D, 0x2D2D, 1, 0x10CD),
       (0xA641, 0xA66D, 2, 0xA640), (0xA681, 0xA69B, 2, 0xA680), (0xA723, 0xA72F, 2, 0xA722),
       (0xA733, 0xA76F, 2, 0xA732), (0xA77A, 0xA77C, 2, 0xA779), (0xA77F, 0xA787, 2, 0xA77E),
       (0xA78C, 0xA78C, 1, 0xA78B), (0xA791, 0xA793, 2, 0xA790), (0xA794, 0xA794, 1, 0xA7C4),
       (0xA797, 0xA7A9, 2, 0xA796), (0xA7B5, 0xA7C3, 2, 0xA7B4), (0xA7C8, 0xA7CA, 2, 0xA7C7)]),
     (0x1E943,
      [(0xA7D1, 0xA7D1, 1, 0xA7D0), (0xA7D7, 0xA7D9, 2, 0xA7D6), (0xA7F6, 0xA7F6, 1, 0xA7F5),
       (0xAB53, 0xAB53, 1, 0xA7B3), (0xAB70, 0xABBF, 1, 0x13A0), (0xFF41, 0xFF5A, 1, 0xFF21),
       (0x10428, 0x1044F, 1, 0x10400), (0x104D8, 0x104FB, 1, 0x104B0), (0x10597, 0x105A1, 1, 0x10570),
       (0x105A3, 0x105B1, 1, 0x1057C), (0x105B3, 0x105B9, 1, 0x1058C), (0x105BB, 0x105BC, 1, 0x10594),
       (0x10CC0, 0x10CF2, 1, 0x10C80), (0x118C0, 0x118DF, 1, 0x118A0), (0x16E60, 0x16E7F, 1, 0x16E40),
       (0x1E922, 0x1E943, 1, 0x1E900)])]"

subsection \<open>Character classes and case mappings\<close>

definition isspace :: "int \<Rightarrow> bool" where
  "isspace c = (c \<in> set space_chars)"

definition isalnum :: "int \<Rightarrow> bool" where
  "isalnum c = in_pages c alnum_pages"

definition isalpha_char :: "int \<Rightarrow> bool" where
  "isalpha_char c = in_pages c alpha_pages"

definition is_cased :: "int \<Rightarrow> bool" where
  "is_cased c = in_pages c cased_pages"

definition is_case_ignorable :: "int \<Rightarrow> bool" where
  "is_case_ignorable c = in_pages c ignorable_pages"

text \<open>The full case mappings of one code point, which may give several.\<close>

definition lower_full :: "int \<Rightarrow> int list" where
  "lower_full c = case_map lower_special lower_pages c"

definition upper_full :: "int \<Rightarrow> int list" where
  "upper_full c = case_map upper_special upper_pages c"

definition title_full :: "int \<Rightarrow> int list" where
  "title_full c = case_map title_special title_pages c"

subsection \<open>String methods\<close>

text \<open>
  \<open>s.lower()\<close> maps each code point by its full lowercase mapping, except the capital
  sigma U+03A3: it becomes the final sigma U+03C2 when a cased character precedes it and none
  follows it, case-ignorable characters skipped on both sides, and the small sigma U+03C3
  otherwise. \<open>seen\<close> holds the code points already passed, nearest first.
\<close>

definition final_sigma :: "pystr \<Rightarrow> pystr \<Rightarrow> bool" where
  "final_sigma seen rest =
     (case dropWhile is_case_ignorable seen of
        [] \<Rightarrow> False
      | b # bs \<Rightarrow>
          is_cased b \<and>
          (case dropWhile is_case_ignorable rest of
             [] \<Rightarrow> True
           | a # zs \<Rightarrow> \<not> is_cased a))"

fun lower_from :: "pystr \<Rightarrow> pystr \<Rightarrow> pystr" where
  "lower_from seen [] = []"
| "lower_from seen (c # cs) =
     (if c = 0x3A3 then [if final_sigma seen cs then 0x3C2 else 0x3C3] else lower_full c)
     @ lower_from (c # seen) cs"

definition lower :: "pystr \<Rightarrow> pystr" where
  "lower s = lower_from [] s"

text \<open>\<open>s.upper()\<close>.\<close>

definition upper :: "pystr \<Rightarrow> pystr" where
  "upper s = concat (map upper_full s)"

text \<open>\<open>s.capitalize()\<close>: the first code point in titlecase, the rest in lowercase.\<close>

fun capitalize :: "pystr \<Rightarrow> pystr" where
  "capitalize [] = []"
| "capitalize (c # cs) = title_full c @ lower_from [c] cs"

text \<open>\<open>s.isalpha()\<close>: every character is a letter and there is at least one.\<close>

definition isalpha :: "pystr \<Rightarrow> bool" where
  "isalpha s = (s \<noteq> [] \<and> list_all isalpha_char s)"

text \<open>\<open>s.strip()\<close>: leading and trailing whitespace removed.\<close>

definition strip :: "pystr \<Rightarrow> pystr" where
  "strip s = rev (dropWhile isspace (rev (dropWhile isspace s)))"

text \<open>\<open>s.startswith(p)\<close> and \<open>s.endswith(p)\<close>.\<close>

definition startswith :: "pystr \<Rightarrow> pystr \<Rightarrow> bool" where
  "startswith s p = prefix p s"

definition endswith :: "pystr \<Rightarrow> pystr \<Rightarrow> bool" where
  "endswith s p = suffix p s"

text \<open>\<open>s.replace(old, new)\<close>: every occurrence of \<open>old\<close>, found from the left without
  overlap, becomes \<open>new\<close>; an empty \<open>old\<close> matches before every character and at the end.\<close>

fun replace :: "pystr \<Rightarrow> pystr \<Rightarrow> pystr \<Rightarrow> pystr" where
  "replace old new [] = (if old = [] then new else [])"
| "replace old new (c # cs) =
     (if old = [] then new @ c # replace old new cs
      else if prefix old (c # cs) then new @ replace old new (drop (length old) (c # cs))
      else c # replace old new cs)"

text \<open>\<open>s.split(sep)\<close> for a one-character separator: never an empty list.\<close>

fun split :: "int \<Rightarrow> pystr \<Rightarrow> pystr list" where
  "split sep [] = [[]]"
| "split sep (c # cs) =
     (if c = sep then [] # split sep cs
      else (case split sep cs of [] \<Rightarrow> [[c]] | w # ws \<Rightarrow> (c # w) # ws))"

text \<open>\<open>s.split()\<close>: the pieces between runs of whitespace, none of them empty.\<close>

fun split_ws_from :: "pystr \<Rightarrow> pystr \<Rightarrow> pystr list" where
  "split_ws_from cur [] = (if cur = [] then [] else [cur])"
| "split_ws_from cur (c # cs) =
     (if isspace c then (if cur = [] then split_ws_from [] cs else cur # split_ws_from [] cs)
      else split_ws_from (cur @ [c]) cs)"

definition split_ws :: "pystr \<Rightarrow> pystr list" where
  "split_ws s = split_ws_from [] s"

section \<open>Upload names\<close>

text \<open>
  The two lines shared by \<open>admin_edit\<close>, \<open>admin_upload\<close> and \<open>mobile_upload\<close>:
  \<^verbatim>\<open>clean_name = name.strip().lower().replace(' ', '_')\<close>
  \<^verbatim>\<open>clean_name = ''.join(c for c in clean_name if c.isalnum() or c == '_')\<close>
\<close>

definition clean_name :: "pystr \<Rightarrow> pystr" where
  "clean_name name =
     filter (\<lambda>c. isalnum c \<or> c = 0x5F) (replace (py '' '') (py ''_'') (lower (strip name)))"

section \<open>The web service: indices over the object store\<close>

text \<open>An exception, with the text that \<open>str(e)\<close> gives for it. \<open>KeyError k\<close> is what a dictionary
  raises when read at the absent key \<open>k\<close>; \<open>ClientError code m\<close> is the object store's error
  response with its error code; \<open>Raised m\<close> is any other exception with message \<open>m\<close>.\<close>

datatype exn = KeyError pystr | ClientError pystr pystr | Raised pystr

fun str_exn :: "exn \<Rightarrow> pystr" where
  "str_exn (KeyError k) = [0x27] @ k @ [0x27]"
| "str_exn (ClientError code m) = m"
| "str_exn (Raised m) = m"

type_synonym datetime = nat

text \<open>One entry of a listing page's \<open>Contents\<close>: a dictionary read at \<open>'Key'\<close>,
  \<open>'LastModified'\<close> and \<open>'Size'\<close>; \<open>None\<close> is an absent key.\<close>

record s3obj =
  Key :: "pystr option"
  LastModified :: "datetime option"
  Size :: "nat option"

text \<open>A page of the paginator, reduced to what is read of it: its \<open>Contents\<close>, or \<open>None\<close>
  when the page has none.\<close>

type_synonym page = "s3obj list option"

text \<open>
  The object-store client is not part of the repository; the handlers are modelled over any
  client, given as the functions they call on a store of type \<open>'s\<close>. A call that raises
  returns \<open>Inl\<close> and leaves the store as it was. The paginator is consumed page by page,
  so a listing is a list whose element is \<open>Inl\<close> where fetching that page raised.
\<close>

record 's s3_client =
  list_objects_v2 :: "'s \<Rightarrow> (exn + page) list"
  copy_object :: "pystr \<Rightarrow> pystr \<Rightarrow> 's \<Rightarrow> exn + 's"
  delete_object :: "pystr \<Rightarrow> 's \<Rightarrow> exn + 's"
  head_object :: "pystr \<Rightarrow> 's \<Rightarrow> exn + unit"
  upload_file :: "pystr \<Rightarrow> pystr \<Rightarrow> 's \<Rightarrow> exn + 's"

text \<open>Configuration read from the environment, and the two library formatting calls of the
  indexer: \<open>d.strftime("%Y-%m-%d %H:%M")\<close> and \<open>str(round(n/1024, 1))\<close>.\<close>

record env =
  BUCKET_NAME :: pystr
  AWS_REGION :: pystr
  strftime :: "datetime \<Rightarrow> pystr"
  round_kb :: "nat \<Rightarrow> pystr"

text \<open>The values of \<open>video_index\<close> and of \<open>pending_index\<close>.\<close>

record video_entry =
  word :: pystr
  key :: pystr
  url :: pystr
  vtype :: pystr

record pending_entry =
  p_key :: pystr
  p_filename :: pystr
  p_url :: pystr
  p_date :: pystr
  p_size :: pystr

text \<open>A Python dictionary keeps its keys in insertion order and overwrites in place:
  an association list under \<open>AList.update\<close>.\<close>

type_synonym indices = "(pystr \<times> video_entry) list \<times> (pystr \<times> pending_entry) list"

record app_state =
  S3_AVAILABLE :: bool
  video_index :: "(pystr \<times> video_entry) list"
  pending_index :: "(pystr \<times> pending_entry) list"

definition get_public_url :: "env \<Rightarrow> pystr \<Rightarrow> pystr" where
  "get_public_url e k =
     py ''https://'' @ BUCKET_NAME e @ py ''.s3.'' @ AWS_REGION e @ py ''.amazonaws.com/'' @ k"

text \<open>The word an approved key is indexed under:
  \<^verbatim>\<open>key.split('/')[-1].replace('.mp4', '').lower().replace('_', ' ').strip()\<close>\<close>

definition word_of_key :: "pystr \<Rightarrow> pystr" where
  "word_of_key k =
     strip (replace (py ''_'') (py '' '') (lower (replace (py ''.mp4'') [] (last (split 0x2F k)))))"

text \<open>The body of the loop over \<open>page['Contents']\<close> in \<open>index_s3_files\<close>, on the local
  dictionaries \<open>v_idx\<close> and \<open>p_idx\<close>.\<close>

definition index_obj :: "env \<Rightarrow> s3obj \<Rightarrow> indices \<Rightarrow> exn + indices" where
  "index_obj e obj acc =
     (case Key obj of
        None \<Rightarrow> Inl (KeyError (py ''Key''))
      | Some k \<Rightarrow>
          if \<not> endswith k (py ''.mp4'') then Inr acc
          else if startswith k (py ''pending/'') then
            (case LastModified obj of
               None \<Rightarrow> Inl (KeyError (py ''LastModified''))
             | Some d \<Rightarrow>
                 (case Size obj of
                    None \<Rightarrow> Inl (KeyError (py ''Size''))
                  | Some n \<Rightarrow>
                      Inr (fst acc,
                           AList.update k
                             \<lparr>p_key = k, p_filename = last (split 0x2F k),
                              p_url = get_public_url e k, p_date = strftime e d,
                              p_size = round_kb e n @ py '' KB''\<rparr>
                             (snd acc))))
          else
            (let w = word_of_key k in
             if w \<noteq> [] then
               Inr (AList.update w
                      \<lparr>word = w, key = k, url = get_public_url e k,
                       vtype = (if length w > 1 then py ''word'' else py ''letter'')\<rparr>
                      (fst acc),
                    snd acc)
             else Inr acc))"

fun index_objs :: "env \<Rightarrow> s3obj list \<Rightarrow> indices \<Rightarrow> exn + indices" where
  "index_objs e [] acc = Inr acc"
| "index_objs e (obj # objs) acc =
     (case index_obj e obj acc of Inl x \<Rightarrow> Inl x | Inr acc' \<Rightarrow> index_objs e objs acc')"

fun index_pages :: "env \<Rightarrow> (exn + page) list \<Rightarrow> indices \<Rightarrow> exn + indices" where
  "index_pages e [] acc = Inr acc"
| "index_pages e (Inl x # pgs) acc = Inl x"
| "index_pages e (Inr None # pgs) acc = index_pages e pgs acc"
| "index_pages e (Inr (Some objs) # pgs) acc =
     (case index_objs e objs acc of Inl x \<Rightarrow> Inl x | Inr acc' \<Rightarrow> index_pages e pgs acc')"

text \<open>\<open>index_s3_files\<close>: the globals are assigned only after the whole listing went
  through; an exception is logged and swallowed.\<close>

definition index_s3_files :: "'s s3_client \<Rightarrow> env \<Rightarrow> 's \<Rightarrow> app_state \<Rightarrow> app_state" where
  "index_s3_files cl e s st =
     (if \<not> S3_AVAILABLE st then st
      else (case index_pages e (list_objects_v2 cl s) ([], []) of
              Inl x \<Rightarrow> st
            | Inr (v_idx, p_idx) \<Rightarrow> st\<lparr>video_index := v_idx, pending_index := p_idx\<rparr>))"

text \<open>The keys a listing shows, in order, up to its first failing page.\<close>

fun listed_keys :: "(exn + page) list \<Rightarrow> pystr list" where
  "listed_keys [] = []"
| "listed_keys (Inl x # pgs) = []"
| "listed_keys (Inr None # pgs) = listed_keys pgs"
| "listed_keys (Inr (Some objs) # pgs) =
     concat (map (\<lambda>obj. case Key obj of None \<Rightarrow> [] | Some k \<Rightarrow> [k]) objs) @ listed_keys pgs"

section \<open>The web service: handlers\<close>

datatype response =
  RedirectResponse pystr nat
| HTTPException nat pystr
| JSONResponse "(pystr \<times> pystr) list"

record request =
  cookies :: "(pystr \<times> pystr) list"

definition check_auth :: "request \<Rightarrow> bool" where
  "check_auth req = (map_of (cookies req) (py ''admin_session'') = Some (py ''active''))"

definition check_duplicate :: "app_state \<Rightarrow> pystr \<Rightarrow> pystr option" where
  "check_duplicate st name =
     (let base_name = replace (py '' '') (py ''_'') (lower (strip name));
          search_word = replace (py ''_'') (py '' '') base_name
      in if map_of (video_index st) search_word \<noteq> None
         then Some ((py ''Video '') @ [0x27] @ search_word @ [0x27]
                    @ py '' already exists in Approved.'')
         else (let target_filename = base_name @ py ''.mp4'' in
               case List.find (\<lambda>pk. endswith pk ((py ''/'') @ target_filename))
                              (map fst (pending_index st)) of
                 Some pk \<Rightarrow> Some ((py ''Video '') @ [0x27] @ search_word @ [0x27]
                                       @ py '' is already in Pending.'')
               | None \<Rightarrow> None))"

text \<open>\<open>admin_action\<close>. The redirect to the login page carries the default status 307.\<close>

definition admin_action ::
  "'s s3_client \<Rightarrow> env \<Rightarrow> request \<Rightarrow> pystr \<Rightarrow> pystr \<Rightarrow> 's \<Rightarrow> app_state
     \<Rightarrow> response \<times> 's \<times> app_state" where
  "admin_action cl e req k action s st =
     (if \<not> check_auth req then (RedirectResponse (py ''/login'') 307, s, st)
      else if \<not> S3_AVAILABLE st then (HTTPException 500 (py ''S3 Offline''), s, st)
      else if action = py ''approve'' then
        (case copy_object cl k (last (split 0x2F k)) s of
           Inl x \<Rightarrow> (RedirectResponse ((py ''/admin?error='') @ str_exn x) 303, s, st)
         | Inr s1 \<Rightarrow>
             (case delete_object cl k s1 of
                Inl x \<Rightarrow> (RedirectResponse ((py ''/admin?error='') @ str_exn x) 303, s1, st)
              | Inr s2 \<Rightarrow> (RedirectResponse (py ''/admin'') 303, s2, index_s3_files cl e s2 st)))
      else if action = py ''reject'' then
        (case delete_object cl k s of
           Inl x \<Rightarrow> (RedirectResponse ((py ''/admin?error='') @ str_exn x) 303, s, st)
         | Inr s1 \<Rightarrow> (RedirectResponse (py ''/admin'') 303, s1, index_s3_files cl e s1 st))
      else (RedirectResponse (py ''/admin'') 303, s, index_s3_files cl e s st))"

text \<open>\<open>admin_delete\<close>.\<close>

definition admin_delete ::
  "'s s3_client \<Rightarrow> env \<Rightarrow> request \<Rightarrow> pystr \<Rightarrow> 's \<Rightarrow> app_state \<Rightarrow> response \<times> 's \<times> app_state" where
  "admin_delete cl e req k s st =
     (if \<not> check_auth req then (RedirectResponse (py ''/login'') 307, s, st)
      else if \<not> S3_AVAILABLE st then (HTTPException 500 (py ''S3 Offline''), s, st)
      else (case delete_object cl k s of
              Inl x \<Rightarrow> (RedirectResponse (py ''/admin?error='' @ str_exn x) 303, s, st)
            | Inr s1 \<Rightarrow>
                (RedirectResponse (py ''/admin?success=Deleted'') 303, s1,
                 index_s3_files cl e s1 st)))"

text \<open>What the handlers do with the uploaded file besides the store call: reading it and
  writing the temporary file (\<open>spooled\<close>, the content or the exception raised), and
  \<open>os.unlink\<close> afterwards (\<open>unlinked\<close>, the exception if it raised).\<close>

record upload =
  spooled :: "exn + pystr"
  unlinked :: "exn option"

definition mobile_upload ::
  "'s s3_client \<Rightarrow> env \<Rightarrow> datetime \<Rightarrow> upload \<Rightarrow> pystr \<Rightarrow> 's \<Rightarrow> app_state
     \<Rightarrow> response \<times> 's \<times> app_state" where
  "mobile_upload cl e now file name s st =
     (if \<not> S3_AVAILABLE st then (HTTPException 500 (py ''S3 Offline''), s, st)
      else (case check_duplicate st name of
              Some err \<Rightarrow> (HTTPException 400 err, s, st)
            | None \<Rightarrow>
                (let filename = clean_name name @ py ''.mp4'';
                     k = py ''pending/'' @ filename
                 in case spooled file of
                      Inl x \<Rightarrow> (HTTPException 500 (str_exn x), s, st)
                    | Inr content \<Rightarrow>
                        (case upload_file cl k content s of
                           Inl x \<Rightarrow> (HTTPException 500 (str_exn x), s, st)
                         | Inr s1 \<Rightarrow>
                             (case unlinked file of
                                Some x \<Rightarrow> (HTTPException 500 (str_exn x), s1, st)
                              | None \<Rightarrow>
                                  (JSONResponse [(py ''message'', py ''Video uploaded for review!''),
                                                 (py ''status'', py ''pending'')],
                                   s1,
                                   st\<lparr>pending_index :=
                                        AList.update k
                                          \<lparr>p_key = k, p_filename = filename,
                                           p_url = get_public_url e k,
                                           p_date = strftime e now, p_size = py ''New''\<rparr>
                                          (pending_index st)\<rparr>))))))"

definition admin_upload ::
  "'s s3_client \<Rightarrow> env \<Rightarrow> request \<Rightarrow> upload \<Rightarrow> pystr \<Rightarrow> 's \<Rightarrow> app_state
     \<Rightarrow> response \<times> 's \<times> app_state" where
  "admin_upload cl e req file name s st =
     (if \<not> check_auth req then (RedirectResponse (py ''/login'') 307, s, st)
      else if \<not> S3_AVAILABLE st then (HTTPException 500 (py ''S3 Offline''), s, st)
      else (case check_duplicate st name of
              Some err \<Rightarrow> (RedirectResponse ((py ''/admin?error='') @ err) 303, s, st)
            | None \<Rightarrow>
                (let filename = clean_name name @ py ''.mp4''
                 in case spooled file of
                      Inl x \<Rightarrow> (RedirectResponse ((py ''/admin?error='') @ str_exn x) 303, s, st)
                    | Inr content \<Rightarrow>
                        (case upload_file cl filename content s of
                           Inl x \<Rightarrow>
                             (RedirectResponse ((py ''/admin?error='') @ str_exn x) 303, s, st)
                         | Inr s1 \<Rightarrow>
                             (case unlinked file of
                                Some x \<Rightarrow>
                                  (RedirectResponse ((py ''/admin?error='') @ str_exn x) 303, s1, st)
                              | None \<Rightarrow>
                                  (RedirectResponse (py ''/admin?success=Uploaded'') 303, s1,
                                   index_s3_files cl e s1 st))))))"

text \<open>\<open>admin_edit\<close>: a rename by copy and delete. The collision probe treats any exception
  of \<open>head_object\<close> as "name free".\<close>

definition admin_edit ::
  "'s s3_client \<Rightarrow> env \<Rightarrow> request \<Rightarrow> pystr \<Rightarrow> pystr \<Rightarrow> 's \<Rightarrow> app_state
     \<Rightarrow> response \<times> 's \<times> app_state" where
  "admin_edit cl e req old_key new_name s st =
     (if \<not> check_auth req then (RedirectResponse (py ''/login'') 307, s, st)
      else if \<not> S3_AVAILABLE st then (HTTPException 500 (py ''S3 Offline''), s, st)
      else (let new_filename = clean_name new_name @ py ''.mp4'' in
            if new_filename = old_key then (RedirectResponse (py ''/admin'') 303, s, st)
            else (case head_object cl new_filename s of
                    Inr u \<Rightarrow>
                      (RedirectResponse ((py ''/admin?error=Name '') @ [0x27] @ new_name
                                         @ [0x27] @ py '' already taken'') 303, s, st)
                  | Inl x \<Rightarrow>
                      (case copy_object cl old_key new_filename s of
                         Inl x \<Rightarrow>
                           (RedirectResponse ((py ''/admin?error='') @ str_exn x) 303, s, st)
                       | Inr s1 \<Rightarrow>
                           (case delete_object cl old_key s1 of
                              Inl x \<Rightarrow>
                                (RedirectResponse ((py ''/admin?error='') @ str_exn x) 303, s1, st)
                            | Inr s2 \<Rightarrow>
                                (RedirectResponse (py ''/admin?success=Renamed'') 303, s2,
                                 index_s3_files cl e s2 st))))))"

section \<open>The web service: the states it goes through\<close>

text \<open>
  The module sets \<open>S3_AVAILABLE\<close> once, while it is loaded, and starts with both indices
  empty; no function assigns the flag afterwards. From there the state changes only through
  \<open>index_s3_files\<close>, run at startup, and through the five handlers that write it, on any
  request. The object store is shared with the world and may change between two requests.
\<close>

inductive reachable :: "'s s3_client \<Rightarrow> env \<Rightarrow> 's \<times> app_state \<Rightarrow> bool"
  for cl :: "'s s3_client" and e :: env where
  loaded:
    "reachable cl e (s, \<lparr>S3_AVAILABLE = available, video_index = [], pending_index = []\<rparr>)"
| store_changed:
    "reachable cl e (s, st) \<Longrightarrow> reachable cl e (s', st)"
| startup:
    "reachable cl e (s, st) \<Longrightarrow> reachable cl e (s, index_s3_files cl e s st)"
| action:
    "reachable cl e (s, st) \<Longrightarrow> admin_action cl e req k act s st = (r, s', st')
     \<Longrightarrow> reachable cl e (s', st')"
| deleted:
    "reachable cl e (s, st) \<Longrightarrow> admin_delete cl e req k s st = (r, s', st')
     \<Longrightarrow> reachable cl e (s', st')"
| edited:
    "reachable cl e (s, st) \<Longrightarrow> admin_edit cl e req old_key new_name s st = (r, s', st')
     \<Longrightarrow> reachable cl e (s', st')"
| uploaded:
    "reachable cl e (s, st) \<Longrightarrow> admin_upload cl e req file name s st = (r, s', st')
     \<Longrightarrow> reachable cl e (s', st')"
| mobile_uploaded:
    "reachable cl e (s, st) \<Longrightarrow> mobile_upload cl e now file name s st = (r, s', st')
     \<Longrightarrow> reachable cl e (s', st')"

section \<open>The web service: translation\<close>

text \<open>The inner loop \<^verbatim>\<open>for char in word\<close> and the outer loop \<^verbatim>\<open>for word in lower_words\<close>
  of \<open>translate\<close>, appending to \<open>videos\<close>.\<close>

fun translate_chars ::
  "(pystr \<times> video_entry) list \<Rightarrow> pystr \<Rightarrow> video_entry list \<Rightarrow> video_entry list" where
  "translate_chars idx [] videos = videos"
| "translate_chars idx (c # cs) videos =
     translate_chars idx cs
       (case map_of idx [c] of
          Some v \<Rightarrow> videos @ [v\<lparr>vtype := (py ''letter''), word := upper [c]\<rparr>]
        | None \<Rightarrow> videos)"

fun translate_words ::
  "(pystr \<times> video_entry) list \<Rightarrow> pystr list \<Rightarrow> video_entry list \<Rightarrow> video_entry list" where
  "translate_words idx [] videos = videos"
| "translate_words idx (w # ws) videos =
     translate_words idx ws
       (case map_of idx w of
          Some v \<Rightarrow> videos @ [v]
        | None \<Rightarrow> translate_chars idx w videos)"

record translation =
  transcribed_text :: pystr
  key_words :: "pystr list"
  videos :: "video_entry list"

text \<open>\<open>translate\<close> from the point where \<open>text\<close> is known. The tokenizer is a library call,
  given as \<open>word_tokenize\<close>; when it raises, the text is split on whitespace instead.\<close>

definition translate ::
  "(pystr \<Rightarrow> exn + pystr list) \<Rightarrow> (pystr \<times> video_entry) list \<Rightarrow> pystr \<Rightarrow> translation" where
  "translate word_tokenize idx text =
     (if text = [] then \<lparr>transcribed_text = [], key_words = [], videos = []\<rparr>
      else (let processed = capitalize text;
                kws = (case word_tokenize processed of
                         Inr toks \<Rightarrow> filter isalpha toks
                       | Inl x \<Rightarrow> filter isalpha (split_ws processed));
                lower_words = map lower kws
            in \<lparr>transcribed_text = processed, key_words = kws,
                videos = translate_words idx lower_words []\<rparr>))"

text \<open>The videos list as the specification describes it, word by word.\<close>

definition letter_videos :: "(pystr \<times> video_entry) list \<Rightarrow> pystr \<Rightarrow> video_entry list" where
  "letter_videos idx w =
     concat (map (\<lambda>c. case map_of idx [c] of
                         Some v \<Rightarrow> [v\<lparr>vtype := (py ''letter''), word := upper [c]\<rparr>]
                       | None \<Rightarrow> []) w)"

definition spec_videos :: "(pystr \<times> video_entry) list \<Rightarrow> pystr list \<Rightarrow> video_entry list" where
  "spec_videos idx ws =
     concat (map (\<lambda>w. case map_of idx w of Some v \<Rightarrow> [v] | None \<Rightarrow> letter_videos idx w) ws)"

section \<open>The dataset push script\<close>

subsection \<open>Connecting to the document store\<close>

text \<open>One pass through the \<open>try\<close> block of \<open>connect_mongo\<close>: the client is built and
  pinged, or the driver raises its \<open>PyMongoError\<close>.\<close>

datatype outcome = Connected | PyMongoError pystr

text \<open>What \<open>connect_mongo\<close> does that can be observed: a connection attempt, numbered as
  the loop numbers it, and a wait of so many seconds.\<close>

datatype event = Attempt nat | Wait nat

text \<open>The loop \<^verbatim>\<open>for attempt in range(1, 4)\<close>; \<open>ping n\<close> is the outcome of attempt \<open>n\<close>.
  Falling out of the loop returns \<open>False\<close>.\<close>

fun connect_attempts :: "(nat \<Rightarrow> outcome) \<Rightarrow> nat list \<Rightarrow> event list \<Rightarrow> bool \<times> event list" where
  "connect_attempts ping [] tr = (False, tr)"
| "connect_attempts ping (attempt # rest) tr =
     (case ping attempt of
        Connected \<Rightarrow> (True, tr @ [Attempt attempt])
      | PyMongoError m \<Rightarrow>
          connect_attempts ping rest
            (tr @ Attempt attempt # (if attempt < 3 then [Wait 3] else [])))"

text \<open>\<open>connect_mongo\<close>, given whether \<open>collection\<close> is already held: the value returned,
  whether \<open>collection\<close> is held afterwards, and the events in order.\<close>

definition connect_mongo :: "(nat \<Rightarrow> outcome) \<Rightarrow> bool \<Rightarrow> bool \<times> bool \<times> event list" where
  "connect_mongo ping held =
     (if held then (True, held, [])
      else (case connect_attempts ping [1..<4] [] of (ok, tr) \<Rightarrow> (ok, ok, tr)))"

definition attempts_made :: "event list \<Rightarrow> nat" where
  "attempts_made tr = length (filter (\<lambda>ev. case ev of Attempt n \<Rightarrow> True | Wait n \<Rightarrow> False) tr)"

subsection \<open>Documents and the collection\<close>

text \<open>A document, and likewise a row of the relational table, is a list of named values in
  the order the code writes them.\<close>

datatype pyval = Str pystr | Float rat | NoneVal

type_synonym doc = "(pystr \<times> pyval) list"

text \<open>The collection is the list of its documents. A filter of field values matches the
  documents that carry each of these values. \<open>ReplaceOne filter replacement upsert\<close>
  replaces the first matching document; when none matches and \<open>upsert\<close> is set, the
  replacement is inserted.\<close>

datatype write_op = ReplaceOne doc doc bool

definition matches :: "doc \<Rightarrow> doc \<Rightarrow> bool" where
  "matches flt d = list_all (\<lambda>(f, v). map_of d f = Some v) flt"

fun replace_first :: "(doc \<Rightarrow> bool) \<Rightarrow> doc \<Rightarrow> doc list \<Rightarrow> doc list" where
  "replace_first P d [] = []"
| "replace_first P d (x # xs) = (if P x then d # xs else x # replace_first P d xs)"

fun apply_op :: "write_op \<Rightarrow> doc list \<Rightarrow> doc list" where
  "apply_op (ReplaceOne flt d upsert) coll =
     (if list_ex (matches flt) coll then replace_first (matches flt) d coll
      else if upsert then coll @ [d] else coll)"

definition find_one :: "doc \<Rightarrow> doc list \<Rightarrow> doc option" where
  "find_one flt coll = List.find (matches flt) coll"

text \<open>\<open>collection.bulk_write(ops)\<close> runs the operations in order and stops at the first
  that fails: \<open>applied\<close> is the number of operations the server carries out (any number
  from \<open>length ops\<close> on when none fails).\<close>

definition bulk_write :: "write_op list \<Rightarrow> nat \<Rightarrow> doc list \<Rightarrow> doc list" where
  "bulk_write ops applied coll = fold apply_op (take applied ops) coll"

text \<open>The invariant of the data model, "word+language uniquely identifies a record": for
  every pair of values, at most one record carries them as its word and language.\<close>

definition unique_word_language :: "doc list \<Rightarrow> bool" where
  "unique_word_language recs =
     (\<forall>w l. length (filter (matches [(py ''word'', w), (py ''language'', l)]) recs) \<le> 1)"

subsection \<open>Files, metadata and upload\<close>

text \<open>\<open>str(n)\<close> for a natural number.\<close>

fun str_nat :: "nat \<Rightarrow> pystr" where
  "str_nat n = (if n < 10 then [48 + int n]
                else str_nat (n div 10) @ [48 + int (n mod 10)])"

declare str_nat.simps [simp del]

text \<open>\<open>Path.stem\<close> of a file name: the name up to its last dot, unless that dot is the
  first or the last character.\<close>

definition stem :: "pystr \<Rightarrow> pystr" where
  "stem name =
     (if 0x2E \<notin> set name then name
      else (let i = length name - length (takeWhile (\<lambda>c. c \<noteq> 0x2E) (rev name)) - 1
            in if 0 < i \<and> i < length name - 1 then take i name else name))"

text \<open>What OpenCV reports of a file: the capture did not open, or it opened with a frame
  width, a frame height, a frame rate and a frame count, or the probing raised.\<close>

datatype probe = NotOpened | Opened nat nat rat nat | ProbeRaised

text \<open>\<open>video_metadata\<close>; \<open>round2\<close> is \<open>round(x, 2)\<close>.\<close>

definition video_metadata :: "(rat \<Rightarrow> rat) \<Rightarrow> probe \<Rightarrow> rat option \<times> pystr option" where
  "video_metadata round2 pr =
     (case pr of
        NotOpened \<Rightarrow> (None, None)
      | ProbeRaised \<Rightarrow> (None, None)
      | Opened w h fps frame_count \<Rightarrow>
          (if fps > 0 then Some (round2 (of_nat frame_count / fps)) else None,
           Some (str_nat w @ py ''x'' @ str_nat h)))"

text \<open>A file found by \<open>rglob("*.mp4")\<close>: the parts of its path relative to the root folder
  (the last one is the file name), its content, and what probing it gives.\<close>

record video_file =
  parts :: "pystr list"
  content :: pystr
  probed :: probe

record push_config =
  BUCKET :: pystr
  S3_OK :: bool
  dry_run :: bool
  round2 :: "rat \<Rightarrow> rat"

definition s3_exists :: "push_config \<Rightarrow> 's s3_client \<Rightarrow> pystr \<Rightarrow> 's \<Rightarrow> exn + bool" where
  "s3_exists cfg cl k s =
     (if \<not> S3_OK cfg then Inr False
      else (case head_object cl k s of
              Inr u \<Rightarrow> Inr True
            | Inl (ClientError code m) \<Rightarrow>
                if code = py ''404'' then Inr False else Inl (ClientError code m)
            | Inl x \<Rightarrow> Inl x))"

text \<open>\<open>upload_file\<close> of the push script: the URL or \<open>None\<close>, and the store afterwards. An
  exception of \<open>s3_exists\<close> is not caught here.\<close>

definition upload_file_fn ::
  "push_config \<Rightarrow> 's s3_client \<Rightarrow> pystr \<Rightarrow> pystr \<Rightarrow> 's \<Rightarrow> exn + (pystr option \<times> 's)" where
  "upload_file_fn cfg cl file_content k s =
     (if \<not> S3_OK cfg then Inr (None, s)
      else (case s3_exists cfg cl k s of
              Inl x \<Rightarrow> Inl x
            | Inr True \<Rightarrow> Inr (Some ((py ''https://'') @ BUCKET cfg @ py ''.s3.amazonaws.com/'' @ k), s)
            | Inr False \<Rightarrow>
                if dry_run cfg
                then Inr (Some ((py ''https://'') @ BUCKET cfg @ py ''.s3.amazonaws.com/'' @ k), s)
                else (case upload_file cl k file_content s of
                        Inr s' \<Rightarrow>
                          Inr (Some ((py ''https://'') @ BUCKET cfg @ py ''.s3.amazonaws.com/'' @ k), s')
                      | Inl x \<Rightarrow> Inr (None, s))))"

subsection \<open>The bulk push\<close>

record 's push_state =
  store :: 's
  mongo_ops :: "write_op list"
  total_uploaded :: nat
  total_skipped :: nat

text \<open>The document \<open>push_dataset\<close> prepares for a file.\<close>

definition push_doc :: "push_config \<Rightarrow> pystr \<Rightarrow> pystr \<Rightarrow> pystr \<Rightarrow> probe \<Rightarrow> doc" where
  "push_doc cfg w language u pr =
     [(py ''word'', Str w),
      (py ''language'', Str language),
      (py ''file_path'', Str u),
      (py ''type'', Str (if length w > 1 then py ''word'' else py ''letter'')),
      (py ''duration'', case fst (video_metadata (round2 cfg) pr) of
                       None \<Rightarrow> NoneVal | Some x \<Rightarrow> Float x),
      (py ''resolution'', case snd (video_metadata (round2 cfg) pr) of
                         None \<Rightarrow> NoneVal | Some r \<Rightarrow> Str r)]"

text \<open>The loop over the files of \<open>push_dataset\<close>. The collection is only read here; an
  exception leaves the loop with the state reached.\<close>

fun push_files ::
  "push_config \<Rightarrow> 's s3_client \<Rightarrow> bool \<Rightarrow> doc list \<Rightarrow> video_file list \<Rightarrow> 's push_state
     \<Rightarrow> exn option \<times> 's push_state" where
  "push_files cfg cl mongo_ok coll [] ps = (None, ps)"
| "push_files cfg cl mongo_ok coll (f # fs) ps =
     (let language = (if length (parts f) > 1 then upper (hd (parts f)) else py ''PSL'');
          w = lower (stem (last (parts f)));
          k = language @ py ''/'' @ w @ py ''.mp4''
      in case upload_file_fn cfg cl (content f) k (store ps) of
           Inl x \<Rightarrow> (Some x, ps)
         | Inr (None, s') \<Rightarrow> push_files cfg cl mongo_ok coll fs (ps\<lparr>store := s'\<rparr>)
         | Inr (Some u, s') \<Rightarrow>
             if mongo_ok then
               (case find_one [(py ''word'', Str w), (py ''language'', Str language)] coll of
                  Some d \<Rightarrow>
                    push_files cfg cl mongo_ok coll fs
                      (ps\<lparr>store := s', total_skipped := total_skipped ps + 1\<rparr>)
                | None \<Rightarrow>
                    push_files cfg cl mongo_ok coll fs
                      (ps\<lparr>store := s',
                          mongo_ops := mongo_ops ps
                            @ [ReplaceOne [(py ''word'', Str w), (py ''language'', Str language)]
                                 (push_doc cfg w language u (probed f)) True],
                          total_uploaded := total_uploaded ps + 1\<rparr>))
             else push_files cfg cl mongo_ok coll fs
                    (ps\<lparr>store := s', total_uploaded := total_uploaded ps + 1\<rparr>))"

record 's push_result =
  final_store :: 's
  final_collection :: "doc list"
  raised :: "exn option"

text \<open>\<open>push_dataset\<close> on a root folder that is a directory (\<open>is_dir\<close>) holding \<open>files\<close>,
  from the object store \<open>s\<close> and the collection \<open>coll\<close>.\<close>

definition push_dataset ::
  "push_config \<Rightarrow> 's s3_client \<Rightarrow> (nat \<Rightarrow> outcome) \<Rightarrow> bool \<Rightarrow> nat \<Rightarrow> bool \<Rightarrow> video_file list
     \<Rightarrow> 's \<Rightarrow> doc list \<Rightarrow> 's push_result" where
  "push_dataset cfg cl ping held applied is_dir files s coll =
     (if \<not> is_dir then \<lparr>final_store = s, final_collection = coll, raised = None\<rparr>
      else (let mongo_ok = fst (connect_mongo ping held) in
            case push_files cfg cl mongo_ok coll files
                   \<lparr>store = s, mongo_ops = [], total_uploaded = 0, total_skipped = 0\<rparr> of
              (Some x, ps) \<Rightarrow>
                \<lparr>final_store = store ps, final_collection = coll, raised = Some x\<rparr>
            | (None, ps) \<Rightarrow>
                \<lparr>final_store = store ps,
                 final_collection =
                   (if mongo_ok \<and> mongo_ops ps \<noteq> []
                    then bulk_write (mongo_ops ps) applied coll else coll),
                 raised = None\<rparr>))"

section \<open>The database populate script\<close>

text \<open>Modelled from the spec: the schema of the \<open>videos\<close> table is not in the sources. The
  data model says that word and language together identify a record, so the table is taken
  to hold that pair unique, and \<open>INSERT OR REPLACE\<close> removes the row in conflict before it
  inserts the new one.\<close>

definition insert_or_replace :: "doc \<Rightarrow> doc list \<Rightarrow> doc list" where
  "insert_or_replace row tbl =
     filter (\<lambda>r. \<not> (map_of r (py ''word'') = map_of row (py ''word'')
                    \<and> map_of r (py ''language'') = map_of row (py ''language''))) tbl @ [row]"

text \<open>The row \<open>populate_database\<close> writes for a file name; \<open>clip\<close> is the duration, width
  and height \<open>VideoFileClip\<close> reports, or \<open>None\<close> when it raised; \<open>now\<close> is
  \<open>CURRENT_TIMESTAMP\<close>.\<close>

definition populate_row :: "pystr \<Rightarrow> pystr \<Rightarrow> (rat \<times> nat \<times> nat) option \<Rightarrow> pystr \<Rightarrow> doc" where
  "populate_row language filename clip now =
     (let w = lower (hd (split 0x2E filename));
          video_type = (if length w > 1 then py ''word'' else py ''letter'')
      in [(py ''word'', Str w),
          (py ''language'', Str language),
          (py ''file_path'', Str ((py ''/videos/'') @ language @ py ''/'' @ filename)),
          (py ''type'', Str video_type),
          (py ''duration'', case clip of None \<Rightarrow> NoneVal | Some (d, cw, ch) \<Rightarrow> Float d),
          (py ''resolution'', case clip of None \<Rightarrow> NoneVal
                                      | Some (d, cw, ch) \<Rightarrow> Str (str_nat cw @ py ''x'' @ str_nat ch)),
          (py ''updated_at'', Str now)])"

text \<open>What the database answers to one \<open>cursor.execute\<close>: the statement is carried out, or it
  raises \<open>sqlite3.IntegrityError\<close>, which the loop logs and passes over, or it raises another
  \<open>sqlite3.Error\<close>, which ends the script.\<close>

datatype sql_outcome = Executed | IntegrityError pystr | SqlError pystr

text \<open>What the file system shows of a directory: no such path, the names in it, or an
  exception of \<open>os.listdir\<close>.\<close>

datatype dir_state = NoSuchPath | Names "pystr list" | ListRaised exn

text \<open>The loop over \<open>os.listdir(video_dir)\<close>; \<open>probe_clip\<close> is given the directory and
  the file name, \<open>execute\<close> the row to insert.\<close>

fun populate_files ::
  "(doc \<Rightarrow> sql_outcome) \<Rightarrow> (pystr \<Rightarrow> pystr \<Rightarrow> (rat \<times> nat \<times> nat) option) \<Rightarrow> pystr \<Rightarrow> pystr
     \<Rightarrow> pystr \<Rightarrow> pystr list \<Rightarrow> doc list \<Rightarrow> exn + doc list" where
  "populate_files execute probe_clip now language video_dir [] tbl = Inr tbl"
| "populate_files execute probe_clip now language video_dir (filename # rest) tbl =
     (if endswith filename (py ''.mp4'')
      then (case execute (populate_row language filename (probe_clip video_dir filename) now) of
              Executed \<Rightarrow>
                populate_files execute probe_clip now language video_dir rest
                  (insert_or_replace
                     (populate_row language filename (probe_clip video_dir filename) now) tbl)
            | IntegrityError m \<Rightarrow>
                populate_files execute probe_clip now language video_dir rest tbl
            | SqlError m \<Rightarrow> Inl (Raised m))
      else populate_files execute probe_clip now language video_dir rest tbl)"

text \<open>The loop over \<open>zip(languages, video_dirs)\<close>.\<close>

fun populate_dirs ::
  "(pystr \<Rightarrow> dir_state) \<Rightarrow> (doc \<Rightarrow> sql_outcome)
     \<Rightarrow> (pystr \<Rightarrow> pystr \<Rightarrow> (rat \<times> nat \<times> nat) option) \<Rightarrow> pystr
     \<Rightarrow> (pystr \<times> pystr) list \<Rightarrow> doc list \<Rightarrow> exn + doc list" where
  "populate_dirs listdir execute probe_clip now [] tbl = Inr tbl"
| "populate_dirs listdir execute probe_clip now ((language, video_dir) # rest) tbl =
     (case listdir video_dir of
        NoSuchPath \<Rightarrow> populate_dirs listdir execute probe_clip now rest tbl
      | ListRaised x \<Rightarrow> Inl x
      | Names filenames \<Rightarrow>
          (case populate_files execute probe_clip now language video_dir filenames tbl of
             Inl x \<Rightarrow> Inl x
           | Inr tbl' \<Rightarrow> populate_dirs listdir execute probe_clip now rest tbl'))"

text \<open>\<open>populate_database\<close>: the exception it ends with, if any, and the table afterwards.
  The inserts are committed after the loops; an exception before that leaves the table as it
  was. An argument left out (\<open>None\<close>) is an empty list here.\<close>

definition populate_database ::
  "(pystr \<Rightarrow> dir_state) \<Rightarrow> (doc \<Rightarrow> sql_outcome)
     \<Rightarrow> (pystr \<Rightarrow> pystr \<Rightarrow> (rat \<times> nat \<times> nat) option) \<Rightarrow> pystr
     \<Rightarrow> pystr list \<Rightarrow> pystr list \<Rightarrow> doc list \<Rightarrow> exn option \<times> doc list" where
  "populate_database listdir execute probe_clip now video_dirs languages tbl =
     (if video_dirs = [] \<or> languages = [] then (None, tbl)
      else (case populate_dirs listdir execute probe_clip now (zip languages video_dirs) tbl of
              Inl x \<Rightarrow> (Some x, tbl)
            | Inr tbl' \<Rightarrow> (None, tbl')))"

section \<open>Notions used in the statements and their proofs\<close>

text \<open>The clip type of a derived word, as all three components compute it:
  \<^verbatim>\<open>"word" if len(word) > 1 else "letter"\<close>.\<close>

definition clip_type :: "pystr \<Rightarrow> pystr" where
  "clip_type w = (if length w > 1 then py ''word'' else py ''letter'')"

text \<open>The listed keys that the indexer files as pending, and those it files as approved.\<close>

definition pending_key :: "pystr \<Rightarrow> bool" where
  "pending_key k = (endswith k (py ''.mp4'') \<and> startswith k (py ''pending/''))"

definition approved_key :: "pystr \<Rightarrow> bool" where
  "approved_key k =
     (endswith k (py ''.mp4'') \<and> \<not> startswith k (py ''pending/'') \<and> word_of_key k \<noteq> [])"

text \<open>The loop invariant of the indexer: the local dictionaries hold what the keys seen so
  far put there.\<close>

definition indexed :: "pystr list \<Rightarrow> indices \<Rightarrow> bool" where
  "indexed ks acc =
     (fst ` set (snd acc) = {k \<in> set ks. pending_key k} \<and>
      (\<forall>k ent. map_of (snd acc) k = Some ent \<longrightarrow> p_key ent = k) \<and>
      fst ` set (fst acc) = word_of_key ` {k \<in> set ks. approved_key k} \<and>
      (\<forall>w ent. map_of (fst acc) w = Some ent \<longrightarrow>
         word ent = w \<and> key ent \<in> set ks \<and> approved_key (key ent)
         \<and> word_of_key (key ent) = w \<and> vtype ent = clip_type w) \<and>
      distinct (map fst (fst acc)) \<and> distinct (map fst (snd acc)))"

text \<open>A listing that goes through: every page is fetched, and every object carries the
  three entries the indexer may read.\<close>

definition obj_ok :: "s3obj \<Rightarrow> bool" where
  "obj_ok obj = (Key obj \<noteq> None \<and> LastModified obj \<noteq> None \<and> Size obj \<noteq> None)"

fun listing_ok :: "(exn + page) list \<Rightarrow> bool" where
  "listing_ok [] = True"
| "listing_ok (Inl x # pgs) = False"
| "listing_ok (Inr None # pgs) = listing_ok pgs"
| "listing_ok (Inr (Some objs) # pgs) = (list_all obj_ok objs \<and> listing_ok pgs)"

text \<open>A code point that \<open>lower\<close> leaves alone wherever it stands.\<close>

definition stable :: "int \<Rightarrow> bool" where
  "stable d = (lower_full d = [d] \<and> d \<noteq> 0x3A3)"

text \<open>The rows of a paged table; the code points a row of a case mapping takes, and where it
  sends them; and a test that what the row \<open>r\<close> gives is nothing the row \<open>k\<close> takes.\<close>

definition rows_of :: "(int \<times> 'a list) list \<Rightarrow> 'a list" where
  "rows_of pages = concat (map snd pages)"

definition covers :: "int \<times> int \<times> int \<times> int \<Rightarrow> int \<Rightarrow> bool" where
  "covers row c =
     (case row of (lo, hi, step, target) \<Rightarrow> lo \<le> c \<and> c \<le> hi \<and> (c - lo) mod step = 0)"

definition image_of :: "int \<times> int \<times> int \<times> int \<Rightarrow> int \<Rightarrow> int" where
  "image_of row c = (case row of (lo, hi, step, target) \<Rightarrow> target + (c - lo))"

definition sep :: "int \<times> int \<times> int \<times> int \<Rightarrow> int \<times> int \<times> int \<times> int \<Rightarrow> bool" where
  "sep r k =
     (case r of (lo, hi, step, target) \<Rightarrow>
      case k of (lo', hi', step', target') \<Rightarrow>
        target + (hi - lo) < lo' \<or> hi' < target
        \<or> (step = 2 \<and> step' = 2 \<and> (target - lo') mod 2 = 1)
        \<or> (lo = hi \<and> (target - lo') mod step' \<noteq> 0))"

text \<open>An upload name that duplicates an approved word or a pending file name. Its
  normalised form, with underscores read as spaces, is a word of the approved index; or the
  file name it yields is the file name of an entry of the pending index, or what a key of
  the pending index ends in after a \<open>/\<close>.\<close>

definition duplicate_name :: "app_state \<Rightarrow> pystr \<Rightarrow> bool" where
  "duplicate_name st name =
     (let base_name = replace (py '' '') (py ''_'') (lower (strip name));
          filename = base_name @ py ''.mp4''
      in replace (py ''_'') (py '' '') base_name \<in> fst ` set (video_index st)
         \<or> (\<exists>(pk, pe) \<in> set (pending_index st).
               p_filename pe = filename \<or> endswith pk (py ''/'' @ filename)))"

text \<open>What every state the service goes through has: nothing is indexed while the store
  is marked offline, and every pending entry stands under a key that ends in \<open>/\<close> and its
  file name.\<close>

definition filed :: "(pystr \<times> pending_entry) list \<Rightarrow> bool" where
  "filed p = (\<forall>(k, pe) \<in> set p. endswith k (py ''/'' @ p_filename pe))"

definition consistent :: "app_state \<Rightarrow> bool" where
  "consistent st =
     ((S3_AVAILABLE st \<or> (video_index st = [] \<and> pending_index st = []))
      \<and> filed (pending_index st))"

text \<open>The shape of the documents the push script queues and of the rows the populate
  script inserts: the fields in order, and the clip type that goes with the word.\<close>

definition typed_by_word :: "doc \<Rightarrow> bool" where
  "typed_by_word d =
     (case map_of d (py ''word'') of
        Some (Str w) \<Rightarrow> map_of d (py ''type'') = Some (Str (clip_type w))
      | _ \<Rightarrow> False)"

definition pushed_doc :: "doc \<Rightarrow> bool" where
  "pushed_doc d =
     (map fst d = [py ''word'', py ''language'', py ''file_path'', py ''type'', py ''duration'', py ''resolution'']
      \<and> typed_by_word d)"

definition populated_row :: "doc \<Rightarrow> bool" where
  "populated_row r =
     (map fst r = [py ''word'', py ''language'', py ''file_path'', py ''type'', py ''duration'',
                   (py ''resolution''), py ''updated_at'']
      \<and> typed_by_word r)"

definition keyed_op :: "write_op \<Rightarrow> bool" where
  "keyed_op op =
     (case op of ReplaceOne flt d upsert \<Rightarrow>
        upsert \<and> pushed_doc d \<and>
        (\<exists>w l. flt = [(py ''word'', w), (py ''language'', l)]
               \<and> map_of d (py ''word'') = Some w \<and> map_of d (py ''language'') = Some l))"

section \<open>Concrete inputs\<close>

text \<open>An in-memory store, keys to contents, and a client on it that never fails except to
  copy or probe a key that is not there. It serves to run the code on concrete inputs.\<close>

definition memory_client :: "(pystr \<times> pystr) list s3_client" where
  "memory_client =
     \<lparr>list_objects_v2 = (\<lambda>s. [Inr (if s = [] then None
                                   else Some (map (\<lambda>(k, c). \<lparr>Key = Some k, LastModified = Some 0,
                                                            Size = Some (length c)\<rparr>) s))]),
      copy_object = (\<lambda>src dst s. case map_of s src of
                                    None \<Rightarrow> Inl (ClientError (py ''NoSuchKey'') (py ''NoSuchKey''))
                                  | Some c \<Rightarrow> Inr (AList.update dst c s)),
      delete_object = (\<lambda>k s. Inr (AList.delete k s)),
      head_object = (\<lambda>k s. case map_of s k of None \<Rightarrow> Inl (ClientError (py ''404'') (py ''Not Found''))
                                             | Some c \<Rightarrow> Inr ()),
      upload_file = (\<lambda>k c s. Inr (AList.update k c s))\<rparr>"

text \<open>The same client with a listing that breaks off after its first page.\<close>

definition broken_client :: "(pystr \<times> pystr) list s3_client" where
  "broken_client =
     memory_client\<lparr>list_objects_v2 :=
       (\<lambda>s. list_objects_v2 memory_client s @ [Inl (Raised (py ''timed out''))])\<rparr>"

definition test_env :: env where
  "test_env = \<lparr>BUCKET_NAME = py ''echosignuobs'', AWS_REGION = py ''eu-north-1'',
               strftime = (\<lambda>d. (py ''1970-01-01 00:00'')), round_kb = (\<lambda>n. (py ''0.0''))\<rparr>"

definition admin_request :: request where
  "admin_request = \<lparr>cookies = [(py ''admin_session'', py ''active'')]\<rparr>"

definition example_store :: "(pystr \<times> pystr) list" where
  "example_store = [(py ''hello.mp4'', py ''v1''), (py ''a.mp4'', py ''v2''),
                    (py ''pending/thank_you.mp4'', py ''v3''), (py ''notes.txt'', py ''n'')]"

definition example_state :: app_state where
  "example_state =
     \<lparr>S3_AVAILABLE = True,
      video_index = [(py ''old'', \<lparr>word = py ''old'', key = py ''old.mp4'', url = py ''u'',
                               vtype = py ''word''\<rparr>)],
      pending_index = []\<rparr>"

text \<open>The state the service is in after it was loaded with the store in reach and has
  indexed the example store.\<close>

definition live_state :: app_state where
  "live_state =
     index_s3_files memory_client test_env example_store
       \<lparr>S3_AVAILABLE = True, video_index = [], pending_index = []\<rparr>"

text \<open>A client with outages: the store carries, beside its objects, the names of the calls
  that time out for now.\<close>

definition outage_client :: "(pystr list \<times> (pystr \<times> pystr) list) s3_client" where
  "outage_client =
     \<lparr>list_objects_v2 =
        (\<lambda>(down, objs). if py ''list_objects_v2'' \<in> set down
                         then [Inl (Raised (py ''timed out''))]
                         else list_objects_v2 memory_client objs),
      copy_object =
        (\<lambda>src dst (down, objs). if py ''copy_object'' \<in> set down
                                 then Inl (Raised (py ''timed out''))
                                 else map_sum id (Pair down) (copy_object memory_client src dst objs)),
      delete_object = (\<lambda>k (down, objs). Inr (down, AList.delete k objs)),
      head_object = (\<lambda>k (down, objs). head_object memory_client k objs),
      upload_file = (\<lambda>k c (down, objs). Inr (down, AList.update k c objs))\<rparr>"

definition outage_state :: app_state where
  "outage_state =
     index_s3_files outage_client test_env ([], example_store)
       \<lparr>S3_AVAILABLE = True, video_index = [], pending_index = []\<rparr>"

definition example_upload :: upload where
  "example_upload = \<lparr>spooled = Inr (py ''v''), unlinked = None\<rparr>"

definition example_config :: push_config where
  "example_config = \<lparr>BUCKET = py ''echosignuobs'', S3_OK = True, dry_run = False,
                     round2 = (\<lambda>x. x)\<rparr>"

definition example_files :: "video_file list" where
  "example_files =
     [\<lparr>parts = [py ''psl'', py ''Hello.mp4''], content = py ''v1'', probed = Opened 640 480 25 50\<rparr>,
      \<lparr>parts = [py ''a.mp4''], content = py ''v2'', probed = NotOpened\<rparr>,
      \<lparr>parts = [py ''psl'', py ''more'', py ''hello.mp4''], content = py ''v3'', probed = ProbeRaised\<rparr>]"

definition example_listdir :: "pystr \<Rightarrow> dir_state" where
  "example_listdir d = (if d = py ''videos'' then Names [py ''Hello.mp4'', py ''_a.mp4'', py ''notes.txt'']
                        else NoSuchPath)"

definition always_executed :: "doc \<Rightarrow> sql_outcome" where
  "always_executed row = Executed"

definition always_connected :: "nat \<Rightarrow> outcome" where
  "always_connected n = Connected"

definition flaky_connection :: "nat \<Rightarrow> outcome" where
  "flaky_connection n = (if n < 3 then PyMongoError (py ''timed out'') else Connected)"

definition no_clip :: "pystr \<Rightarrow> pystr \<Rightarrow> (rat \<times> nat \<times> nat) option" where
  "no_clip d f = None"

definition whitespace_tokenizer :: "pystr \<Rightarrow> exn + pystr list" where
  "whitespace_tokenizer s = Inr (split_ws s)"

definition approved_store :: "(pystr \<times> pystr) list" where
  "approved_store = [(py ''hello.mp4'', py ''v1''), (py ''a.mp4'', py ''v2''), (py ''notes.txt'', py ''n''),
                     (py ''thank_you.mp4'', py ''v3'')]"

section \<open>Strings: facts of the tables\<close>

lemma find_row_covers:
  "find_row c rows = Some t \<Longrightarrow> \<exists>row \<in> set rows. covers row c \<and> t = image_of row c"
  by (induction rows) (auto simp: covers_def image_of_def split: if_splits)

lemma rows_of_Nil: "rows_of [] = []"
  by (simp add: rows_of_def)

lemma rows_of_Cons: "rows_of ((b, rows) # pages) = rows @ rows_of pages"
  by (simp add: rows_of_def)

lemma find_in_pages_covers:
  "find_in_pages c pages = Some t
   \<Longrightarrow> \<exists>row \<in> set (rows_of pages). covers row c \<and> t = image_of row c"
proof (induction pages)
  case Nil
  then show ?case by simp
next
  case (Cons p pages)
  obtain b rows where p: "p = (b, rows)" by (cases p)
  show ?case
  proof (cases "c \<le> b")
    case True
    with Cons.prems p have "find_row c rows = Some t" by simp
    from find_row_covers [OF this] show ?thesis by (auto simp: p rows_of_Cons)
  next
    case False
    with Cons.prems p have "find_in_pages c pages = Some t" by simp
    from Cons.IH [OF this] show ?thesis by (auto simp: p rows_of_Cons)
  qed
qed

lemma sep_sound: "sep r k \<Longrightarrow> covers r c \<Longrightarrow> \<not> covers k (image_of r c)"
  unfolding sep_def covers_def image_of_def
  by (cases r; cases k) (auto; presburger)

lemma in_ranges_row: "in_ranges c rows \<Longrightarrow> \<exists>(lo, hi) \<in> set rows. lo \<le> c \<and> c \<le> hi"
  by (induction rows) (auto split: if_splits)

lemma in_pages_row:
  "in_pages c pages \<Longrightarrow> \<exists>(lo, hi) \<in> set (rows_of pages). lo \<le> c \<and> c \<le> hi"
proof (induction pages)
  case Nil
  then show ?case by simp
next
  case (Cons p pages)
  obtain b rows where p: "p = (b, rows)" by (cases p)
  show ?case
  proof (cases "c \<le> b")
    case True
    with Cons.prems p have "in_ranges c rows" by simp
    from in_ranges_row [OF this] show ?thesis by (auto simp: p rows_of_Cons)
  next
    case False
    with Cons.prems p have "in_pages c pages" by simp
    from Cons.IH [OF this] show ?thesis by (auto simp: p rows_of_Cons)
  qed
qed

text \<open>No alphanumeric code point is whitespace: every range of the one table lies clear of
  every code point of the other.\<close>

lemma alnum_space_check:
  "list_all (\<lambda>(b, rows). list_all (\<lambda>(lo, hi). list_all (\<lambda>s. s < lo \<or> hi < s) space_chars) rows)
     alnum_pages"
  by code_simp

text \<open>What a row of the lowercase table gives, no row of it takes.\<close>

lemma lower_sep_check:
  "list_all (\<lambda>(b, rs). list_all (\<lambda>r. list_all (\<lambda>(b', ks). list_all (sep r) ks) lower_pages) rs)
     lower_pages"
  by code_simp

lemma paged_all: "list_all (\<lambda>(b, rows). list_all P rows) pages = (\<forall>r \<in> set (rows_of pages). P r)"
  by (auto simp: list_all_iff rows_of_def)

lemma lower_rows_sep:
  "r \<in> set (rows_of lower_pages) \<Longrightarrow> k \<in> set (rows_of lower_pages) \<Longrightarrow> sep r k"
  using lower_sep_check by (simp add: paged_all)

lemma lower_image_unmapped:
  assumes "r \<in> set (rows_of lower_pages)" and "covers r c"
  shows "find_in_pages (image_of r c) lower_pages = None"
proof (rule ccontr)
  assume "find_in_pages (image_of r c) lower_pages \<noteq> None"
  then obtain x where "find_in_pages (image_of r c) lower_pages = Some x" by auto
  from find_in_pages_covers [OF this] obtain k where
    "k \<in> set (rows_of lower_pages)" "covers k (image_of r c)" by blast
  with assms lower_rows_sep sep_sound show False by blast
qed

lemma lower_image_check:
  "list_all (\<lambda>(b, rows). list_all (\<lambda>(lo, hi, step, target).
      0x130 < target \<or> target + (hi - lo) < 0x130) rows) lower_pages"
  by code_simp

lemma lower_image_plain:
  assumes "r \<in> set (rows_of lower_pages)" and "covers r c"
  shows "map_of lower_special (image_of r c) = None"
proof -
  obtain lo hi step target where r: "r = (lo, hi, step, target)" by (cases r)
  from lower_image_check assms(1) have "0x130 < target \<or> target + (hi - lo) < 0x130"
    by (auto simp: paged_all r)
  moreover from assms(2) have "target \<le> image_of r c" "image_of r c \<le> target + (hi - lo)"
    by (auto simp: covers_def image_of_def r)
  ultimately have "image_of r c \<noteq> 0x130" by auto
  then show ?thesis by (simp add: lower_special_def)
qed

lemma sigma_mapped: "find_in_pages 0x3A3 lower_pages = Some 0x3C3"
  by code_simp

lemma stable_small: "stable 0x69" "stable 0x307" "stable 0x3C2" "stable 0x3C3" "stable 0x5F"
  by code_simp+

lemma lower_full_stable: "d \<in> set (lower_full c) \<Longrightarrow> stable d"
proof (cases "map_of lower_special c")
  case (Some out)
  assume "d \<in> set (lower_full c)"
  with Some have "d = 0x69 \<or> d = 0x307"
    by (auto simp: lower_full_def case_map_def lower_special_def split: if_splits)
  then show ?thesis using stable_small by auto
next
  case None
  assume d: "d \<in> set (lower_full c)"
  show ?thesis
  proof (cases "find_in_pages c lower_pages")
    case (Some t)
    from find_in_pages_covers [OF this] obtain r where
      r: "r \<in> set (rows_of lower_pages)" "covers r c" "t = image_of r c" by blast
    have "d = t" using d None Some by (simp add: lower_full_def case_map_def)
    moreover have "find_in_pages t lower_pages = None" "map_of lower_special t = None"
      using r lower_image_unmapped lower_image_plain by auto
    ultimately show ?thesis
      using sigma_mapped by (auto simp: stable_def lower_full_def case_map_def)
  next
    case n: None
    have "d = c" using d None n by (simp add: lower_full_def case_map_def)
    then show ?thesis
      using None n sigma_mapped by (auto simp: stable_def lower_full_def case_map_def)
  qed
qed

lemma lower_from_stable: "d \<in> set (lower_from seen s) \<Longrightarrow> stable d"
  by (induction s arbitrary: seen)
     (auto simp: stable_small dest: lower_full_stable split: if_splits)

lemma lower_from_id: "\<forall>d \<in> set r. stable d \<Longrightarrow> lower_from seen r = r"
  by (induction r arbitrary: seen) (auto simp: stable_def)

lemma alnum_rows_no_space:
  assumes "(lo, hi) \<in> set (rows_of alnum_pages)" and "s \<in> set space_chars"
  shows "s < lo \<or> hi < s"
proof -
  have "\<forall>r \<in> set (rows_of alnum_pages).
          case r of (lo, hi) \<Rightarrow> list_all (\<lambda>s. s < lo \<or> hi < s) space_chars"
    using alnum_space_check unfolding paged_all .
  with assms show ?thesis by (auto simp: list_all_iff)
qed

lemma isalnum_not_space: "isalnum c \<Longrightarrow> \<not> isspace c"
proof
  assume "isalnum c" and sp: "isspace c"
  then obtain lo hi where "(lo, hi) \<in> set (rows_of alnum_pages)" "lo \<le> c" "c \<le> hi"
    using in_pages_row [of c alnum_pages] by (auto simp: isalnum_def)
  with sp alnum_rows_no_space [of lo hi c] show False by (auto simp: isspace_def)
qed

lemma underscore_not_space: "\<not> isspace 0x5F"
  by code_simp

lemma space_isspace: "isspace 0x20"
  by code_simp

lemma replace_char: "replace [a] [b] s = map (\<lambda>c. if c = a then b else c) s"
  by (induction s) auto

lemma dropWhile_none: "\<forall>c \<in> set s. \<not> P c \<Longrightarrow> dropWhile P s = s"
  by (cases s) auto

lemma strip_id: "\<forall>c \<in> set s. \<not> isspace c \<Longrightarrow> strip s = s"
  by (simp add: strip_def dropWhile_none)

section \<open>Upload-name normalisation\<close>

lemma clean_name_chars:
  "c \<in> set (clean_name s) \<Longrightarrow> (isalnum c \<or> c = 0x5F) \<and> stable c"
  by (auto simp: clean_name_def replace_char lower_def stable_small
           dest: lower_from_stable split: if_splits)

lemma clean_name_fixed:
  assumes "\<forall>c \<in> set r. (isalnum c \<or> c = 0x5F) \<and> stable c"
  shows "clean_name r = r"
proof -
  have ns: "\<forall>c \<in> set r. \<not> isspace c"
    using assms isalnum_not_space underscore_not_space by blast
  have "strip r = r" using ns by (rule strip_id)
  moreover have "lower r = r" using assms by (simp add: lower_def lower_from_id)
  moreover have "replace (py '' '') (py ''_'') r = r"
    using ns space_isspace by (auto simp: replace_char intro!: map_idI)
  moreover have "filter (\<lambda>c. isalnum c \<or> c = 0x5F) r = r"
    using assms by (simp add: filter_id_conv)
  ultimately show ?thesis by (simp add: clean_name_def)
qed

text \<open>
  Claim C10. The upload-name normalisation of \<open>admin_upload\<close>, \<open>admin_edit\<close> and
  \<open>mobile_upload\<close> (strip, lowercase, spaces to underscores, then keep only alphanumerics
  and underscores) is idempotent: normalising a normalised name changes nothing, for every
  string of code points.
\<close>

theorem clean_name_idempotent: "clean_name (clean_name s) = clean_name s"
  by (rule clean_name_fixed) (blast dest: clean_name_chars)

text \<open>Claim C10, at the name \<open>"  Hello World-9 "\<close>, which normalises to \<open>hello_world9\<close>, and
  at \<open>Caf\<close> followed by U+00C9 and the no-break space U+00A0, which normalises to \<open>caf\<close>
  followed by U+00E9.\<close>

theorem clean_name_idempotent_witness:
  "clean_name (py ''  Hello World-9 '') = py ''hello_world9''
   \<and> clean_name (clean_name (py ''  Hello World-9 '')) = clean_name (py ''  Hello World-9 '')
   \<and> clean_name (py ''Caf'' @ [0xC9, 0xA0]) = py ''caf'' @ [0xE9]
   \<and> clean_name (clean_name (py ''Caf'' @ [0xC9, 0xA0])) = clean_name (py ''Caf'' @ [0xC9, 0xA0])"
proof -
  have "clean_name (py ''  Hello World-9 '') = py ''hello_world9''" by code_simp
  moreover have "clean_name (py ''Caf'' @ [0xC9, 0xA0]) = py ''caf'' @ [0xE9]" by code_simp
  ultimately show ?thesis
    using clean_name_idempotent [of "py ''  Hello World-9 ''"]
          clean_name_idempotent [of "py ''Caf'' @ [0xC9, 0xA0]"]
    by simp
qed

section \<open>Translation\<close>

lemma translate_chars_eq: "translate_chars idx w acc = acc @ letter_videos idx w"
  by (induction w arbitrary: acc) (auto simp: letter_videos_def split: option.splits)

lemma translate_words_eq: "translate_words idx ws acc = acc @ spec_videos idx ws"
  by (induction ws arbitrary: acc)
     (auto simp: spec_videos_def translate_chars_eq split: option.splits)

text \<open>
  Claim C1. The videos list \<open>translate\<close> returns is built from its lowercased keywords, word
  by word and in order: a word that is a key of the approved index contributes its entry;
  any other word contributes, for each of its characters in order that is a key of the
  index, a copy of that character's entry with type \<open>letter\<close> and the uppercased character
  as word; a character that is no key contributes nothing.
\<close>

theorem translate_videos_per_word:
  "videos (translate tok idx text)
     = spec_videos idx (map lower (key_words (translate tok idx text)))"
  by (simp add: translate_def translate_words_eq Let_def spec_videos_def)

text \<open>Claim C1, at the text \<open>"hello, Hello ab a"\<close> over the index of the example store,
  which knows \<open>hello\<close> and \<open>a\<close>: \<open>ab\<close> is spelt, and only its \<open>a\<close> is found.\<close>

theorem translate_videos_per_word_witness:
  "key_words (translate whitespace_tokenizer
                (video_index (index_s3_files memory_client test_env example_store example_state))
                (py ''hello, Hello ab a'')) = [py ''hello'', py ''ab'', py ''a'']
   \<and> map (\<lambda>v. (word v, key v, vtype v))
        (videos (translate whitespace_tokenizer
                   (video_index (index_s3_files memory_client test_env example_store example_state))
                   (py ''hello, Hello ab a'')))
     = [(py ''hello'', py ''hello.mp4'', py ''word''), (py ''A'', py ''a.mp4'', py ''letter''),
        (py ''a'', py ''a.mp4'', py ''letter'')]"
proof -
  have "key_words (translate whitespace_tokenizer
                (video_index (index_s3_files memory_client test_env example_store example_state))
                (py ''hello, Hello ab a'')) = [py ''hello'', py ''ab'', py ''a'']"
    by code_simp
  moreover have "map (\<lambda>v. (word v, key v, vtype v))
        (spec_videos
           (video_index (index_s3_files memory_client test_env example_store example_state))
           (map lower [py ''hello'', py ''ab'', py ''a'']))
     = [(py ''hello'', py ''hello.mp4'', py ''word''), (py ''A'', py ''a.mp4'', py ''letter''),
        (py ''a'', py ''a.mp4'', py ''letter'')]"
    by code_simp
  ultimately show ?thesis
    using translate_videos_per_word [of whitespace_tokenizer
        "video_index (index_s3_files memory_client test_env example_store example_state)"
        "(py ''hello, Hello ab a'')"]
    by simp
qed

section \<open>The index refresh\<close>

lemma filter_snoc_set:
  "{x \<in> set (ks @ [k]). P x}
     = (if P k then insert k {x \<in> set ks. P x} else {x \<in> set ks. P x})"
  by auto

lemma indexed_empty: "indexed [] ([], [])"
  by (simp add: indexed_def)

lemma indexed_skip:
  assumes "indexed ks acc" and "\<not> pending_key k" and "\<not> approved_key k"
  shows "indexed (ks @ [k]) acc"
  using assms unfolding indexed_def by (simp add: filter_snoc_set) blast

lemma indexed_pending:
  assumes "indexed ks acc" and "pending_key k" and "\<not> approved_key k" and "p_key pe = k"
  shows "indexed (ks @ [k]) (fst acc, AList.update k pe (snd acc))"
  using assms unfolding indexed_def
  by (simp add: filter_snoc_set dom_update distinct_update update_conv') blast

lemma indexed_approved:
  assumes "indexed ks acc" and "\<not> pending_key k" and "approved_key k"
    and "word ve = word_of_key k" and "key ve = k" and "vtype ve = clip_type (word_of_key k)"
  shows "indexed (ks @ [k]) (AList.update (word_of_key k) ve (fst acc), snd acc)"
  using assms unfolding indexed_def
  by (simp add: filter_snoc_set dom_update distinct_update update_conv') blast

lemma index_obj_indexed:
  assumes "index_obj e obj acc = Inr acc'" and "indexed ks acc"
  shows "\<exists>k. Key obj = Some k \<and> indexed (ks @ [k]) acc'"
proof (cases "Key obj")
  case None
  with assms show ?thesis by (simp add: index_obj_def)
next
  case (Some k)
  show ?thesis
  proof (cases "endswith k (py ''.mp4'')")
    case False
    with Some assms have "acc' = acc" by (simp add: index_obj_def)
    moreover have "\<not> pending_key k" "\<not> approved_key k"
      using False by (simp_all add: pending_key_def approved_key_def)
    ultimately show ?thesis using assms(2) Some by (simp add: indexed_skip)
  next
    case mp4: True
    show ?thesis
    proof (cases "startswith k (py ''pending/'')")
      case True
      with mp4 Some assms(1) obtain pe where
        acc': "acc' = (fst acc, AList.update k pe (snd acc))" and pe: "p_key pe = k"
        by (auto simp: index_obj_def split: option.splits)
      have nk: "\<not> approved_key k" using True by (simp add: approved_key_def)
      have pk: "pending_key k" using True mp4 by (simp add: pending_key_def)
      show ?thesis using assms(2) Some nk pk pe unfolding acc'
        by (simp add: indexed_pending)
    next
      case False
      have npk: "\<not> pending_key k" using False by (simp add: pending_key_def)
      show ?thesis
      proof (cases "word_of_key k = []")
        case True
        with False mp4 Some assms have "acc' = acc" by (simp add: index_obj_def)
        moreover have "\<not> approved_key k" using True by (simp add: approved_key_def)
        ultimately show ?thesis using assms(2) Some npk by (simp add: indexed_skip)
      next
        case ne: False
        with False mp4 Some assms(1) obtain ve where
          acc': "acc' = (AList.update (word_of_key k) ve (fst acc), snd acc)"
          and ve: "word ve = word_of_key k" "key ve = k"
                  "vtype ve = clip_type (word_of_key k)"
          by (auto simp: index_obj_def Let_def clip_type_def)
        have ak: "approved_key k" using False mp4 ne by (simp add: approved_key_def)
        show ?thesis using assms(2) Some ak npk ve unfolding acc'
          by (simp add: indexed_approved)
      qed
    qed
  qed
qed

lemma index_objs_indexed:
  "index_objs e objs acc = Inr acc' \<Longrightarrow> indexed ks acc \<Longrightarrow>
   indexed (ks @ concat (map (\<lambda>obj. case Key obj of None \<Rightarrow> [] | Some k \<Rightarrow> [k]) objs)) acc'"
proof (induction objs arbitrary: acc ks)
  case Nil
  then show ?case by simp
next
  case (Cons obj objs)
  from Cons.prems(1) obtain acc1 where
    1: "index_obj e obj acc = Inr acc1" and 2: "index_objs e objs acc1 = Inr acc'"
    by (auto split: sum.splits)
  from index_obj_indexed [OF 1 Cons.prems(2)] obtain k where
    k: "Key obj = Some k" and i: "indexed (ks @ [k]) acc1" by blast
  from Cons.IH [OF 2 i] k show ?case by simp
qed

lemma index_pages_indexed:
  "index_pages e pgs acc = Inr acc' \<Longrightarrow> indexed ks acc \<Longrightarrow>
   indexed (ks @ listed_keys pgs) acc'"
proof (induction e pgs acc arbitrary: ks rule: index_pages.induct)
  case (1 e acc)
  then show ?case by simp
next
  case (2 e x pgs acc)
  then show ?case by simp
next
  case (3 e pgs acc)
  then show ?case by simp
next
  case (4 e objs pgs acc)
  from "4.prems"(1) obtain acc1 where
    1: "index_objs e objs acc = Inr acc1" and 2: "index_pages e pgs acc1 = Inr acc'"
    by (auto split: sum.splits)
  from "4.IH" [OF 1 2 index_objs_indexed [OF 1 "4.prems"(2)]] show ?case by simp
qed

lemma index_pages_fresh:
  assumes "index_pages e pgs ([], []) = Inr (v, p)"
  shows "indexed (listed_keys pgs) (v, p)"
  using index_pages_indexed [OF assms indexed_empty] by simp

text \<open>A listing that goes through is indexed without an exception.\<close>

lemma index_obj_ok: "obj_ok obj \<Longrightarrow> \<exists>acc'. index_obj e obj acc = Inr acc'"
  by (auto simp: obj_ok_def index_obj_def Let_def)

lemma index_objs_ok: "list_all obj_ok objs \<Longrightarrow> \<exists>acc'. index_objs e objs acc = Inr acc'"
proof (induction objs arbitrary: acc)
  case Nil
  then show ?case by simp
next
  case (Cons obj objs)
  then obtain acc1 where "index_obj e obj acc = Inr acc1"
    using index_obj_ok [of obj e acc] by auto
  with Cons show ?case by simp
qed

lemma index_pages_ok: "listing_ok pgs \<Longrightarrow> \<exists>acc'. index_pages e pgs acc = Inr acc'"
proof (induction pgs arbitrary: acc rule: listing_ok.induct)
  case (4 objs pgs)
  then obtain acc1 where "index_objs e objs acc = Inr acc1"
    using index_objs_ok [of objs e acc] by auto
  with 4 show ?case by simp
qed simp_all

lemma index_s3_files_result:
  assumes "listing_ok (list_objects_v2 cl s)"
  shows "\<exists>v p. indexed (listed_keys (list_objects_v2 cl s)) (v, p) \<and>
           (\<forall>st. S3_AVAILABLE st \<longrightarrow>
              index_s3_files cl e s st = st\<lparr>video_index := v, pending_index := p\<rparr>)"
proof -
  obtain v p where vp: "index_pages e (list_objects_v2 cl s) ([], []) = Inr (v, p)"
    using index_pages_ok [OF assms, of e "([], [])"] by auto
  have "\<forall>st. S3_AVAILABLE st \<longrightarrow>
          index_s3_files cl e s st = st\<lparr>video_index := v, pending_index := p\<rparr>"
    using vp by (simp add: index_s3_files_def)
  then show ?thesis using index_pages_fresh [OF vp] by blast
qed

lemma index_s3_files_indexed:
  assumes "S3_AVAILABLE st" and "listing_ok (list_objects_v2 cl s)"
  shows "indexed (listed_keys (list_objects_v2 cl s))
           (video_index (index_s3_files cl e s st), pending_index (index_s3_files cl e s st))"
  using index_s3_files_result [OF assms(2), of e] assms(1) by auto

lemma index_s3_files_forgets:
  assumes "S3_AVAILABLE st" and "S3_AVAILABLE st'" and "listing_ok (list_objects_v2 cl s)"
  shows "video_index (index_s3_files cl e s st') = video_index (index_s3_files cl e s st)"
    and "pending_index (index_s3_files cl e s st') = pending_index (index_s3_files cl e s st)"
  using index_s3_files_result [OF assms(3), of e] assms(1,2) by auto

text \<open>
  Claim C2. After a run of \<open>index_s3_files\<close> that goes through, the pending index holds
  exactly the listed keys that end in \<open>.mp4\<close> and start with \<open>pending/\<close>, each under its
  full key; the approved index holds exactly one entry per nonempty derived word of the
  listed \<open>.mp4\<close> keys outside \<open>pending/\<close>, under that word; every entry comes from a listed
  key ending in \<open>.mp4\<close>; and the result is the same whatever the indices held before.
\<close>

theorem index_s3_files_rebuilds:
  assumes "S3_AVAILABLE st" and "listing_ok (list_objects_v2 cl s)"
  shows "fst ` set (pending_index (index_s3_files cl e s st)) =
           {k \<in> set (listed_keys (list_objects_v2 cl s)).
              endswith k (py ''.mp4'') \<and> startswith k (py ''pending/'')}
       \<and> (\<forall>k ent. map_of (pending_index (index_s3_files cl e s st)) k = Some ent
            \<longrightarrow> p_key ent = k)
       \<and> distinct (map fst (pending_index (index_s3_files cl e s st)))
       \<and> fst ` set (video_index (index_s3_files cl e s st)) =
           word_of_key ` {k \<in> set (listed_keys (list_objects_v2 cl s)).
              endswith k (py ''.mp4'') \<and> \<not> startswith k (py ''pending/'') \<and> word_of_key k \<noteq> []}
       \<and> distinct (map fst (video_index (index_s3_files cl e s st)))
       \<and> (\<forall>w ent. map_of (video_index (index_s3_files cl e s st)) w = Some ent \<longrightarrow>
            word ent = w \<and> word_of_key (key ent) = w \<and>
            key ent \<in> set (listed_keys (list_objects_v2 cl s)) \<and>
            endswith (key ent) (py ''.mp4'') \<and> \<not> startswith (key ent) (py ''pending/''))
       \<and> (\<forall>st'. S3_AVAILABLE st' \<longrightarrow>
            video_index (index_s3_files cl e s st') = video_index (index_s3_files cl e s st) \<and>
            pending_index (index_s3_files cl e s st')
              = pending_index (index_s3_files cl e s st))"
proof -
  have "\<forall>st'. S3_AVAILABLE st' \<longrightarrow>
            video_index (index_s3_files cl e s st') = video_index (index_s3_files cl e s st) \<and>
            pending_index (index_s3_files cl e s st')
              = pending_index (index_s3_files cl e s st)"
    using index_s3_files_forgets [OF assms(1) _ assms(2), of _ e] by blast
  then show ?thesis
    using index_s3_files_indexed [OF assms, of e]
    unfolding indexed_def pending_key_def approved_key_def by simp
qed

text \<open>Claim C2, on the example store: of its four keys, \<open>hello.mp4\<close> and \<open>a.mp4\<close> are
  approved, \<open>pending/thank_you.mp4\<close> is pending, \<open>notes.txt\<close> is dropped, and the entry
  \<open>old\<close> of the state before is gone.\<close>

theorem index_s3_files_rebuilds_witness:
  "S3_AVAILABLE example_state
   \<and> listing_ok (list_objects_v2 memory_client example_store)
   \<and> map fst (video_index (index_s3_files memory_client test_env example_store example_state))
       = [py ''hello'', py ''a'']
   \<and> map fst (pending_index (index_s3_files memory_client test_env example_store example_state))
       = [py ''pending/thank_you.mp4'']
   \<and> fst ` set (pending_index
                  (index_s3_files memory_client test_env example_store example_state)) =
           {k \<in> set (listed_keys (list_objects_v2 memory_client example_store)).
              endswith k (py ''.mp4'') \<and> startswith k (py ''pending/'')}"
proof -
  have h1: "S3_AVAILABLE example_state" by (simp add: example_state_def)
  have h2: "listing_ok (list_objects_v2 memory_client example_store)" by code_simp
  have v: "map fst (video_index
                      (index_s3_files memory_client test_env example_store example_state))
             = [py ''hello'', py ''a'']" by code_simp
  have p: "map fst (pending_index
                      (index_s3_files memory_client test_env example_store example_state))
             = [py ''pending/thank_you.mp4'']" by code_simp
  from index_s3_files_rebuilds [OF h1 h2, of test_env] h1 h2 v p show ?thesis by blast
qed

text \<open>An exception while a page is fetched, or at an object without a key, ends the
  indexing with an exception, there or earlier.\<close>

lemma index_objs_obj_raises:
  "obj \<in> set objs \<Longrightarrow> Key obj = None \<Longrightarrow> isl (index_objs e objs acc)"
proof (induction objs arbitrary: acc)
  case Nil
  then show ?case by simp
next
  case (Cons o1 objs)
  show ?case
  proof (cases "index_obj e o1 acc")
    case (Inl x)
    then show ?thesis by simp
  next
    case (Inr acc1)
    then have "o1 \<noteq> obj" using Cons.prems(2) by (auto simp: index_obj_def)
    then have "obj \<in> set objs" using Cons.prems(1) by simp
    from Cons.IH [OF this Cons.prems(2)] Inr show ?thesis by simp
  qed
qed

lemma index_pages_page_raises: "Inl x \<in> set pgs \<Longrightarrow> isl (index_pages e pgs acc)"
  by (induction e pgs acc rule: index_pages.induct) (auto split: sum.splits)

lemma index_pages_obj_raises:
  "Inr (Some objs) \<in> set pgs \<Longrightarrow> obj \<in> set objs \<Longrightarrow> Key obj = None
   \<Longrightarrow> isl (index_pages e pgs acc)"
proof (induction e pgs acc rule: index_pages.induct)
  case (4 e objs' pgs acc)
  show ?case
  proof (cases "index_objs e objs' acc")
    case (Inl x)
    then show ?thesis by simp
  next
    case (Inr acc1)
    then have "objs' \<noteq> objs"
      using index_objs_obj_raises [OF "4.prems"(2,3), of e acc] by auto
    then have "Inr (Some objs) \<in> set pgs" using "4.prems"(1) by simp
    from "4.IH" [OF Inr this "4.prems"(2,3)] Inr show ?thesis by simp
  qed
qed simp_all

text \<open>
  Claim C9. The index refresh is atomic with respect to failure: when listing the store or
  processing a listed object raises, \<open>index_s3_files\<close> leaves the approved index and the
  pending index (the whole state) as they were.
\<close>

theorem index_s3_files_atomic:
  assumes "isl (index_pages e (list_objects_v2 cl s) ([], []))
           \<or> (\<exists>x. Inl x \<in> set (list_objects_v2 cl s))
           \<or> (\<exists>objs obj. Inr (Some objs) \<in> set (list_objects_v2 cl s) \<and> obj \<in> set objs
                  \<and> Key obj = None)"
  shows "index_s3_files cl e s st = st"
proof -
  have "isl (index_pages e (list_objects_v2 cl s) ([], []))"
    using assms index_pages_page_raises index_pages_obj_raises by blast
  then show ?thesis by (auto simp: index_s3_files_def split: sum.splits)
qed

text \<open>Claim C9, on a listing that breaks off after a first page of four objects.\<close>

theorem index_s3_files_atomic_witness:
  "isl (index_pages test_env (list_objects_v2 broken_client example_store) ([], []))
   \<and> index_s3_files broken_client test_env example_store example_state = example_state"
proof -
  have h: "isl (index_pages test_env (list_objects_v2 broken_client example_store) ([], []))"
    by code_simp
  from index_s3_files_atomic [OF disjI1, OF h] h show ?thesis by simp
qed

section \<open>The states the service goes through\<close>

lemma find_None_conv: "(List.find P xs = None) = (\<forall>x \<in> set xs. \<not> P x)"
  by (induction xs) auto

lemma set_update_subset: "set (AList.update k v al) \<subseteq> insert (k, v) (set al)"
  by (induction al) auto

text \<open>A string that holds the separator ends in the separator and its last piece.\<close>

lemma split_last:
  "(d \<notin> set k \<and> split d k = [k])
   \<or> (\<exists>pre. k = pre @ d # last (split d k) \<and> 2 \<le> length (split d k))"
proof (induction k)
  case Nil
  then show ?case by simp
next
  case (Cons c cs)
  show ?case
  proof (cases "c = d")
    case True
    from Cons.IH show ?thesis
    proof
      assume "d \<notin> set cs \<and> split d cs = [cs]"
      then have "c # cs = [] @ d # last (split d (c # cs))"
        and "2 \<le> length (split d (c # cs))"
        using True by simp_all
      then show ?thesis by blast
    next
      assume "\<exists>pre. cs = pre @ d # last (split d cs) \<and> 2 \<le> length (split d cs)"
      then obtain pre where pre: "cs = pre @ d # last (split d cs)"
        and len: "2 \<le> length (split d cs)" by blast
      from len have ne: "split d cs \<noteq> []" by auto
      have "c # cs = (c # pre) @ d # last (split d (c # cs))"
        using True pre ne by simp
      moreover have "2 \<le> length (split d (c # cs))" using True len by simp
      ultimately show ?thesis by blast
    qed
  next
    case False
    from Cons.IH show ?thesis
    proof
      assume "d \<notin> set cs \<and> split d cs = [cs]"
      then show ?thesis using False by simp
    next
      assume "\<exists>pre. cs = pre @ d # last (split d cs) \<and> 2 \<le> length (split d cs)"
      then obtain pre where pre: "cs = pre @ d # last (split d cs)"
        and len: "2 \<le> length (split d cs)" by blast
      from len obtain w w' ws where ws: "split d cs = w # w' # ws"
        by (cases "split d cs"; cases "tl (split d cs)") auto
      have "c # cs = (c # pre) @ d # last (split d (c # cs))"
        using False pre ws by simp
      moreover have "2 \<le> length (split d (c # cs))" using False ws by simp
      ultimately show ?thesis by blast
    qed
  qed
qed

lemma endswith_last_segment: "d \<in> set k \<Longrightarrow> endswith k (d # last (split d k))"
  using split_last [of d k] by (auto simp: endswith_def suffix_def)

lemma pending_slash: "startswith k (py ''pending/'') \<Longrightarrow> 0x2F \<in> set k"
  by (auto simp: startswith_def prefix_def)

lemma pending_filed: "endswith (py ''pending/'' @ f) (py ''/'' @ f)"
proof -
  have "py ''pending/'' @ f = py ''pending'' @ (py ''/'' @ f)" by simp
  then show ?thesis unfolding endswith_def by (metis suffixI)
qed

lemma filed_update:
  "filed p \<Longrightarrow> endswith k (py ''/'' @ p_filename pe) \<Longrightarrow> filed (AList.update k pe p)"
  using set_update_subset [of k pe p] by (fastforce simp: filed_def)

lemma index_obj_filed:
  assumes "index_obj e obj acc = Inr acc'" and "filed (snd acc)"
  shows "filed (snd acc')"
proof (cases "Key obj")
  case None
  with assms show ?thesis by (simp add: index_obj_def)
next
  case (Some k)
  show ?thesis
  proof (cases "endswith k (py ''.mp4'') \<and> startswith k (py ''pending/'')")
    case False
    with Some assms show ?thesis
      by (auto simp: index_obj_def Let_def split: if_splits)
  next
    case True
    then have "endswith k (py ''/'' @ last (split 0x2F k))"
      using endswith_last_segment [OF pending_slash, of k] by simp
    with True Some assms show ?thesis
      by (auto simp: index_obj_def filed_update split: option.splits)
  qed
qed

lemma index_objs_filed:
  "index_objs e objs acc = Inr acc' \<Longrightarrow> filed (snd acc) \<Longrightarrow> filed (snd acc')"
proof (induction objs arbitrary: acc)
  case Nil
  then show ?case by simp
next
  case (Cons obj objs)
  from Cons.prems(1) obtain acc1 where
    1: "index_obj e obj acc = Inr acc1" and 2: "index_objs e objs acc1 = Inr acc'"
    by (auto split: sum.splits)
  from Cons.IH [OF 2 index_obj_filed [OF 1 Cons.prems(2)]] show ?case .
qed

lemma index_pages_filed:
  "index_pages e pgs acc = Inr acc' \<Longrightarrow> filed (snd acc) \<Longrightarrow> filed (snd acc')"
proof (induction e pgs acc rule: index_pages.induct)
  case (4 e objs pgs acc)
  from "4.prems"(1) obtain acc1 where
    1: "index_objs e objs acc = Inr acc1" and 2: "index_pages e pgs acc1 = Inr acc'"
    by (auto split: sum.splits)
  from "4.IH" [OF 1 2 index_objs_filed [OF 1 "4.prems"(2)]] show ?case .
qed simp_all

lemma index_s3_files_available: "S3_AVAILABLE (index_s3_files cl e s st) = S3_AVAILABLE st"
  by (auto simp: index_s3_files_def split: sum.splits)

lemma index_s3_files_consistent:
  assumes "consistent st"
  shows "consistent (index_s3_files cl e s st)"
proof (cases "S3_AVAILABLE st")
  case False
  with assms show ?thesis by (simp add: index_s3_files_def)
next
  case True
  show ?thesis
  proof (cases "index_pages e (list_objects_v2 cl s) ([], [])")
    case (Inl x)
    with assms True show ?thesis by (simp add: index_s3_files_def)
  next
    case (Inr acc)
    have "filed (snd acc)" using index_pages_filed [OF Inr] by (simp add: filed_def)
    with True Inr show ?thesis
      by (cases acc) (simp add: index_s3_files_def consistent_def)
  qed
qed

text \<open>Every handler leaves the state as it was, refreshes the indices, or files one new
  pending entry under \<open>pending/\<close> and its file name.\<close>

lemma admin_action_consistent:
  "admin_action cl e req k act s st = (r, s', st') \<Longrightarrow> consistent st \<Longrightarrow> consistent st'"
  by (auto simp: admin_action_def index_s3_files_consistent split: if_splits sum.splits)

lemma admin_delete_consistent:
  "admin_delete cl e req k s st = (r, s', st') \<Longrightarrow> consistent st \<Longrightarrow> consistent st'"
  by (auto simp: admin_delete_def index_s3_files_consistent split: if_splits sum.splits)

lemma admin_edit_consistent:
  "admin_edit cl e req old_key new_name s st = (r, s', st') \<Longrightarrow> consistent st
   \<Longrightarrow> consistent st'"
  by (auto simp: admin_edit_def Let_def index_s3_files_consistent
           split: if_splits sum.splits)

lemma admin_upload_consistent:
  "admin_upload cl e req file name s st = (r, s', st') \<Longrightarrow> consistent st \<Longrightarrow> consistent st'"
  by (auto simp: admin_upload_def Let_def index_s3_files_consistent
           split: if_splits sum.splits option.splits)

lemma mobile_upload_consistent:
  assumes "mobile_upload cl e now file name s st = (r, s', st')" and "consistent st"
  shows "consistent st'"
proof -
  let ?f = "clean_name name @ py ''.mp4''"
  let ?k = "py ''pending/'' @ ?f"
  let ?pe = "\<lparr>p_key = ?k, p_filename = ?f, p_url = get_public_url e ?k,
              p_date = strftime e now, p_size = py ''New''\<rparr>"
  have "st' = st \<or> (S3_AVAILABLE st \<and>
          st' = st\<lparr>pending_index := AList.update ?k ?pe (pending_index st)\<rparr>)"
    using assms(1)
    by (auto simp: mobile_upload_def Let_def split: if_splits sum.splits option.splits)
  moreover have "filed (AList.update ?k ?pe (pending_index st))"
    using assms(2) pending_filed [of ?f] by (simp add: consistent_def filed_update)
  ultimately show ?thesis using assms(2) by (auto simp: consistent_def)
qed

lemma reachable_consistent: "reachable cl e (s, st) \<Longrightarrow> consistent st"
proof (induction "(s, st)" arbitrary: s st rule: reachable.induct)
  case (loaded s available)
  then show ?case by (simp add: consistent_def filed_def)
next
  case (store_changed s st s')
  then show ?case by simp
next
  case (startup s st)
  then show ?case by (simp add: index_s3_files_consistent)
next
  case (action s st req k act r s' st')
  from admin_action_consistent [OF this(3) this(2)] show ?case .
next
  case (deleted s st req k r s' st')
  from admin_delete_consistent [OF this(3) this(2)] show ?case .
next
  case (edited s st req old_key new_name r s' st')
  from admin_edit_consistent [OF this(3) this(2)] show ?case .
next
  case (uploaded s st req upl name r s' st')
  from admin_upload_consistent [OF this(3) this(2)] show ?case .
next
  case (mobile_uploaded s st now upl name r s' st')
  from mobile_upload_consistent [OF this(3) this(2)] show ?case .
qed

text \<open>The service holds index entries only while the store is marked available.\<close>

lemma reachable_pending_available:
  "reachable cl e (s, st) \<Longrightarrow> pending_index st \<noteq> [] \<Longrightarrow> S3_AVAILABLE st"
  using reachable_consistent [of cl e s st] by (auto simp: consistent_def)

lemma reachable_approved_available:
  "reachable cl e (s, st) \<Longrightarrow> video_index st \<noteq> [] \<Longrightarrow> S3_AVAILABLE st"
  using reachable_consistent [of cl e s st] by (auto simp: consistent_def)

lemma index_s3_files_cases:
  assumes "S3_AVAILABLE st"
  shows "(index_pages e (list_objects_v2 cl s) ([], []) = Inr (v, p) \<longrightarrow>
            index_s3_files cl e s st = st\<lparr>video_index := v, pending_index := p\<rparr>
            \<and> indexed (listed_keys (list_objects_v2 cl s)) (v, p))
       \<and> (isl (index_pages e (list_objects_v2 cl s) ([], [])) \<longrightarrow>
            index_s3_files cl e s st = st)"
  using assms index_pages_fresh [of e "list_objects_v2 cl s" v p]
  by (auto simp: index_s3_files_def split: sum.splits)

lemma live_reachable: "reachable memory_client test_env (example_store, live_state)"
  unfolding live_state_def by (rule reachable.startup) (rule reachable.loaded)

lemma outage_reachable: "reachable outage_client test_env ((down, example_store), outage_state)"
  unfolding outage_state_def
  by (rule reachable.store_changed, rule reachable.startup) (rule reachable.loaded)

section \<open>Moderation\<close>

text \<open>
  Claim C3, as stated, fails when a call to the store raises. With the listing timing out,
  an authenticated request to reject the pending key \<open>pending/thank_you.mp4\<close> deletes the
  object and is answered with the redirect to \<open>/admin\<close>, and both indices stay as they were:
  the pending index still holds the key. With the copy timing out, an authenticated request
  to approve the same key is answered with an error redirect, and the store is as before:
  nothing copied and the key not deleted. Both states are ones the service goes through:
  it has indexed the example store, and the outage began afterwards.
\<close>

theorem admin_action_outage_counterexample:
  "reachable outage_client test_env (([py ''list_objects_v2''], example_store), outage_state)
   \<and> reachable outage_client test_env (([py ''copy_object''], example_store), outage_state)
   \<and> check_auth admin_request
   \<and> map fst (pending_index outage_state) = [py ''pending/thank_you.mp4'']
   \<and> map fst (video_index outage_state) = [py ''hello'', py ''a'']
   \<and> admin_action outage_client test_env admin_request (py ''pending/thank_you.mp4'')
        (py ''reject'') ([py ''list_objects_v2''], example_store) outage_state
       = (RedirectResponse (py ''/admin'') 303,
          ([py ''list_objects_v2''],
           [(py ''hello.mp4'', py ''v1''), (py ''a.mp4'', py ''v2''), (py ''notes.txt'', py ''n'')]),
          outage_state)
   \<and> admin_action outage_client test_env admin_request (py ''pending/thank_you.mp4'')
        (py ''approve'') ([py ''copy_object''], example_store) outage_state
       = (RedirectResponse (py ''/admin?error=timed out'') 303,
          ([py ''copy_object''], example_store), outage_state)
   \<and> map_of example_store (py ''pending/thank_you.mp4'') = Some (py ''v3'')
   \<and> map_of example_store (py ''thank_you.mp4'') = None"
proof -
  have "check_auth admin_request" by code_simp
  moreover have "map fst (pending_index outage_state) = [py ''pending/thank_you.mp4'']"
    by code_simp
  moreover have "map fst (video_index outage_state) = [py ''hello'', py ''a'']"
    by code_simp
  moreover have
    "admin_action outage_client test_env admin_request (py ''pending/thank_you.mp4'')
        (py ''reject'') ([py ''list_objects_v2''], example_store) outage_state
       = (RedirectResponse (py ''/admin'') 303,
          ([py ''list_objects_v2''],
           [(py ''hello.mp4'', py ''v1''), (py ''a.mp4'', py ''v2''), (py ''notes.txt'', py ''n'')]),
          outage_state)"
    by code_simp
  moreover have
    "admin_action outage_client test_env admin_request (py ''pending/thank_you.mp4'')
        (py ''approve'') ([py ''copy_object''], example_store) outage_state
       = (RedirectResponse (py ''/admin?error=timed out'') 303,
          ([py ''copy_object''], example_store), outage_state)"
    by code_simp
  moreover have "map_of example_store (py ''pending/thank_you.mp4'') = Some (py ''v3'')"
    by code_simp
  moreover have "map_of example_store (py ''thank_you.mp4'') = None"
    by code_simp
  ultimately show ?thesis using outage_reachable by blast
qed

text \<open>
  Claim C3, amended. For an authenticated moderation request on a key \<open>k\<close> of the pending
  index, in any state the service goes through, the handler does exactly this.
  On \<open>approve\<close> it copies \<open>k\<close> to its last \<open>/\<close>-separated segment; if the copy raises, the
  answer is an error redirect and the store and both indices are as before; otherwise it
  deletes \<open>k\<close>, and if that raises, the answer is an error redirect, the store holds the copy
  and both indices are as before. On \<open>reject\<close> it only deletes \<open>k\<close>, and if that raises, the
  answer is an error redirect and the store and both indices are as before. When the store
  calls of the action went through, the answer is the redirect to \<open>/admin\<close> and the index
  refresh has run on the resulting store: if listing and indexing it went through, both
  indices are replaced by those built from the listing, and if it raised, both indices are
  as before.
\<close>

theorem admin_action_moderation:
  assumes "reachable cl e (s, st)" and "check_auth req"
    and "k \<in> fst ` set (pending_index st)"
  shows "(copy_object cl k (last (split 0x2F k)) s = Inl xc \<longrightarrow>
            admin_action cl e req k (py ''approve'') s st
              = (RedirectResponse (py ''/admin?error='' @ str_exn xc) 303, s, st))
       \<and> (copy_object cl k (last (split 0x2F k)) s = Inr s1 \<longrightarrow>
          delete_object cl k s1 = Inl xd \<longrightarrow>
            admin_action cl e req k (py ''approve'') s st
              = (RedirectResponse (py ''/admin?error='' @ str_exn xd) 303, s1, st))
       \<and> (copy_object cl k (last (split 0x2F k)) s = Inr s1 \<longrightarrow>
          delete_object cl k s1 = Inr s2 \<longrightarrow>
            admin_action cl e req k (py ''approve'') s st
              = (RedirectResponse (py ''/admin'') 303, s2, index_s3_files cl e s2 st))
       \<and> (delete_object cl k s = Inl xr \<longrightarrow>
            admin_action cl e req k (py ''reject'') s st
              = (RedirectResponse (py ''/admin?error='' @ str_exn xr) 303, s, st))
       \<and> (delete_object cl k s = Inr s3 \<longrightarrow>
            admin_action cl e req k (py ''reject'') s st
              = (RedirectResponse (py ''/admin'') 303, s3, index_s3_files cl e s3 st))
       \<and> (index_pages e (list_objects_v2 cl s') ([], []) = Inr (v, p) \<longrightarrow>
            index_s3_files cl e s' st = st\<lparr>video_index := v, pending_index := p\<rparr>
            \<and> indexed (listed_keys (list_objects_v2 cl s')) (v, p))
       \<and> (isl (index_pages e (list_objects_v2 cl s') ([], [])) \<longrightarrow>
            index_s3_files cl e s' st = st)"
proof -
  have "pending_index st \<noteq> []" using assms(3) by auto
  then have a: "S3_AVAILABLE st" using assms(1) by (rule reachable_pending_available [rotated])
  have ne: "py ''reject'' \<noteq> py ''approve''" by simp
  show ?thesis
    using assms(2) a ne index_s3_files_cases [OF a, of e cl s' v p]
    by (simp add: admin_action_def)
qed

text \<open>Claim C3, amended, on the example store after it was indexed: approving
  \<open>pending/thank_you.mp4\<close> leaves the object under \<open>thank_you.mp4\<close> only, the approved index
  gains \<open>thank you\<close> and the pending index is empty.\<close>

theorem admin_action_moderation_witness:
  "reachable memory_client test_env (example_store, live_state)
   \<and> check_auth admin_request
   \<and> py ''pending/thank_you.mp4'' \<in> fst ` set (pending_index live_state)
   \<and> copy_object memory_client (py ''pending/thank_you.mp4'')
        (last (split 0x2F (py ''pending/thank_you.mp4''))) example_store
       = Inr (example_store @ [(py ''thank_you.mp4'', py ''v3'')])
   \<and> delete_object memory_client (py ''pending/thank_you.mp4'')
        (example_store @ [(py ''thank_you.mp4'', py ''v3'')])
       = Inr approved_store
   \<and> admin_action memory_client test_env admin_request (py ''pending/thank_you.mp4'')
        (py ''approve'') example_store live_state
       = (RedirectResponse (py ''/admin'') 303, approved_store,
          index_s3_files memory_client test_env approved_store live_state)
   \<and> map fst (video_index (index_s3_files memory_client test_env approved_store live_state))
       = [py ''hello'', py ''a'', py ''thank you'']
   \<and> pending_index (index_s3_files memory_client test_env approved_store live_state) = []"
proof -
  have h1: "check_auth admin_request" by code_simp
  have h2: "py ''pending/thank_you.mp4'' \<in> fst ` set (pending_index live_state)"
    by code_simp
  have c: "copy_object memory_client (py ''pending/thank_you.mp4'')
        (last (split 0x2F (py ''pending/thank_you.mp4''))) example_store
       = Inr (example_store @ [(py ''thank_you.mp4'', py ''v3'')])" by code_simp
  have d: "delete_object memory_client (py ''pending/thank_you.mp4'')
        (example_store @ [(py ''thank_you.mp4'', py ''v3'')])
       = Inr approved_store" by code_simp
  have i: "map fst (video_index
                      (index_s3_files memory_client test_env approved_store live_state))
       = [py ''hello'', py ''a'', py ''thank you'']" by code_simp
  have j: "pending_index (index_s3_files memory_client test_env approved_store live_state) = []"
    by code_simp
  from admin_action_moderation [OF live_reachable h1 h2,
      where ?s1.0 = "example_store @ [(py ''thank_you.mp4'', py ''v3'')]"
        and ?s2.0 = approved_store]
    live_reachable h1 h2 c d i j
  show ?thesis by simp
qed

section \<open>Duplicate upload names\<close>

lemma check_duplicate_Some:
  assumes "filed (pending_index st)" and "duplicate_name st name"
  shows "\<exists>err. check_duplicate st name = Some err"
proof -
  let ?b = "replace (py '' '') (py ''_'') (lower (strip name))"
  from assms(2) consider
    (approved) "replace (py ''_'') (py '' '') ?b \<in> fst ` set (video_index st)"
    | (pending) pk pe where "(pk, pe) \<in> set (pending_index st)"
        "p_filename pe = ?b @ py ''.mp4'' \<or> endswith pk (py ''/'' @ ?b @ py ''.mp4'')"
    by (auto simp: duplicate_name_def Let_def)
  then show ?thesis
  proof cases
    case approved
    then have "map_of (video_index st) (replace (py ''_'') (py '' '') ?b) \<noteq> None"
      by (simp add: map_of_eq_None_iff)
    then show ?thesis by (simp add: check_duplicate_def Let_def)
  next
    case pending
    have "endswith pk (py ''/'' @ p_filename pe)"
      using assms(1) pending(1) by (auto simp: filed_def)
    with pending(2) have "endswith pk (py ''/'' @ ?b @ py ''.mp4'')" by auto
    moreover have "pk \<in> set (map fst (pending_index st))"
      using pending(1) by force
    ultimately have
      "List.find (\<lambda>pk. endswith pk (py ''/'' @ ?b @ py ''.mp4'')) (map fst (pending_index st))
         \<noteq> None"
      unfolding find_None_conv by blast
    then show ?thesis
      by (auto simp: check_duplicate_def Let_def split: option.splits)
  qed
qed

lemma duplicate_indexed:
  "duplicate_name st name \<Longrightarrow> video_index st \<noteq> [] \<or> pending_index st \<noteq> []"
  by (auto simp: duplicate_name_def Let_def)

text \<open>
  Claim C8. In any state the service goes through, for an upload name whose normalised form
  (stripped, lowercased, spaces to underscores) either is, with underscores read as spaces,
  a word of the approved index, or yields a file name that is already there under some key
  of the pending index, \<open>mobile_upload\<close> fails with status 400, with the message of
  \<open>check_duplicate\<close>, and the object store and both indices stay as they were.
\<close>

theorem mobile_upload_duplicate:
  assumes "reachable cl e (s, st)" and "duplicate_name st name"
  shows "\<exists>err. check_duplicate st name = Some err
           \<and> mobile_upload cl e now file name s st = (HTTPException 400 err, s, st)"
proof -
  have c: "consistent st" using assms(1) by (rule reachable_consistent)
  then have "filed (pending_index st)" by (simp add: consistent_def)
  from check_duplicate_Some [OF this assms(2)] obtain err where
    err: "check_duplicate st name = Some err" by blast
  have "S3_AVAILABLE st" using c duplicate_indexed [OF assms(2)] by (auto simp: consistent_def)
  with err show ?thesis by (simp add: mobile_upload_def)
qed

text \<open>Claim C8, on the example store after it was indexed. The name \<open>HELLO\<close> followed by
  a no-break space duplicates the approved word \<open>hello\<close>, and the name \<open>Thank You\<close>
  the pending file \<open>thank_you.mp4\<close>.\<close>

theorem mobile_upload_duplicate_witness:
  "reachable memory_client test_env (example_store, live_state)
   \<and> duplicate_name live_state (py ''HELLO'' @ [0xA0])
   \<and> duplicate_name live_state (py ''Thank You'')
   \<and> mobile_upload memory_client test_env 0 example_upload (py ''HELLO'' @ [0xA0])
        example_store live_state
       = (HTTPException 400 (py ''Video '' @ [0x27] @ py ''hello'' @ [0x27]
                              @ py '' already exists in Approved.''),
          example_store, live_state)
   \<and> mobile_upload memory_client test_env 0 example_upload (py ''Thank You'')
        example_store live_state
       = (HTTPException 400 (py ''Video '' @ [0x27] @ py ''thank you'' @ [0x27]
                              @ py '' is already in Pending.''),
          example_store, live_state)"
proof -
  have h1: "duplicate_name live_state (py ''HELLO'' @ [0xA0])" by code_simp
  have h2: "duplicate_name live_state (py ''Thank You'')" by code_simp
  have e1: "check_duplicate live_state (py ''HELLO'' @ [0xA0])
              = Some (py ''Video '' @ [0x27] @ py ''hello'' @ [0x27]
                      @ py '' already exists in Approved.'')" by code_simp
  have e2: "check_duplicate live_state (py ''Thank You'')
              = Some (py ''Video '' @ [0x27] @ py ''thank you'' @ [0x27]
                      @ py '' is already in Pending.'')" by code_simp
  from mobile_upload_duplicate [OF live_reachable h1, of 0 example_upload]
       mobile_upload_duplicate [OF live_reachable h2, of 0 example_upload]
       live_reachable h1 h2 e1 e2
  show ?thesis by simp
qed

section \<open>Connecting to the document store\<close>

lemma upt_1_4: "[Suc 0..<4] = [Suc 0, 2, 3]"
  by (simp add: upt_rec)

text \<open>
  Claim C7. \<open>connect_mongo\<close> is a fixed-count retry loop: with a collection already held it
  returns \<open>True\<close> at once and attempts nothing; otherwise it returns \<open>True\<close> right after the
  first attempt that connects, waits 3 seconds after a failed first or second attempt and
  not after a failed third, returns \<open>False\<close> after the third failure, and never makes more
  than 3 attempts.
\<close>

theorem connect_mongo_retries:
  "connect_mongo ping True = (True, True, [])
   \<and> (ping 1 = Connected \<longrightarrow> connect_mongo ping False = (True, True, [Attempt 1]))
   \<and> (ping 1 \<noteq> Connected \<and> ping 2 = Connected \<longrightarrow>
        connect_mongo ping False = (True, True, [Attempt 1, Wait 3, Attempt 2]))
   \<and> (ping 1 \<noteq> Connected \<and> ping 2 \<noteq> Connected \<and> ping 3 = Connected \<longrightarrow>
        connect_mongo ping False
          = (True, True, [Attempt 1, Wait 3, Attempt 2, Wait 3, Attempt 3]))
   \<and> (ping 1 \<noteq> Connected \<and> ping 2 \<noteq> Connected \<and> ping 3 \<noteq> Connected \<longrightarrow>
        connect_mongo ping False
          = (False, False, [Attempt 1, Wait 3, Attempt 2, Wait 3, Attempt 3]))
   \<and> attempts_made (snd (snd (connect_mongo ping held))) \<le> 3"
  by (cases "ping 1"; cases "ping 2"; cases "ping 3")
     (simp_all add: connect_mongo_def upt_1_4 attempts_made_def)

text \<open>Claim C7, on a connection whose first two attempts time out and whose third connects.\<close>

theorem connect_mongo_retries_witness:
  "flaky_connection 1 \<noteq> Connected \<and> flaky_connection 2 \<noteq> Connected
   \<and> flaky_connection 3 = Connected
   \<and> connect_mongo flaky_connection False
       = (True, True, [Attempt 1, Wait 3, Attempt 2, Wait 3, Attempt 3])"
proof -
  have h: "flaky_connection 1 \<noteq> Connected" "flaky_connection 2 \<noteq> Connected"
          "flaky_connection 3 = Connected"
    by (simp_all add: flaky_connection_def)
  from connect_mongo_retries [of flaky_connection] h show ?thesis by simp
qed

section \<open>Records written by the scripts\<close>

lemma matches_key:
  "matches [(f, w), (g, l)] d = (map_of d f = Some w \<and> map_of d g = Some l)"
  by (simp add: matches_def)

lemma filter_replace_first:
  assumes "\<And>x. P x \<Longrightarrow> Q x = Q d"
  shows "length (filter Q (replace_first P d xs)) = length (filter Q xs)"
  using assms by (induction xs) auto

lemma set_replace_first: "set (replace_first P d xs) \<subseteq> insert d (set xs)"
  by (induction xs) auto

lemma apply_keyed_unique:
  assumes "keyed_op op" and "unique_word_language recs"
  shows "unique_word_language (apply_op op recs)"
proof -
  from assms(1) obtain flt d w l where op: "op = ReplaceOne flt d True"
    and flt: "flt = [(py ''word'', w), (py ''language'', l)]"
    and d: "map_of d (py ''word'') = Some w" "map_of d (py ''language'') = Some l"
    by (auto simp: keyed_op_def split: write_op.splits)
  show ?thesis unfolding unique_word_language_def
  proof (intro allI)
    fix w' l'
    let ?Q = "matches [(py ''word'', w'), (py ''language'', l')]"
    have same: "\<And>x. matches flt x \<Longrightarrow> ?Q x = ?Q d"
      using d by (auto simp: flt matches_key)
    have old: "length (filter ?Q recs) \<le> 1"
      using assms(2) by (simp add: unique_word_language_def)
    show "length (filter ?Q (apply_op op recs)) \<le> 1"
    proof (cases "list_ex (matches flt) recs")
      case True
      then show ?thesis using old same by (simp add: op filter_replace_first)
    next
      case False
      then have none: "\<forall>x \<in> set recs. \<not> matches flt x" by (simp add: list_ex_iff)
      show ?thesis
      proof (cases "?Q d")
        case True
        then have "w' = w" "l' = l" using d by (auto simp: matches_key)
        then have "filter ?Q recs = []" using none by (auto simp: flt filter_empty_conv)
        then show ?thesis using False by (simp add: op)
      next
        case nq: False
        then show ?thesis using False old by (simp add: op)
      qed
    qed
  qed
qed

lemma apply_keyed_set:
  assumes "keyed_op op" and "d \<in> set (apply_op op recs)"
  shows "d \<in> set recs \<or> pushed_doc d"
proof -
  from assms(1) obtain flt d' where op: "op = ReplaceOne flt d' True" and d': "pushed_doc d'"
    by (auto simp: keyed_op_def split: write_op.splits)
  from assms(2) have "d \<in> insert d' (set recs)"
    using set_replace_first [of "matches flt" d' recs] by (auto simp: op split: if_splits)
  then show ?thesis using d' by auto
qed

lemma fold_keyed_unique:
  "list_all keyed_op ops \<Longrightarrow> unique_word_language recs
   \<Longrightarrow> unique_word_language (fold apply_op ops recs)"
  by (induction ops arbitrary: recs) (auto simp: apply_keyed_unique)

lemma fold_keyed_set:
  "list_all keyed_op ops \<Longrightarrow> d \<in> set (fold apply_op ops recs)
   \<Longrightarrow> d \<in> set recs \<or> pushed_doc d"
proof (induction ops arbitrary: recs)
  case Nil
  then show ?case by simp
next
  case (Cons op ops)
  then have "d \<in> set (apply_op op recs) \<or> pushed_doc d" by simp
  then show ?case using Cons.prems(1) apply_keyed_set [of op d recs] by auto
qed

lemma list_all_take: "list_all P xs \<Longrightarrow> list_all P (take n xs)"
  by (auto simp: list_all_iff dest: in_set_takeD)

lemma push_doc_pushed: "pushed_doc (push_doc cfg w language u pr)"
  by (simp add: pushed_doc_def push_doc_def typed_by_word_def clip_type_def)

lemma push_files_keyed:
  "push_files cfg cl mongo_ok coll fs ps = (r, ps') \<Longrightarrow> list_all keyed_op (mongo_ops ps)
   \<Longrightarrow> list_all keyed_op (mongo_ops ps')"
proof (induction fs arbitrary: ps)
  case Nil
  then show ?case by simp
next
  case (Cons f fs)
  have k: "\<And>w language u pr. keyed_op (ReplaceOne [(py ''word'', Str w), (py ''language'', Str language)]
                 (push_doc cfg w language u pr) True)"
    by (simp add: keyed_op_def push_doc_pushed) (simp add: push_doc_def)
  from Cons.prems show ?case
    by (auto simp: Let_def k [simplified] split: sum.splits option.splits prod.splits if_splits
             intro!: Cons.IH)
qed

lemma push_dataset_collection:
  "final_collection (push_dataset cfg cl ping held applied is_dir files s coll) = coll
   \<or> (\<exists>ops. list_all keyed_op ops
          \<and> final_collection (push_dataset cfg cl ping held applied is_dir files s coll)
              = fold apply_op ops coll)"
proof -
  obtain r ps where run:
    "push_files cfg cl (fst (connect_mongo ping held)) coll files
       \<lparr>store = s, mongo_ops = [], total_uploaded = 0, total_skipped = 0\<rparr> = (r, ps)"
    by (cases "push_files cfg cl (fst (connect_mongo ping held)) coll files
       \<lparr>store = s, mongo_ops = [], total_uploaded = 0, total_skipped = 0\<rparr>") auto
  have "list_all keyed_op (mongo_ops ps)"
    using push_files_keyed [OF run] by simp
  then have "list_all keyed_op (take applied (mongo_ops ps))" by (rule list_all_take)
  then show ?thesis using run
    by (auto simp: push_dataset_def Let_def bulk_write_def split: option.splits)
qed

lemma insert_or_replace_unique:
  assumes "unique_word_language tbl"
  shows "unique_word_language (insert_or_replace row tbl)"
  unfolding unique_word_language_def
proof (intro allI)
  fix w l
  let ?Q = "matches [(py ''word'', w), (py ''language'', l)]"
  let ?keep = "\<lambda>r. \<not> (map_of r (py ''word'') = map_of row (py ''word'')
                    \<and> map_of r (py ''language'') = map_of row (py ''language''))"
  have old: "length (filter ?Q tbl) \<le> 1"
    using assms by (simp add: unique_word_language_def)
  show "length (filter ?Q (insert_or_replace row tbl)) \<le> 1"
  proof (cases "?Q row")
    case True
    then have "filter ?Q (filter ?keep tbl) = []"
      by (auto simp: filter_empty_conv matches_key)
    then show ?thesis using True by (simp add: insert_or_replace_def)
  next
    case False
    have "length (filter ?Q (filter ?keep tbl)) \<le> length (filter ?Q tbl)"
      by (induction tbl) auto
    then show ?thesis using False old by (simp add: insert_or_replace_def)
  qed
qed

lemma insert_or_replace_set: "set (insert_or_replace row tbl) \<subseteq> insert row (set tbl)"
  by (auto simp: insert_or_replace_def)

lemma populate_row_populated: "populated_row (populate_row language filename clip now)"
  by (simp add: populated_row_def populate_row_def Let_def typed_by_word_def clip_type_def)

lemma populate_files_unique:
  "populate_files execute probe_clip now language video_dir names tbl = Inr tbl'
   \<Longrightarrow> unique_word_language tbl \<Longrightarrow> unique_word_language tbl'"
  by (induction names arbitrary: tbl)
     (auto simp: insert_or_replace_unique split: if_splits sql_outcome.splits)

lemma populate_files_set:
  "populate_files execute probe_clip now language video_dir names tbl = Inr tbl'
   \<Longrightarrow> r \<in> set tbl' \<Longrightarrow> r \<in> set tbl \<or> populated_row r"
proof (induction names arbitrary: tbl)
  case Nil
  then show ?case by simp
next
  case (Cons filename names)
  let ?row = "populate_row language filename (probe_clip video_dir filename) now"
  show ?case
  proof (cases "endswith filename (py ''.mp4'') \<and> execute ?row = Executed")
    case True
    with Cons.prems have
      "populate_files execute probe_clip now language video_dir names
         (insert_or_replace ?row tbl) = Inr tbl'"
      by simp
    from Cons.IH [OF this Cons.prems(2)]
    show ?thesis using insert_or_replace_set populate_row_populated by blast
  next
    case False
    with Cons.prems have
      "populate_files execute probe_clip now language video_dir names tbl = Inr tbl'"
      by (auto split: if_splits sql_outcome.splits)
    from Cons.IH [OF this Cons.prems(2)] show ?thesis .
  qed
qed

lemma populate_dirs_unique:
  "populate_dirs listdir execute probe_clip now dirs tbl = Inr tbl'
   \<Longrightarrow> unique_word_language tbl \<Longrightarrow> unique_word_language tbl'"
  by (induction listdir execute probe_clip now dirs tbl rule: populate_dirs.induct)
     (auto split: dir_state.splits sum.splits dest: populate_files_unique)

lemma populate_dirs_set:
  "populate_dirs listdir execute probe_clip now dirs tbl = Inr tbl'
   \<Longrightarrow> r \<in> set tbl' \<Longrightarrow> r \<in> set tbl \<or> populated_row r"
  by (induction listdir execute probe_clip now dirs tbl rule: populate_dirs.induct)
     (auto split: dir_state.splits sum.splits dest: populate_files_set)

lemma populate_database_unique:
  "unique_word_language tbl
   \<Longrightarrow> unique_word_language
         (snd (populate_database listdir execute probe_clip now video_dirs languages tbl))"
  by (auto simp: populate_database_def split: sum.splits dest: populate_dirs_unique)

lemma populate_database_set:
  "r \<in> set (snd (populate_database listdir execute probe_clip now video_dirs languages tbl))
   \<Longrightarrow> r \<in> set tbl \<or> populated_row r"
  by (auto simp: populate_database_def split: sum.splits if_splits dest: populate_dirs_set)

text \<open>
  Claim C5. The push and the populate operations preserve the invariant that word and
  language together identify a record: if the document collection holds at most one document
  per (word, language) pair before \<open>push_dataset\<close>, it does so after the bulk write, however
  many of the queued operations were carried out; and if the relational table holds at most
  one row per pair before \<open>populate_database\<close>, it does so after, each insert replacing the
  row of the same pair.
\<close>

theorem word_language_unique_preserved:
  "(unique_word_language coll \<longrightarrow>
      unique_word_language
        (final_collection (push_dataset cfg cl ping held applied is_dir files s coll)))
   \<and> (unique_word_language tbl \<longrightarrow>
      unique_word_language
        (snd (populate_database listdir execute probe_clip now video_dirs languages tbl)))"
  using push_dataset_collection [of cfg cl ping held applied is_dir files s coll]
  by (auto simp: fold_keyed_unique populate_database_unique)

text \<open>Claim C5, on the example files, two of which are \<open>hello\<close> in \<open>PSL\<close>, and on a table
  that already has a row for \<open>hello\<close> in \<open>PSL\<close>: one document and one row per pair remain.\<close>

theorem word_language_unique_preserved_witness:
  "unique_word_language []
   \<and> unique_word_language
       (final_collection (push_dataset example_config memory_client always_connected False 10
                            True example_files [] []))
   \<and> final_collection (push_dataset example_config memory_client always_connected False 10
                            True example_files [] [])
       = [[(py ''word'', Str (py ''hello'')), (py ''language'', Str (py ''PSL'')),
           (py ''file_path'', Str (py ''https://echosignuobs.s3.amazonaws.com/PSL/hello.mp4'')),
           (py ''type'', Str (py ''word'')), (py ''duration'', NoneVal), (py ''resolution'', NoneVal)],
          [(py ''word'', Str (py ''a'')), (py ''language'', Str (py ''PSL'')),
           (py ''file_path'', Str (py ''https://echosignuobs.s3.amazonaws.com/PSL/a.mp4'')),
           (py ''type'', Str (py ''letter'')), (py ''duration'', NoneVal), (py ''resolution'', NoneVal)]]
   \<and> unique_word_language [populate_row (py ''PSL'') (py ''hello.mp4'') None (py ''t0'')]
   \<and> unique_word_language
       (snd (populate_database example_listdir always_executed no_clip (py ''t1'') [py ''videos'']
          [py ''PSL'', py ''GSL'', py ''ASL''] [populate_row (py ''PSL'') (py ''hello.mp4'') None (py ''t0'')]))
   \<and> snd (populate_database example_listdir always_executed no_clip (py ''t1'') [py ''videos'']
          [py ''PSL'', py ''GSL'', py ''ASL''] [populate_row (py ''PSL'') (py ''hello.mp4'') None (py ''t0'')])
       = [[(py ''word'', Str (py ''hello'')), (py ''language'', Str (py ''PSL'')),
           (py ''file_path'', Str (py ''/videos/PSL/Hello.mp4'')), (py ''type'', Str (py ''word'')),
           (py ''duration'', NoneVal), (py ''resolution'', NoneVal), (py ''updated_at'', Str (py ''t1''))],
          [(py ''word'', Str (py ''_a'')), (py ''language'', Str (py ''PSL'')),
           (py ''file_path'', Str (py ''/videos/PSL/_a.mp4'')), (py ''type'', Str (py ''word'')),
           (py ''duration'', NoneVal), (py ''resolution'', NoneVal), (py ''updated_at'', Str (py ''t1''))]]"
proof -
  have h1: "unique_word_language []" by (simp add: unique_word_language_def)
  have h2: "unique_word_language [populate_row (py ''PSL'') (py ''hello.mp4'') None (py ''t0'')]"
    by (simp add: unique_word_language_def)
  have c: "final_collection (push_dataset example_config memory_client always_connected False 10
                            True example_files [] [])
       = [[(py ''word'', Str (py ''hello'')), (py ''language'', Str (py ''PSL'')),
           (py ''file_path'', Str (py ''https://echosignuobs.s3.amazonaws.com/PSL/hello.mp4'')),
           (py ''type'', Str (py ''word'')), (py ''duration'', NoneVal), (py ''resolution'', NoneVal)],
          [(py ''word'', Str (py ''a'')), (py ''language'', Str (py ''PSL'')),
           (py ''file_path'', Str (py ''https://echosignuobs.s3.amazonaws.com/PSL/a.mp4'')),
           (py ''type'', Str (py ''letter'')), (py ''duration'', NoneVal), (py ''resolution'', NoneVal)]]"
    by code_simp
  have t: "snd (populate_database example_listdir always_executed no_clip (py ''t1'') [py ''videos'']
          [py ''PSL'', py ''GSL'', py ''ASL''] [populate_row (py ''PSL'') (py ''hello.mp4'') None (py ''t0'')])
       = [[(py ''word'', Str (py ''hello'')), (py ''language'', Str (py ''PSL'')),
           (py ''file_path'', Str (py ''/videos/PSL/Hello.mp4'')), (py ''type'', Str (py ''word'')),
           (py ''duration'', NoneVal), (py ''resolution'', NoneVal), (py ''updated_at'', Str (py ''t1''))],
          [(py ''word'', Str (py ''_a'')), (py ''language'', Str (py ''PSL'')),
           (py ''file_path'', Str (py ''/videos/PSL/_a.mp4'')), (py ''type'', Str (py ''word'')),
           (py ''duration'', NoneVal), (py ''resolution'', NoneVal), (py ''updated_at'', Str (py ''t1''))]]"
    by code_simp
  from word_language_unique_preserved
         [where coll = "[]" and cfg = example_config and cl = memory_client
            and ping = always_connected and held = False and applied = 10 and is_dir = True
            and files = example_files and s = "[]"
            and tbl = "[populate_row (py ''PSL'') (py ''hello.mp4'') None (py ''t0'')]"
            and listdir = example_listdir and execute = always_executed
            and probe_clip = no_clip and now = "(py ''t1'')"
            and video_dirs = "[py ''videos'']" and languages = "[py ''PSL'', py ''GSL'', py ''ASL'']"]
    h1 h2 c t
  show ?thesis by simp
qed

text \<open>
  Claim C6, as stated, fails on the documents of the push script: pushing the example files
  into an empty collection writes two documents of six fields each, none of them an update
  timestamp.
\<close>

theorem pushed_document_fields_counterexample:
  "final_collection (push_dataset example_config memory_client always_connected False 10
                            True example_files [] [])
     = [[(py ''word'', Str (py ''hello'')), (py ''language'', Str (py ''PSL'')),
           (py ''file_path'', Str (py ''https://echosignuobs.s3.amazonaws.com/PSL/hello.mp4'')),
           (py ''type'', Str (py ''word'')), (py ''duration'', NoneVal), (py ''resolution'', NoneVal)],
          [(py ''word'', Str (py ''a'')), (py ''language'', Str (py ''PSL'')),
           (py ''file_path'', Str (py ''https://echosignuobs.s3.amazonaws.com/PSL/a.mp4'')),
           (py ''type'', Str (py ''letter'')), (py ''duration'', NoneVal), (py ''resolution'', NoneVal)]]"
  by code_simp

text \<open>
  Claim C6, amended. Every row \<open>populate_database\<close> writes to the relational table has the
  seven columns word, language, file path, type, duration, resolution and update timestamp;
  every document \<open>push_dataset\<close> writes to the document collection has the six fields word,
  language, file path, type, duration and resolution.
\<close>

theorem record_fields:
  "(\<forall>r \<in> set (snd (populate_database listdir execute probe_clip now video_dirs
                       languages tbl)).
      r \<in> set tbl \<or>
      map fst r = [py ''word'', py ''language'', py ''file_path'', py ''type'', py ''duration'',
                   (py ''resolution''), py ''updated_at''])
   \<and> (\<forall>d \<in> set (final_collection (push_dataset cfg cl ping held applied is_dir files s coll)).
      d \<in> set coll \<or>
      map fst d = [py ''word'', py ''language'', py ''file_path'', py ''type'', py ''duration'',
                   (py ''resolution'')])"
proof (intro conjI ballI)
  fix r
  assume "r \<in> set (snd (populate_database listdir execute probe_clip now video_dirs
                          languages tbl))"
  then have "r \<in> set tbl \<or> populated_row r"
    by (rule populate_database_set)
  then show "r \<in> set tbl \<or>
      map fst r = [py ''word'', py ''language'', py ''file_path'', py ''type'', py ''duration'',
                   (py ''resolution''), py ''updated_at'']"
    by (auto simp: populated_row_def)
next
  fix d
  assume "d \<in> set (final_collection (push_dataset cfg cl ping held applied is_dir files s coll))"
  then have "d \<in> set coll \<or> pushed_doc d"
    using push_dataset_collection [of cfg cl ping held applied is_dir files s coll]
    by (auto dest: fold_keyed_set)
  then show "d \<in> set coll \<or>
      map fst d = [py ''word'', py ''language'', py ''file_path'', py ''type'', py ''duration'',
                   (py ''resolution'')]"
    by (auto simp: pushed_doc_def)
qed

text \<open>Claim C6, amended, on the row for \<open>Hello.mp4\<close> of the example directory and on the
  document for \<open>a.mp4\<close> of the example files.\<close>

theorem record_fields_witness:
  "populate_row (py ''PSL'') (py ''Hello.mp4'') None (py ''t1'')
     \<in> set (snd (populate_database example_listdir always_executed no_clip (py ''t1'') [py ''videos'']
          [py ''PSL'', py ''GSL'', py ''ASL''] []))
   \<and> map fst (populate_row (py ''PSL'') (py ''Hello.mp4'') None (py ''t1''))
       = [py ''word'', py ''language'', py ''file_path'', py ''type'', py ''duration'', py ''resolution'',
          (py ''updated_at'')]
   \<and> push_doc example_config (py ''a'') (py ''PSL'')
         (py ''https://echosignuobs.s3.amazonaws.com/PSL/a.mp4'') NotOpened
     \<in> set (final_collection (push_dataset example_config memory_client always_connected False 10
                            True example_files [] []))
   \<and> map fst (push_doc example_config (py ''a'') (py ''PSL'')
                 (py ''https://echosignuobs.s3.amazonaws.com/PSL/a.mp4'') NotOpened)
       = [py ''word'', py ''language'', py ''file_path'', py ''type'', py ''duration'', py ''resolution'']"
proof -
  have r: "populate_row (py ''PSL'') (py ''Hello.mp4'') None (py ''t1'')
     \<in> set (snd (populate_database example_listdir always_executed no_clip (py ''t1'') [py ''videos'']
          [py ''PSL'', py ''GSL'', py ''ASL''] []))"
    by code_simp
  have d: "push_doc example_config (py ''a'') (py ''PSL'')
         (py ''https://echosignuobs.s3.amazonaws.com/PSL/a.mp4'') NotOpened
     \<in> set (final_collection (push_dataset example_config memory_client always_connected False 10
                            True example_files [] []))"
    by code_simp
  from record_fields
         [where tbl = "[]" and listdir = example_listdir and execute = always_executed
            and probe_clip = no_clip
            and now = "(py ''t1'')" and video_dirs = "[py ''videos'']"
            and languages = "[py ''PSL'', py ''GSL'', py ''ASL'']"
            and coll = "[]" and cfg = example_config and cl = memory_client
            and ping = always_connected and held = False and applied = 10 and is_dir = True
            and files = example_files and s = "[]"]
    r d
  show ?thesis by auto
qed

lemma typed_by_word_iff:
  "typed_by_word d = (\<exists>w. map_of d (py ''word'') = Some (Str w)
                          \<and> map_of d (py ''type'') = Some (Str (clip_type w)))"
  by (auto simp: typed_by_word_def split: option.splits pyval.splits)

text \<open>
  Claim C4, as stated, fails on the file \<open>_a.mp4\<close>: its name has six characters, four
  without the extension, yet the indexer derives the word \<open>a\<close> from it and types it
  \<open>letter\<close>, while the populate script derives \<open>_a\<close> from the same name and types it \<open>word\<close>.
\<close>

theorem clip_type_filename_counterexample:
  "video_index (index_s3_files memory_client test_env [(py ''_a.mp4'', py ''v'')] example_state)
     = [(py ''a'', \<lparr>word = py ''a'', key = py ''_a.mp4'',
                 url = py ''https://echosignuobs.s3.eu-north-1.amazonaws.com/_a.mp4'',
                 vtype = py ''letter''\<rparr>)]
   \<and> length (py ''_a.mp4'') = 6 \<and> stem (py ''_a.mp4'') = py ''_a''
   \<and> snd (populate_database example_listdir always_executed no_clip (py ''t1'') [py ''videos'']
          [py ''PSL'', py ''GSL'', py ''ASL''] [])
       = [[(py ''word'', Str (py ''hello'')), (py ''language'', Str (py ''PSL'')),
           (py ''file_path'', Str (py ''/videos/PSL/Hello.mp4'')), (py ''type'', Str (py ''word'')),
           (py ''duration'', NoneVal), (py ''resolution'', NoneVal), (py ''updated_at'', Str (py ''t1''))],
          [(py ''word'', Str (py ''_a'')), (py ''language'', Str (py ''PSL'')),
           (py ''file_path'', Str (py ''/videos/PSL/_a.mp4'')), (py ''type'', Str (py ''word'')),
           (py ''duration'', NoneVal), (py ''resolution'', NoneVal), (py ''updated_at'', Str (py ''t1''))]]"
  by code_simp

text \<open>
  Claim C4, amended. Every approved index entry, every row the populate script writes and
  every document the push script writes is classified by the length of the word its
  component derives from the file name: \<open>word\<close> when that word has more than one character,
  \<open>letter\<close> otherwise. In the index the derived word is never empty, so an entry is typed
  \<open>letter\<close> exactly when its word has length 1.
\<close>

theorem clip_type_by_derived_word:
  "(S3_AVAILABLE st \<and> listing_ok (list_objects_v2 cl s) \<longrightarrow>
      (\<forall>w ent. map_of (video_index (index_s3_files cl e s st)) w = Some ent \<longrightarrow>
         word ent = word_of_key (key ent) \<and> word ent \<noteq> [] \<and>
         vtype ent = (if length (word ent) > 1 then py ''word'' else py ''letter'') \<and>
         (vtype ent = py ''letter'' \<longleftrightarrow> length (word ent) = 1)))
   \<and> (\<forall>r \<in> set (snd (populate_database listdir execute probe_clip now video_dirs
                       languages tbl)).
      r \<in> set tbl \<or>
      (\<exists>w. map_of r (py ''word'') = Some (Str w) \<and>
           map_of r (py ''type'') = Some (Str (if length w > 1 then py ''word'' else py ''letter''))))
   \<and> (\<forall>d \<in> set (final_collection (push_dataset cfg cl ping held applied is_dir files s' coll)).
      d \<in> set coll \<or>
      (\<exists>w. map_of d (py ''word'') = Some (Str w) \<and>
           map_of d (py ''type'') = Some (Str (if length w > 1 then py ''word'' else py ''letter''))))"
proof (intro conjI ballI impI allI)
  fix w ent
  assume a: "S3_AVAILABLE st \<and> listing_ok (list_objects_v2 cl s)"
    and m: "map_of (video_index (index_s3_files cl e s st)) w = Some ent"
  from a have "indexed (listed_keys (list_objects_v2 cl s))
           (video_index (index_s3_files cl e s st), pending_index (index_s3_files cl e s st))"
    by (simp add: index_s3_files_indexed)
  with m have f: "word ent = w" "approved_key (key ent)" "word_of_key (key ent) = w"
      "vtype ent = clip_type w"
    by (auto simp: indexed_def)
  then have ne: "w \<noteq> []" by (auto simp: approved_key_def)
  show "word ent = word_of_key (key ent)" using f by simp
  show "word ent \<noteq> []" using f ne by simp
  show "vtype ent = (if length (word ent) > 1 then py ''word'' else py ''letter'')"
    using f by (simp add: clip_type_def)
  show "(vtype ent = py ''letter'') = (length (word ent) = 1)"
    using f ne by (cases w) (auto simp: clip_type_def)
next
  fix r
  assume "r \<in> set (snd (populate_database listdir execute probe_clip now video_dirs
                          languages tbl))"
  then have "r \<in> set tbl \<or> populated_row r"
    by (rule populate_database_set)
  then show "r \<in> set tbl \<or>
      (\<exists>w. map_of r (py ''word'') = Some (Str w) \<and>
           map_of r (py ''type'') = Some (Str (if length w > 1 then py ''word'' else py ''letter'')))"
    by (auto simp: populated_row_def typed_by_word_iff clip_type_def)
next
  fix d
  assume "d \<in> set (final_collection (push_dataset cfg cl ping held applied is_dir files s' coll))"
  then have "d \<in> set coll \<or> pushed_doc d"
    using push_dataset_collection [of cfg cl ping held applied is_dir files s' coll]
    by (auto dest: fold_keyed_set)
  then show "d \<in> set coll \<or>
      (\<exists>w. map_of d (py ''word'') = Some (Str w) \<and>
           map_of d (py ''type'') = Some (Str (if length w > 1 then py ''word'' else py ''letter'')))"
    by (auto simp: pushed_doc_def typed_by_word_iff clip_type_def)
qed

text \<open>Claim C4, amended, on the example store, whose key \<open>a.mp4\<close> gives the word \<open>a\<close>, a letter.\<close>

theorem clip_type_by_derived_word_witness:
  "S3_AVAILABLE example_state \<and> listing_ok (list_objects_v2 memory_client example_store)
   \<and> map_of (video_index (index_s3_files memory_client test_env example_store example_state))
        (py ''a'')
       = Some \<lparr>word = py ''a'', key = py ''a.mp4'',
               url = py ''https://echosignuobs.s3.eu-north-1.amazonaws.com/a.mp4'',
               vtype = py ''letter''\<rparr>
   \<and> word_of_key (py ''a.mp4'') = py ''a'' \<and> length (py ''a'') = 1"
proof -
  have h1: "S3_AVAILABLE example_state" by (simp add: example_state_def)
  have h2: "listing_ok (list_objects_v2 memory_client example_store)" by code_simp
  have v: "map_of (video_index
                     (index_s3_files memory_client test_env example_store example_state)) (py ''a'')
       = Some \<lparr>word = py ''a'', key = py ''a.mp4'',
               url = py ''https://echosignuobs.s3.eu-north-1.amazonaws.com/a.mp4'',
               vtype = py ''letter''\<rparr>"
    by code_simp
  from clip_type_by_derived_word
         [where st = example_state and cl = memory_client and s = example_store
            and e = test_env]
    h1 h2
  have "\<forall>w ent. map_of (video_index
                            (index_s3_files memory_client test_env example_store example_state))
                   w = Some ent
          \<longrightarrow> word ent = word_of_key (key ent)"
    by blast
  with v have "word_of_key (py ''a.mp4'') = py ''a''" by fastforce
  with h1 h2 v show ?thesis by simp
qed

end
